theory Spec2Isabelle
  imports Complex_Main "HOL-Library.Monad_Syntax"
begin

text \<open>
  A model of the trade-log assistant: the ledger code of \<open>server/src/sheets.ts\<close>, the
  agent and the request handler of \<open>server/src/index.ts\<close>, and their counterparts in
  the single file \<open>api/chat.ts\<close>. Each function of the source is a function here, under
  its name; where the two files differ there are two functions, the second with the suffix
  \<open>_api\<close>. An \<open>Error\<close> that the source throws is a value of a sum type.
\<close>

section \<open>JavaScript values\<close>

subsection \<open>Strings\<close>

text \<open>
  A JavaScript string is modelled as a \<^typ>\<open>string\<close>, one \<^typ>\<open>char\<close> per code unit.
  A \<^typ>\<open>char\<close> has eight bits, so the model covers the text whose code units are below
  256. On it the white space of \<open>trim\<close> and of the class \<open>\s\<close> is the six ASCII
  characters and the no-break space.
\<close>

definition isWhiteSpace :: "char \<Rightarrow> bool" where
  "isWhiteSpace c \<longleftrightarrow>
     c = CHR 0x09 \<or> c = CHR 0x0A \<or> c = CHR 0x0B \<or> c = CHR 0x0C \<or> c = CHR 0x0D \<or> c = CHR '' '' \<or>
     c = CHR 0xA0"

definition trim :: "string \<Rightarrow> string" where
  "trim s = rev (dropWhile isWhiteSpace (rev (dropWhile isWhiteSpace s)))"

text \<open>
  The letters that have two cases: the 26 of ASCII and the 30 of the range from \<open>0xC0\<close>
  to \<open>0xFE\<close> (all of it but the signs \<open>0xD7\<close> and \<open>0xF7\<close>), upper case first. Three
  code units have an upper case that is not one code unit below 256 (\<open>0xB5\<close>, \<open>0xDF\<close>
  and \<open>0xFF\<close>): text that holds them is outside the model.
\<close>

definition upper_lower :: "(char \<times> char) list" where
  "upper_lower =
     zip ''ABCDEFGHIJKLMNOPQRSTUVWXYZ'' ''abcdefghijklmnopqrstuvwxyz'' @
     zip [CHR 0xC0, CHR 0xC1, CHR 0xC2, CHR 0xC3, CHR 0xC4, CHR 0xC5, CHR 0xC6, CHR 0xC7,
          CHR 0xC8, CHR 0xC9, CHR 0xCA, CHR 0xCB, CHR 0xCC, CHR 0xCD, CHR 0xCE, CHR 0xCF,
          CHR 0xD0, CHR 0xD1, CHR 0xD2, CHR 0xD3, CHR 0xD4, CHR 0xD5, CHR 0xD6,
          CHR 0xD8, CHR 0xD9, CHR 0xDA, CHR 0xDB, CHR 0xDC, CHR 0xDD, CHR 0xDE]
         [CHR 0xE0, CHR 0xE1, CHR 0xE2, CHR 0xE3, CHR 0xE4, CHR 0xE5, CHR 0xE6, CHR 0xE7,
          CHR 0xE8, CHR 0xE9, CHR 0xEA, CHR 0xEB, CHR 0xEC, CHR 0xED, CHR 0xEE, CHR 0xEF,
          CHR 0xF0, CHR 0xF1, CHR 0xF2, CHR 0xF3, CHR 0xF4, CHR 0xF5, CHR 0xF6,
          CHR 0xF8, CHR 0xF9, CHR 0xFA, CHR 0xFB, CHR 0xFC, CHR 0xFD, CHR 0xFE]"

definition toLowerChar :: "char \<Rightarrow> char" where
  "toLowerChar c = (case map_of upper_lower c of Some d \<Rightarrow> d | None \<Rightarrow> c)"

definition toUpperChar :: "char \<Rightarrow> char" where
  "toUpperChar c = (case map_of (map (\<lambda>(u, l). (l, u)) upper_lower) c of Some d \<Rightarrow> d | None \<Rightarrow> c)"

definition toLowerCase :: "string \<Rightarrow> string" where
  "toLowerCase s = map toLowerChar s"

definition toUpperCase :: "string \<Rightarrow> string" where
  "toUpperCase s = map toUpperChar s"

definition isDigit :: "char \<Rightarrow> bool" where
  "isDigit c \<longleftrightarrow> c \<in> set ''0123456789''"

fun startsWith :: "string \<Rightarrow> string \<Rightarrow> bool" where
  "startsWith s [] = True"
| "startsWith [] (p # ps) = False"
| "startsWith (c # cs) (p # ps) = (c = p \<and> startsWith cs ps)"

fun str_includes :: "string \<Rightarrow> string \<Rightarrow> bool" where
  "str_includes [] p = (p = [])"
| "str_includes (c # cs) p = (startsWith (c # cs) p \<or> str_includes cs p)"

fun join :: "string \<Rightarrow> string list \<Rightarrow> string" where
  "join sep [] = []"
| "join sep [x] = x"
| "join sep (x # y # ys) = x @ sep @ join sep (y # ys)"

subsection \<open>Optional values\<close>

text \<open>\<open>!s\<close> for an optional string: \<open>undefined\<close> and the empty string are falsy.\<close>

definition falsy :: "string option \<Rightarrow> bool" where
  "falsy v \<longleftrightarrow> (case v of None \<Rightarrow> True | Some s \<Rightarrow> s = [])"

text \<open>\<open>x ?? d\<close>\<close>

definition orElse :: "'a option \<Rightarrow> 'a \<Rightarrow> 'a" where
  "orElse x d = (case x of None \<Rightarrow> d | Some y \<Rightarrow> y)"

subsection \<open>Numbers\<close>

text \<open>
  A JavaScript number is a finite value, \<open>NaN\<close> or one of the two infinities. Every finite
  binary64 value is a rational. The two zeros are identified: the program never divides by
  a zero and every other operation it uses treats them alike.

  The tests on a number that the program uses (\<open>Number.isFinite\<close>, \<open>=== 0\<close>, \<open>> 0\<close>,
  truthiness) are defined on this type. The operations whose result depends on binary64
  rounding or on the shortest-digits algorithm (\<open>Number(s)\<close>, \<open>*\<close>, \<open>+\<close>, \<open>/\<close>,
  \<open>String(x)\<close>) are taken as a parameter \<open>js\<close>, so that what is proved for every \<open>js\<close>
  holds for the arithmetic of the runtime.
\<close>

datatype number = Num rat | NaN | PosInfinity | NegInfinity

fun isFinite :: "number \<Rightarrow> bool" where
  "isFinite (Num r) = True"
| "isFinite _ = False"

fun isZero :: "number \<Rightarrow> bool" where
  "isZero (Num r) = (r = 0)"
| "isZero _ = False"

fun truthy :: "number \<Rightarrow> bool" where
  "truthy (Num r) = (r \<noteq> 0)"
| "truthy NaN = False"
| "truthy _ = True"

fun gtZero :: "number \<Rightarrow> bool" where
  "gtZero (Num r) = (0 < r)"
| "gtZero PosInfinity = True"
| "gtZero _ = False"

record js_arith =
  js_Number :: "string \<Rightarrow> number"
  js_times :: "number \<Rightarrow> number \<Rightarrow> number"
  js_plus :: "number \<Rightarrow> number \<Rightarrow> number"
  js_divide :: "number \<Rightarrow> number \<Rightarrow> number"
  js_String :: "number \<Rightarrow> string"

text \<open>
  The text of a number that is a natural number below \<open>10^21\<close>, such as the length of an
  array or a counter: its decimal digits.
\<close>

definition digit_char :: "nat \<Rightarrow> char" where
  "digit_char n = ''0123456789'' ! (n mod 10)"

fun nat_digits :: "nat \<Rightarrow> string" where
  "nat_digits n = (if n < 10 then [digit_char n] else nat_digits (n div 10) @ [digit_char n])"

declare nat_digits.simps [simp del]

text \<open>
  \<open>x.toFixed(fractionDigits)\<close>, which ECMAScript defines on the exact value of \<open>x\<close>: a
  value that is not finite is printed by \<open>String\<close>; otherwise the sign is set apart, and
  a magnitude of \<open>10^21\<close> or more is printed by \<open>String\<close>; below that, \<open>n\<close> is the
  integer for which \<open>n / 10^fractionDigits\<close> is nearest to the magnitude (the larger one
  of two), and its digits are printed, padded with zeros to at least
  \<open>fractionDigits + 1\<close> digits, with a dot before the last \<open>fractionDigits\<close> of them.
\<close>

definition toFixed :: "js_arith \<Rightarrow> number \<Rightarrow> nat \<Rightarrow> string" where
  "toFixed js x fractionDigits =
     (case x of
        Num r \<Rightarrow>
          (if r < 0 then ''-'' else []) @
          (if 10 ^ 21 \<le> \<bar>r\<bar> then js_String js (Num \<bar>r\<bar>)
           else
             let n = nat \<lfloor>\<bar>r\<bar> * 10 ^ fractionDigits + 1 / 2\<rfloor>;
                 m = nat_digits n
             in if fractionDigits = 0 then m
                else
                  let m = replicate (fractionDigits + 1 - length m) CHR ''0'' @ m;
                      k = length m
                  in take (k - fractionDigits) m @ ''.'' @ drop (k - fractionDigits) m)
      | _ \<Rightarrow> js_String js x)"

section \<open>Data model (types.ts)\<close>

text \<open>
  The transaction type of a trade has the type \<open>"buy" | "sell"\<close>;
  \<open>transactionType_text\<close> is the string that a value of it is.
\<close>

datatype TransactionType = Buy | Sell

fun transactionType_text :: "TransactionType \<Rightarrow> string" where
  "transactionType_text Buy = ''buy''"
| "transactionType_text Sell = ''sell''"

record TradeInput =
  symbol :: string
  transactionType :: TransactionType
  quantity :: number
  amountPerUnit :: number
  totalAmount :: number
  tradingFees :: number
  investmentAccount :: string
  date :: string

text \<open>
  The column names of the configuration are optional in \<open>api/chat.ts\<close> and required in
  the server's \<open>types.ts\<close>: \<open>None\<close> is \<open>undefined\<close>.
\<close>

record Columns =
  col_date :: "string option"
  col_transactionType :: "string option"
  col_symbol :: "string option"
  col_quantity :: "string option"
  col_amountPerUnit :: "string option"
  col_totalAmount :: "string option"
  col_tradingFees :: "string option"
  col_investmentAccount :: "string option"

record TradeLogConfig =
  sheetName :: string
  headerRow :: int
  dataStartRow :: "int option"
  columns :: Columns

text \<open>The configuration that \<open>api/chat.ts\<close> fixes.\<close>

definition config_api :: TradeLogConfig where
  "config_api =
     \<lparr>sheetName = ''Trade Log'', headerRow = 7, dataStartRow = Some 8,
      columns =
        \<lparr>col_date = Some ''Date (MM-DD-YYYY)'',
         col_transactionType = Some ''Transaction Type'',
         col_symbol = Some ''Stock / ETF Symbol'',
         col_quantity = Some ''Quantity of Units'',
         col_amountPerUnit = Some ''Amount per unit'',
         col_totalAmount = Some ''Total Amount (before trading fees)'',
         col_tradingFees = Some ''Trading Fees'',
         col_investmentAccount = Some ''Investment Account''\<rparr>\<rparr>"

section \<open>Row mapper (sheets.ts, api/chat.ts)\<close>

text \<open>\<open>Record<string, number>\<close>: from the text of a header to its column position.\<close>

type_synonym HeaderIndex = "string \<rightharpoonup> nat"

definition DEFAULT_INVESTMENT_ACCOUNT :: string where
  "DEFAULT_INVESTMENT_ACCOUNT = ''Interactive Brokers (IBKR)''"

definition VALID_TRANSACTION_TYPES :: "string list" where
  "VALID_TRANSACTION_TYPES =
     [''Buy'', ''Sell'', ''Dividend'', ''Split'', ''Return of capital'',
      ''Cost Base Adj.'', ''Reinvested capital gain distribution'']"

definition normalizeTransactionType :: "string \<Rightarrow> string" where
  "normalizeTransactionType input =
     (let trimmed = trim input in
      case find (\<lambda>value. toLowerCase value = toLowerCase trimmed) VALID_TRANSACTION_TYPES of
        Some value \<Rightarrow> value
      | None \<Rightarrow> trimmed)"

datatype build_error = InvalidTransactionType string | NoMatchingHeaders

text \<open>The second component of an entry: \<open>string | number | null | undefined\<close>.\<close>

datatype entry_value = Str string | Number number | Nullish

fun entry_text :: "js_arith \<Rightarrow> entry_value \<Rightarrow> string" where
  "entry_text js (Str s) = s"
| "entry_text js (Number n) = js_String js n"
| "entry_text js Nullish = []"

text \<open>
  \<open>header ? headerIndex[header] : undefined\<close>, kept when it is a number: an undefined
  or empty header resolves to nothing.
\<close>

definition resolve :: "HeaderIndex \<Rightarrow> string option \<Rightarrow> nat option" where
  "resolve headerIndex header =
     (case header of None \<Rightarrow> None | Some h \<Rightarrow> if h = [] then None else headerIndex h)"

text \<open>The constant \<open>totalAmount\<close> that \<open>buildRow\<close> computes.\<close>

definition effectiveTotal :: "js_arith \<Rightarrow> TradeInput \<Rightarrow> number" where
  "effectiveTotal js trade =
     (if isFinite (totalAmount trade) \<and> \<not> isZero (totalAmount trade)
      then totalAmount trade
      else js_times js (quantity trade) (amountPerUnit trade))"

definition entries :: "js_arith \<Rightarrow> TradeInput \<Rightarrow> string \<Rightarrow> TradeLogConfig
    \<Rightarrow> (string option \<times> entry_value) list" where
  "entries js trade normalizedType config =
     [(col_date (columns config), Str (date trade)),
      (col_transactionType (columns config), Str normalizedType),
      (col_symbol (columns config), Str (symbol trade)),
      (col_quantity (columns config), Number (quantity trade)),
      (col_amountPerUnit (columns config), Number (amountPerUnit trade)),
      (col_totalAmount (columns config), Number (effectiveTotal js trade)),
      (col_tradingFees (columns config), Number (tradingFees trade)),
      (col_investmentAccount (columns config), Str DEFAULT_INVESTMENT_ACCOUNT)]"

definition indices :: "HeaderIndex \<Rightarrow> (string option \<times> entry_value) list \<Rightarrow> nat list" where
  "indices headerIndex es = List.map_filter (\<lambda>(header, value). resolve headerIndex header) es"

text \<open>
  The \<open>forEach\<close> that fills the row. Every index written is at most \<open>maxIndex\<close>, so the
  assignment never extends the array.
\<close>

definition fillRow :: "js_arith \<Rightarrow> HeaderIndex \<Rightarrow> (string option \<times> entry_value) list
    \<Rightarrow> string list \<Rightarrow> string list" where
  "fillRow js headerIndex es row =
     foldl (\<lambda>row (header, value).
              case resolve headerIndex header of
                None \<Rightarrow> row
              | Some idx \<Rightarrow> row[idx := entry_text js value]) row es"

text \<open>The row mapper of \<open>api/chat.ts\<close>.\<close>

definition buildRow_api :: "js_arith \<Rightarrow> TradeInput \<Rightarrow> HeaderIndex \<Rightarrow> TradeLogConfig
    \<Rightarrow> build_error + string list" where
  "buildRow_api js trade headerIndex cfg =
     (let normalizedType = normalizeTransactionType (transactionType_text (transactionType trade));
          es = entries js trade normalizedType cfg;
          is = indices headerIndex es
      in if is = [] then Inl NoMatchingHeaders
         else let maxIndex = Max (set is);
                  row = replicate (maxIndex + 1) []
              in Inr (fillRow js headerIndex es row))"

text \<open>The row mapper of the server's \<open>sheets.ts\<close>, which checks the transaction type first.\<close>

definition buildRow :: "js_arith \<Rightarrow> TradeInput \<Rightarrow> HeaderIndex \<Rightarrow> TradeLogConfig
    \<Rightarrow> build_error + string list" where
  "buildRow js trade headerIndex config =
     (let normalizedType = normalizeTransactionType (transactionType_text (transactionType trade))
      in if normalizedType \<notin> set VALID_TRANSACTION_TYPES
         then Inl (InvalidTransactionType (transactionType_text (transactionType trade)))
         else
           let es = entries js trade normalizedType config;
               is = indices headerIndex es
           in if is = [] then Inl NoMatchingHeaders
              else let maxIndex = Max (set is);
                       row = replicate (maxIndex + 1) []
                   in Inr (fillRow js headerIndex es row))"

text \<open>The headers of the eight fields, in the order of the entries.\<close>

definition configuredHeaders :: "TradeLogConfig \<Rightarrow> string option list" where
  "configuredHeaders config =
     [col_date (columns config), col_transactionType (columns config), col_symbol (columns config),
      col_quantity (columns config), col_amountPerUnit (columns config),
      col_totalAmount (columns config), col_tradingFees (columns config),
      col_investmentAccount (columns config)]"

text \<open>The column positions that the configured fields resolve to.\<close>

definition resolvedColumns :: "HeaderIndex \<Rightarrow> TradeLogConfig \<Rightarrow> nat list" where
  "resolvedColumns headerIndex config =
     List.map_filter (resolve headerIndex) (configuredHeaders config)"

section \<open>Capacity manager (sheets.ts, api/chat.ts)\<close>

text \<open>
  The metadata that \<open>spreadsheets.get\<close> returns for the requested fields: for every
  sheet its \<open>properties\<close>, every member of which may be absent.
\<close>

record GridProperties =
  grid_rowCount :: "int option"
  grid_columnCount :: "int option"

record Properties =
  prop_sheetId :: "int option"
  prop_title :: "string option"
  prop_gridProperties :: "GridProperties option"

text \<open>
  What a call of the Sheets client throws, as far as \<open>formatSheetsError\<close> reads it:
  \<open>err_status\<close> is \<open>err?.status ?? err?.code ?? err?.response?.status\<close>, and
  \<open>err_message\<close> is the message when the raised value is an \<open>Error\<close>.
\<close>

record ApiError =
  err_status :: "int option"
  err_apiStatus :: "string option"
  err_apiMessage :: "string option"
  err_message :: "string option"

text \<open>What the capacity manager throws: an \<open>Error\<close> that it made, or the one it caught.\<close>

datatype failure = Failure string | Thrown ApiError

definition formatSheetsError :: "ApiError \<Rightarrow> string \<Rightarrow> string \<Rightarrow> string \<Rightarrow> failure" where
  "formatSheetsError err spreadsheetId clientEmail doing =
     (if err_status err = Some 403 \<or> err_apiStatus err = Some ''PERMISSION_DENIED''
      then Failure (''Google Sheets permission denied while '' @ doing @ '' for spreadsheet '' @
                    spreadsheetId @ ''. '' @ ''Share the sheet with the service account '' @
                    clientEmail @ ''.'')
      else if err_status err = Some 404 \<or> err_apiStatus err = Some ''NOT_FOUND''
      then Failure (''Google Sheets spreadsheet not found while '' @ doing @ ''. '' @
                    ''Check GOOGLE_SHEETS_SPREADSHEET_ID ('' @ spreadsheetId @ '').'')
      else if \<not> falsy (err_apiMessage err)
      then Failure (''Google Sheets error while '' @ doing @ '': '' @ the (err_apiMessage err))
      else if err_message err \<noteq> None then Thrown err
      else Failure (''Google Sheets error while '' @ doing @ ''.''))"

text \<open>
  The two calls that the capacity manager makes: the answer of \<open>spreadsheets.get\<close>
  (\<open>Inl\<close> when it throws; the list of sheets may be absent), and what
  \<open>spreadsheets.batchUpdate\<close> throws, if it does.
\<close>

record SheetsClient =
  spreadsheets_get :: "ApiError + Properties option list option"
  batchUpdate_throws :: "ApiError option"

text \<open>The value that \<open>getSheetProperties\<close> returns.\<close>

record SheetProperties =
  sheetId :: int
  rowCount :: int
  columnCount :: int

text \<open>
  \<open>response.data.sheets?.find((entry) => entry.properties?.title === sheetName)\<close>, and
  then the \<open>properties\<close> of the sheet found.
\<close>

definition findSheet :: "Properties option list option \<Rightarrow> string \<Rightarrow> Properties option" where
  "findSheet sheets sheetName' =
     (case sheets of
        None \<Rightarrow> None
      | Some sheetList \<Rightarrow>
          (case List.find (\<lambda>entry. case entry of
                                     None \<Rightarrow> False
                                   | Some props \<Rightarrow> prop_title props = Some sheetName') sheetList of
             None \<Rightarrow> None
           | Some entry \<Rightarrow> entry))"

definition sheetNotFound :: "string \<Rightarrow> string \<Rightarrow> failure" where
  "sheetNotFound sheetName' spreadsheetId =
     Failure (''Sheet '' @ [CHR 0x27] @ sheetName' @ [CHR 0x27] @ '' not found in spreadsheet '' @
              spreadsheetId @ ''.'')"

text \<open>
  The part of \<open>getSheetProperties\<close> after the call. \<open>!properties?.sheetId\<close> holds when
  the identifier is absent and when it is 0.
\<close>

definition readProperties :: "Properties option list option \<Rightarrow> string \<Rightarrow> string
    \<Rightarrow> failure + SheetProperties" where
  "readProperties sheets spreadsheetId sheetName' =
     (case findSheet sheets sheetName' of
        None \<Rightarrow> Inl (sheetNotFound sheetName' spreadsheetId)
      | Some properties \<Rightarrow>
          (case (prop_sheetId properties, prop_gridProperties properties) of
             (Some identifier, Some grid) \<Rightarrow>
               if identifier = 0 then Inl (sheetNotFound sheetName' spreadsheetId)
               else Inr \<lparr>sheetId = identifier,
                         rowCount = orElse (grid_rowCount grid) 0,
                         columnCount = orElse (grid_columnCount grid) 0\<rparr>
           | _ \<Rightarrow> Inl (sheetNotFound sheetName' spreadsheetId)))"

text \<open>
  \<open>getSheetProperties\<close> of the server wraps what the call throws; that of
  \<open>api/chat.ts\<close> lets it through.
\<close>

definition getSheetProperties :: "SheetsClient \<Rightarrow> string \<Rightarrow> string \<Rightarrow> string
    \<Rightarrow> failure + SheetProperties" where
  "getSheetProperties client clientEmail spreadsheetId sheetName' =
     (case spreadsheets_get client of
        Inl err \<Rightarrow> Inl (formatSheetsError err spreadsheetId clientEmail ''reading sheet metadata'')
      | Inr sheets \<Rightarrow> readProperties sheets spreadsheetId sheetName')"

definition getSheetProperties_api :: "SheetsClient \<Rightarrow> string \<Rightarrow> string \<Rightarrow> failure + SheetProperties" where
  "getSheetProperties_api client spreadsheetId sheetName' =
     (case spreadsheets_get client of
        Inl err \<Rightarrow> Inl (Thrown err)
      | Inr sheets \<Rightarrow> readProperties sheets spreadsheetId sheetName')"

text \<open>The \<open>updateSheetProperties\<close> request of a \<open>batchUpdate\<close> call.\<close>

record UpdateSheetProperties =
  upd_sheetId :: int
  upd_rowCount :: int
  upd_columnCount :: int

text \<open>
  What a call of \<open>ensureSheetCapacity\<close> leaves: the resize requests that it has sent,
  and what it throws, if it does.
\<close>

record Capacity =
  resizes :: "UpdateSheetProperties list"
  raised :: "failure option"

text \<open>The server's version (\<open>sheets.ts\<close>):\<close>

definition ensureSheetCapacity :: "SheetsClient \<Rightarrow> string \<Rightarrow> string \<Rightarrow> string \<Rightarrow> int \<Rightarrow> int
    \<Rightarrow> Capacity" where
  "ensureSheetCapacity client clientEmail spreadsheetId sheetName' minRows minColumns =
     (case getSheetProperties client clientEmail spreadsheetId sheetName' of
        Inl e \<Rightarrow> \<lparr>resizes = [], raised = Some e\<rparr>
      | Inr props \<Rightarrow>
          let targetRows = max (rowCount props) minRows;
              targetColumns = max (columnCount props) minColumns
          in if targetRows = rowCount props \<and> targetColumns = columnCount props
             then \<lparr>resizes = [], raised = None\<rparr>
             else
               \<lparr>resizes = [\<lparr>upd_sheetId = sheetId props, upd_rowCount = targetRows,
                             upd_columnCount = targetColumns\<rparr>],
                raised = map_option (\<lambda>err. formatSheetsError err spreadsheetId clientEmail
                                              ''resizing the trade log sheet'')
                           (batchUpdate_throws client)\<rparr>)"

text \<open>The version of \<open>api/chat.ts\<close>, which adds a buffer of 10 rows:\<close>

definition ensureSheetCapacity_api :: "SheetsClient \<Rightarrow> string \<Rightarrow> string \<Rightarrow> int \<Rightarrow> int \<Rightarrow> Capacity" where
  "ensureSheetCapacity_api client spreadsheetId sheetName' minRows minColumns =
     (case getSheetProperties_api client spreadsheetId sheetName' of
        Inl e \<Rightarrow> \<lparr>resizes = [], raised = Some e\<rparr>
      | Inr props \<Rightarrow>
          let targetRows = max (rowCount props) (minRows + 10);
              targetColumns = max (columnCount props) minColumns
          in if targetRows = rowCount props \<and> targetColumns = columnCount props
             then \<lparr>resizes = [], raised = None\<rparr>
             else
               \<lparr>resizes = [\<lparr>upd_sheetId = sheetId props, upd_rowCount = targetRows,
                             upd_columnCount = targetColumns\<rparr>],
                raised = map_option Thrown (batchUpdate_throws client)\<rparr>)"

section \<open>Slot finder (appendTradeRow in sheets.ts, api/chat.ts)\<close>

text \<open>\<open>Array.prototype.findIndex\<close>: the first index whose element satisfies \<open>P\<close>, or \<open>-1\<close>.\<close>

fun findIndex :: "('a \<Rightarrow> bool) \<Rightarrow> 'a list \<Rightarrow> int" where
  "findIndex P [] = - 1"
| "findIndex P (x # xs) =
     (if P x then 0 else let i = findIndex P xs in if i = - 1 then - 1 else i + 1)"

text \<open>
  The rows read from the sheet have type \<open>string[][]\<close>, on which the guards \<open>?.\<close> and
  \<open>??\<close> of the source do nothing.
  \<open>!existingRow?.some((cell) => String(cell ?? "").trim())\<close>:
\<close>

definition isEmptyRow :: "string list \<Rightarrow> bool" where
  "isEmptyRow existingRow \<longleftrightarrow> \<not> list_ex (\<lambda>cell. trim cell \<noteq> []) existingRow"

definition firstEmptyIndex :: "string list list \<Rightarrow> int" where
  "firstEmptyIndex rows = findIndex isEmptyRow rows"

definition targetRow :: "int \<Rightarrow> string list list \<Rightarrow> int" where
  "targetRow startRow rows =
     startRow + (if firstEmptyIndex rows = - 1 then int (length rows) else firstEmptyIndex rows)"

section \<open>Agent (the server's agent module, api/chat.ts)\<close>

subsection \<open>Types\<close>

datatype Role = User | Assistant

record ChatMessage =
  role :: Role
  content :: string

record SummaryQuery =
  q_symbol :: "string option"
  startDate :: "string option"
  endDate :: "string option"

text \<open>The query \<open>{}\<close>.\<close>

definition emptyQuery :: SummaryQuery where
  "emptyQuery = \<lparr>q_symbol = None, startDate = None, endDate = None\<rparr>"

datatype Action = Log_trade | Summarize | Unknown

text \<open>
  What \<open>interpretMessage\<close> returns. A \<open>trade\<close> or \<open>summary\<close> that is \<open>null\<close> or
  \<open>undefined\<close> is \<open>None\<close>: the callers do not tell the two apart.
\<close>

record Interpretation =
  action :: Action
  trade :: "TradeInput option"
  summary :: "SummaryQuery option"

datatype ToolStatus = Used | Attempted | Not_configured | Error | Skipped

text \<open>The \<open>linkup\<close> member of \<open>ToolUsage\<close>.\<close>

record ToolUsage =
  status :: ToolStatus
  results :: nat

record LinkupSearchResult =
  res_name :: "string option"
  res_url :: "string option"
  res_content :: "string option"

record LinkupSearchResponse =
  payload_results :: "LinkupSearchResult list option"

datatype LinkupSearchOutcome = Outcome_not_configured | Outcome_error | Outcome_ok LinkupSearchResponse

text \<open>A row read back from the sheet, \<open>Record<string, string>\<close>, in key order.\<close>

type_synonym row = "(string \<times> string) list"

text \<open>The context that the handlers pass to \<open>generateReply\<close>.\<close>

datatype reply_context =
  LogTradeContext TradeInput
| SummarizeContext SummaryQuery string
| UnknownContext
| ErrorContext string

subsection \<open>The runtime\<close>

text \<open>A value that \<open>JSON.parse\<close> returns.\<close>

datatype json =
  JNull | JBool bool | JNumber number | JString string
| JArray "json list" | JObject "(string \<times> json) list"

text \<open>
  A prompt sent to the completion service is a fixed text around these parts: the history
  and the message for \<open>interpretMessage\<close>; the history, the context, the search payload
  and the message for \<open>generateReply\<close>.
\<close>

datatype prompt =
  InterpretPrompt "ChatMessage list" string
| ReplyPrompt "ChatMessage list" reply_context "LinkupSearchResponse option" string

text \<open>
  The answer of the search service to a \<open>fetch\<close>: the call throws, or gives a response
  with its \<open>ok\<close> flag and its body (\<open>None\<close> when reading the body as JSON throws).
\<close>

datatype fetch_result = FetchThrows | FetchResponse bool "LinkupSearchResponse option"

text \<open>
  Everything outside the program: the built-ins that are not modelled by a definition,
  the environment variables and the outcomes of the calls to the external services. A
  thrown \<open>Error\<close> is its message. The same request made twice in one turn gets the same
  answer.
  \<^item> \<open>JSON_parse\<close>: \<open>None\<close> when \<open>JSON.parse\<close> throws.
  \<^item> \<open>Date_time\<close>: the time value of \<open>new Date(s)\<close>, \<open>None\<close> when it is \<open>NaN\<close>.
  \<^item> \<open>completions_create\<close>: \<open>Inl\<close> when the call throws, else the content of the
    first choice (\<open>None\<close> when there is none).
  \<^item> \<open>appendTradeRow_outcome\<close>: \<open>Some\<close> message when \<open>appendTradeRow\<close> throws.
  \<^item> \<open>readTrades_outcome\<close>: \<open>Inl\<close> when \<open>readTrades\<close> throws.
\<close>

record runtime =
  arith :: js_arith
  JSON_parse :: "string \<Rightarrow> json option"
  Date_time :: "string \<Rightarrow> int option"
  OPENAI_API_KEY :: "string option"
  LINKUP_API_KEY :: "string option"
  completions_create :: "prompt \<Rightarrow> string + string option"
  fetch_linkup :: "string \<Rightarrow> fetch_result"
  appendTradeRow_outcome :: "TradeInput \<Rightarrow> string option"
  readTrades_outcome :: "string + row list"

subsection \<open>The response schema\<close>

definition z_string :: "json option \<Rightarrow> string option" where
  "z_string v = (case v of Some (JString s) \<Rightarrow> Some s | _ \<Rightarrow> None)"

definition z_number :: "json option \<Rightarrow> number option" where
  "z_number v = (case v of Some (JNumber n) \<Rightarrow> if n = NaN then None else Some n | _ \<Rightarrow> None)"

definition z_transactionType :: "json option \<Rightarrow> TransactionType option" where
  "z_transactionType v =
     (case v of
        Some (JString s) \<Rightarrow> if s = ''buy'' then Some Buy else if s = ''sell'' then Some Sell else None
      | _ \<Rightarrow> None)"

definition z_action :: "json option \<Rightarrow> Action option" where
  "z_action v =
     (case v of
        Some (JString s) \<Rightarrow>
          if s = ''log_trade'' then Some Log_trade
          else if s = ''summarize'' then Some Summarize
          else if s = ''unknown'' then Some Unknown
          else None
      | _ \<Rightarrow> None)"

text \<open>\<open>.nullable().optional()\<close>: an absent member and \<open>null\<close> pass.\<close>

definition nullable_optional :: "(json option \<Rightarrow> 'a option) \<Rightarrow> json option \<Rightarrow> 'a option option" where
  "nullable_optional schema v =
     (case v of
        None \<Rightarrow> Some None
      | Some JNull \<Rightarrow> Some None
      | Some x \<Rightarrow> map_option Some (schema (Some x)))"

definition tradeSchema :: "json option \<Rightarrow> TradeInput option" where
  "tradeSchema v =
     (case v of
        Some (JObject kv) \<Rightarrow>
          do {
            d \<leftarrow> z_string (map_of kv ''date'');
            t \<leftarrow> z_transactionType (map_of kv ''transactionType'');
            s \<leftarrow> z_string (map_of kv ''symbol'');
            q \<leftarrow> z_number (map_of kv ''quantity'');
            a \<leftarrow> z_number (map_of kv ''amountPerUnit'');
            ta \<leftarrow> z_number (map_of kv ''totalAmount'');
            f \<leftarrow> z_number (map_of kv ''tradingFees'');
            i \<leftarrow> z_string (map_of kv ''investmentAccount'');
            Some \<lparr>symbol = s, transactionType = t, quantity = q, amountPerUnit = a,
                  totalAmount = ta, tradingFees = f, investmentAccount = i, date = d\<rparr>
          }
      | _ \<Rightarrow> None)"

definition summarySchema :: "json option \<Rightarrow> SummaryQuery option" where
  "summarySchema v =
     (case v of
        Some (JObject kv) \<Rightarrow>
          do {
            s \<leftarrow> nullable_optional z_string (map_of kv ''symbol'');
            b \<leftarrow> nullable_optional z_string (map_of kv ''startDate'');
            e \<leftarrow> nullable_optional z_string (map_of kv ''endDate'');
            Some \<lparr>q_symbol = s, startDate = b, endDate = e\<rparr>
          }
      | _ \<Rightarrow> None)"

text \<open>\<open>responseSchema.safeParse(payload)\<close>: \<open>None\<close> when \<open>success\<close> is false.\<close>

definition responseSchema :: "json \<Rightarrow> Interpretation option" where
  "responseSchema payload =
     (case payload of
        JObject kv \<Rightarrow>
          do {
            a \<leftarrow> z_action (map_of kv ''action'');
            t \<leftarrow> nullable_optional tradeSchema (map_of kv ''trade'');
            s \<leftarrow> nullable_optional summarySchema (map_of kv ''summary'');
            Some \<lparr>action = a, trade = t, summary = s\<rparr>
          }
      | _ \<Rightarrow> None)"

subsection \<open>interpretMessage\<close>

definition indexOf :: "string \<Rightarrow> char \<Rightarrow> int" where
  "indexOf text c = findIndex (\<lambda>x. x = c) text"

definition lastIndexOf :: "string \<Rightarrow> char \<Rightarrow> int" where
  "lastIndexOf text c =
     (let i = findIndex (\<lambda>x. x = c) (rev text)
      in if i = - 1 then - 1 else int (length text) - 1 - i)"

text \<open>\<open>text.slice(start, end)\<close> for \<open>0 \<le> start\<close> and \<open>0 \<le> end\<close>.\<close>

definition slice :: "string \<Rightarrow> int \<Rightarrow> int \<Rightarrow> string" where
  "slice text start end' = take (nat (end' - start)) (drop (nat start) text)"

definition extractJson :: "string \<Rightarrow> string option" where
  "extractJson text =
     (let start = indexOf text CHR ''{''; end' = lastIndexOf text CHR ''}''
      in if start = - 1 \<or> end' = - 1 \<or> end' \<le> start then None
         else Some (slice text start (end' + 1)))"

text \<open>The \<open>payload\<close> that \<open>interpretMessage\<close> validates.\<close>

definition payloadOf :: "runtime \<Rightarrow> string \<Rightarrow> json" where
  "payloadOf rt response =
     (case extractJson response of
        None \<Rightarrow> JObject []
      | Some jsonText \<Rightarrow>
          if jsonText = [] then JObject []
          else (case JSON_parse rt jsonText of None \<Rightarrow> JObject [] | Some v \<Rightarrow> v))"

definition interpretMessage :: "runtime \<Rightarrow> string \<Rightarrow> ChatMessage list \<Rightarrow> string + Interpretation" where
  "interpretMessage rt message history =
     (if falsy (OPENAI_API_KEY rt) then Inl ''Missing OPENAI_API_KEY''
      else
        case completions_create rt (InterpretPrompt history message) of
          Inl thrown \<Rightarrow> Inl thrown
        | Inr c \<Rightarrow>
            let response = (case c of None \<Rightarrow> [] | Some text \<Rightarrow> text);
                payload = payloadOf rt response
            in case responseSchema payload of
                 None \<Rightarrow> Inr \<lparr>action = Unknown, trade = None, summary = None\<rparr>
               | Some parsed \<Rightarrow> Inr parsed)"

subsection \<open>generateReply\<close>

definition shouldUseWebSearch :: "string \<Rightarrow> bool" where
  "shouldUseWebSearch message =
     (let text = toLowerCase message
      in str_includes text ''price'' \<or> str_includes text ''quote'' \<or>
         str_includes text ''stock price'' \<or> str_includes text ''current price'' \<or>
         str_includes text ''market price'')"

text \<open>\<open>fetchLinkupSearch\<close> of the server: a failing \<open>fetch\<close> or body throws.\<close>

definition fetchLinkupSearch :: "runtime \<Rightarrow> string \<Rightarrow> unit + LinkupSearchOutcome" where
  "fetchLinkupSearch rt query =
     (if falsy (map_option trim (LINKUP_API_KEY rt)) then Inr Outcome_not_configured
      else
        case fetch_linkup rt query of
          FetchThrows \<Rightarrow> Inl ()
        | FetchResponse ok body \<Rightarrow>
            if \<not> ok then Inr Outcome_error
            else (case body of None \<Rightarrow> Inl () | Some payload \<Rightarrow> Inr (Outcome_ok payload)))"

text \<open>\<open>fetchLinkupSearch\<close> of \<open>api/chat.ts\<close>, which catches what the call throws.\<close>

definition fetchLinkupSearch_api :: "runtime \<Rightarrow> string \<Rightarrow> LinkupSearchOutcome" where
  "fetchLinkupSearch_api rt query =
     (if falsy (map_option trim (LINKUP_API_KEY rt)) then Outcome_not_configured
      else
        case fetch_linkup rt query of
          FetchThrows \<Rightarrow> Outcome_error
        | FetchResponse ok body \<Rightarrow>
            if \<not> ok then Outcome_error
            else (case body of None \<Rightarrow> Outcome_error | Some payload \<Rightarrow> Outcome_ok payload))"

text \<open>
  The branches on a search outcome, which both versions share: the tool usage after
  them and the payload kept for the prompt.
\<close>

definition recordSearch :: "ToolUsage \<Rightarrow> LinkupSearchOutcome \<Rightarrow> ToolUsage \<times> LinkupSearchResponse option" where
  "recordSearch tools search =
     (case search of
        Outcome_not_configured \<Rightarrow> (tools\<lparr>status := Not_configured\<rparr>, None)
      | Outcome_error \<Rightarrow> (tools\<lparr>status := Error\<rparr>, None)
      | Outcome_ok payload \<Rightarrow>
          let rs = (case payload_results payload of None \<Rightarrow> [] | Some l \<Rightarrow> l)
          in (tools\<lparr>results := length rs, status := (if rs \<noteq> [] then Used else Attempted)\<rparr>,
              if rs \<noteq> [] then Some payload else None))"

text \<open>The search step of the server's \<open>generateReply\<close>, with its \<open>try\<close> and \<open>catch\<close>.\<close>

definition webSearch :: "runtime \<Rightarrow> string \<Rightarrow> ToolUsage \<times> LinkupSearchResponse option" where
  "webSearch rt message =
     (let tools = \<lparr>status = Skipped, results = 0\<rparr>
      in if shouldUseWebSearch message
         then (case fetchLinkupSearch rt message of
                 Inl thrown \<Rightarrow> (tools\<lparr>status := Error\<rparr>, None)
               | Inr search \<Rightarrow> recordSearch tools search)
         else (tools, None))"

definition generateReply :: "runtime \<Rightarrow> string \<Rightarrow> reply_context \<Rightarrow> ChatMessage list
    \<Rightarrow> string + (string \<times> ToolUsage)" where
  "generateReply rt message context history =
     (if falsy (OPENAI_API_KEY rt) then Inl ''Missing OPENAI_API_KEY''
      else
        let (tools, webSearchPayload) = webSearch rt message
        in case completions_create rt (ReplyPrompt history context webSearchPayload message) of
             Inl thrown \<Rightarrow> Inl thrown
           | Inr c \<Rightarrow> Inr (case c of None \<Rightarrow> [] | Some text \<Rightarrow> trim text, tools))"

text \<open>\<open>generateReply\<close> of \<open>api/chat.ts\<close>, which updates the \<open>tools\<close> it is given.\<close>

definition generateReply_api :: "runtime \<Rightarrow> string \<Rightarrow> reply_context \<Rightarrow> ChatMessage list \<Rightarrow> ToolUsage
    \<Rightarrow> string + (string \<times> ToolUsage)" where
  "generateReply_api rt message context history tools =
     (if falsy (OPENAI_API_KEY rt) then Inl ''Missing OPENAI_API_KEY''
      else
        let (tools', webSearchPayload) =
              (if shouldUseWebSearch message
               then recordSearch tools (fetchLinkupSearch_api rt message)
               else (tools, None))
        in case completions_create rt (ReplyPrompt history context webSearchPayload message) of
             Inl thrown \<Rightarrow> Inl thrown
           | Inr c \<Rightarrow> Inr (case c of None \<Rightarrow> [] | Some text \<Rightarrow> trim text, tools'))"

text \<open>
  The tool usage that a search is to leave, as a table over the credential and the answer
  of the search service.
\<close>

definition searchUsage :: "runtime \<Rightarrow> string \<Rightarrow> ToolUsage" where
  "searchUsage rt message =
     (if falsy (map_option trim (LINKUP_API_KEY rt)) then \<lparr>status = Not_configured, results = 0\<rparr>
      else
        case fetch_linkup rt message of
          FetchThrows \<Rightarrow> \<lparr>status = Error, results = 0\<rparr>
        | FetchResponse ok body \<Rightarrow>
            if \<not> ok then \<lparr>status = Error, results = 0\<rparr>
            else
              (case body of
                 None \<Rightarrow> \<lparr>status = Error, results = 0\<rparr>
               | Some payload \<Rightarrow>
                   (case payload_results payload of
                      None \<Rightarrow> \<lparr>status = Attempted, results = 0\<rparr>
                    | Some rs \<Rightarrow>
                        if rs = [] then \<lparr>status = Attempted, results = 0\<rparr>
                        else \<lparr>status = Used, results = length rs\<rparr>)))"

section \<open>Manual fallback parser (index.ts)\<close>

definition parseMoney :: "js_arith \<Rightarrow> string \<Rightarrow> number" where
  "parseMoney js value =
     (let cleaned = filter (\<lambda>c. isDigit c \<or> c = CHR ''.'' \<or> c = CHR ''-'') value;
          parsed = js_Number js cleaned
      in if isFinite parsed then parsed else Num 0)"

text \<open>\<open>line.replace(/\*\*/g, "")\<close>\<close>

fun removeEmphasis :: "string \<Rightarrow> string" where
  "removeEmphasis (c # d # cs) =
     (if c = CHR ''*'' \<and> d = CHR ''*'' then removeEmphasis cs else c # removeEmphasis (d # cs))"
| "removeEmphasis cs = cs"

text \<open>
  \<open>replace(/^[-*\<bullet>]+\s*/, "")\<close>. The bullet character is the code unit \<open>0x2022\<close>,
  which is not below 256, and is left out.
\<close>

definition isBullet :: "char \<Rightarrow> bool" where
  "isBullet c \<longleftrightarrow> c = CHR ''-'' \<or> c = CHR ''*''"

definition stripBullets :: "string \<Rightarrow> string" where
  "stripBullets s =
     (if takeWhile isBullet s = [] then s else dropWhile isWhiteSpace (dropWhile isBullet s))"

definition normalizeLine :: "string \<Rightarrow> string" where
  "normalizeLine line = trim (stripBullets (removeEmphasis line))"

text \<open>\<open>message.split(/\r?\n/)\<close>\<close>

fun consHead :: "char \<Rightarrow> string list \<Rightarrow> string list" where
  "consHead c [] = [[c]]"
| "consHead c (l # ls) = (c # l) # ls"

fun splitLines :: "string \<Rightarrow> string list" where
  "splitLines [] = [[]]"
| "splitLines [c] = (if c = CHR 0x0A then [[], []] else [[c]])"
| "splitLines (c # d # cs) =
     (if c = CHR 0x0A then [] # splitLines (d # cs)
      else if c = CHR 0x0D \<and> d = CHR 0x0A then [] # splitLines cs
      else consHead c (splitLines (d # cs)))"

text \<open>
  \<open>line.match(/^([^:]+):\s*(.+)$/)\<close>, as the two groups. The first group is the text
  before the first colon. The white space after the colon is skipped; the second group
  is what follows, which must not be empty and must hold no line terminator (\<open>.\<close> does
  not match one). When only white space follows the colon, \<open>\s*\<close> gives back its last
  character to the second group.
\<close>

definition isLineTerminator :: "char \<Rightarrow> bool" where
  "isLineTerminator c \<longleftrightarrow> c = CHR 0x0A \<or> c = CHR 0x0D"

definition matchLabelValue :: "string \<Rightarrow> (string \<times> string) option" where
  "matchLabelValue line =
     (let g1 = takeWhile (\<lambda>c. c \<noteq> CHR '':'') line;
          rest = dropWhile (\<lambda>c. c \<noteq> CHR '':'') line
      in if g1 = [] \<or> rest = [] then None
         else
           let after = tl rest; g2 = dropWhile isWhiteSpace after
           in if g2 \<noteq> [] then (if list_ex isLineTerminator g2 then None else Some (g1, g2))
              else if after = [] \<or> isLineTerminator (last after) then None
              else Some (g1, [last after]))"

text \<open>The fields that \<open>parseManualTrade\<close> collects; \<open>None\<close> is an absent field.\<close>

record ManualFields =
  m_transactionType :: "TransactionType option"
  m_symbol :: "string option"
  m_quantity :: "number option"
  m_amountPerUnit :: "number option"
  m_totalAmount :: "number option"
  m_tradingFees :: "number option"
  m_investmentAccount :: "string option"
  m_date :: "string option"

definition noFields :: ManualFields where
  "noFields =
     \<lparr>m_transactionType = None, m_symbol = None, m_quantity = None, m_amountPerUnit = None,
      m_totalAmount = None, m_tradingFees = None, m_investmentAccount = None, m_date = None\<rparr>"

text \<open>The body of the \<open>forEach\<close> over the lines.\<close>

definition parseLine :: "js_arith \<Rightarrow> ManualFields \<Rightarrow> string \<Rightarrow> ManualFields" where
  "parseLine js flds line =
     (case matchLabelValue line of
        None \<Rightarrow> flds
      | Some (g1, g2) \<Rightarrow>
          let label = toLowerCase (trim g1); value = trim g2
          in if str_includes label ''transaction type''
             then flds\<lparr>m_transactionType :=
                    Some (if str_includes (toLowerCase value) ''sell'' then Sell else Buy)\<rparr>
             else if str_includes label ''stock'' \<or> str_includes label ''symbol''
             then flds\<lparr>m_symbol := Some (toUpperCase value)\<rparr>
             else if str_includes label ''quantity''
             then flds\<lparr>m_quantity := Some (parseMoney js value)\<rparr>
             else if str_includes label ''amount per unit'' \<or> str_includes label ''price per unit''
             then flds\<lparr>m_amountPerUnit := Some (parseMoney js value)\<rparr>
             else if str_includes label ''total amount''
             then flds\<lparr>m_totalAmount := Some (parseMoney js value)\<rparr>
             else if str_includes label ''trading fees'' \<or> label = ''fees''
             then flds\<lparr>m_tradingFees := Some (parseMoney js value)\<rparr>
             else if str_includes label ''investment account'' \<or> label = ''account''
             then flds\<lparr>m_investmentAccount := Some value\<rparr>
             else if label = ''date''
             then flds\<lparr>m_date := Some value\<rparr>
             else flds)"

definition parseManualTrade :: "js_arith \<Rightarrow> string \<Rightarrow> ManualFields" where
  "parseManualTrade js message =
     (let lines = filter (\<lambda>line. line \<noteq> []) (map normalizeLine (splitLines message))
      in foldl (parseLine js) noFields lines)"

text \<open>\<open>!x\<close> for an optional number: \<open>undefined\<close>, 0 and \<open>NaN\<close> are falsy.\<close>

definition falsyNumber :: "number option \<Rightarrow> bool" where
  "falsyNumber v \<longleftrightarrow> (case v of None \<Rightarrow> True | Some n \<Rightarrow> \<not> truthy n)"

definition getMissingManualFields :: "ManualFields \<Rightarrow> string list" where
  "getMissingManualFields flds =
     (if m_transactionType flds = None then [''Transaction Type''] else []) @
     (if falsy (m_symbol flds) then [''Stock/ETF Symbol''] else []) @
     (if falsyNumber (m_quantity flds) then [''Quantity of Units''] else []) @
     (if falsyNumber (m_amountPerUnit flds) then [''Amount per unit''] else []) @
     (if falsy (m_date flds) then [''Date''] else []) @
     (if falsyNumber (m_totalAmount flds) then [''Total Amount (before fees)''] else []) @
     (if m_tradingFees flds = None then [''Trading Fees''] else []) @
     (if falsy (m_investmentAccount flds) then [''Investment Account''] else [])"

definition isLlmAuthError :: "string \<Rightarrow> bool" where
  "isLlmAuthError message \<longleftrightarrow>
     str_includes message ''Missing OPENAI_API_KEY'' \<or>
     str_includes message ''Incorrect API key'' \<or>
     str_includes message ''invalid_api_key'' \<or>
     str_includes message ''API key expired'' \<or>
     str_includes message ''API_KEY_INVALID''"

definition manualTradePrompt :: "string list \<Rightarrow> string" where
  "manualTradePrompt missing =
     ''I can't reach the AI right now (API key issue). '' @
     (if missing \<noteq> [] then ''Missing: '' @ join '', '' missing @ ''. ''
      else ''I couldn't parse all required fields. '') @
     ''You can still log a trade by sending details in this format:\<newline>'' @
     ''- Transaction Type: buy\<newline>'' @
     ''- Stock/ETF Symbol: SPUS\<newline>'' @
     ''- Quantity of Units: 10\<newline>'' @
     ''- Amount per unit: 55.00\<newline>'' @
     ''- Date: 01-20-2026\<newline>'' @
     ''- Total Amount (before fees): 550.00\<newline>'' @
     ''- Trading Fees: 0\<newline>'' @
     ''- Investment Account: Brokerage 1''"

definition manualTradeConfirmation :: "js_arith \<Rightarrow> TradeInput \<Rightarrow> string" where
  "manualTradeConfirmation js t =
     ''Logged trade manually:\<newline>'' @
     ''- Transaction Type: '' @ transactionType_text (transactionType t) @ ''\<newline>'' @
     ''- Stock/ETF Symbol: '' @ symbol t @ ''\<newline>'' @
     ''- Quantity of Units: '' @ js_String js (quantity t) @ ''\<newline>'' @
     ''- Amount per unit: '' @ js_String js (amountPerUnit t) @ ''\<newline>'' @
     ''- Date: '' @ date t @ ''\<newline>'' @
     ''- Total Amount (before fees): '' @ js_String js (totalAmount t) @ ''\<newline>'' @
     ''- Trading Fees: '' @ js_String js (tradingFees t) @ ''\<newline>'' @
     ''- Investment Account: '' @ investmentAccount t"

subsection \<open>The parser as section 4.7 words it\<close>

text \<open>
  The eight required fields, in the order in which the missing-fields check reports
  them, and the name that it reports for each.
\<close>

datatype Field =
  TransactionTypeField | SymbolField | QuantityField | AmountPerUnitField | DateField
  | TotalAmountField | TradingFeesField | InvestmentAccountField

definition requiredFields :: "Field list" where
  "requiredFields =
     [TransactionTypeField, SymbolField, QuantityField, AmountPerUnitField, DateField,
      TotalAmountField, TradingFeesField, InvestmentAccountField]"

fun fieldName :: "Field \<Rightarrow> string" where
  "fieldName TransactionTypeField = ''Transaction Type''"
| "fieldName SymbolField = ''Stock/ETF Symbol''"
| "fieldName QuantityField = ''Quantity of Units''"
| "fieldName AmountPerUnitField = ''Amount per unit''"
| "fieldName DateField = ''Date''"
| "fieldName TotalAmountField = ''Total Amount (before fees)''"
| "fieldName TradingFeesField = ''Trading Fees''"
| "fieldName InvestmentAccountField = ''Investment Account''"

definition fieldLabels :: "string list" where
  "fieldLabels = map fieldName requiredFields"

text \<open>
  The known labels: for each field the substrings of which a label must include one, and
  the labels that count only as the whole label. A label that fits several fields
  belongs to the first of them in this list.
\<close>

definition labelKeywords :: "(Field \<times> string list \<times> string list) list" where
  "labelKeywords =
     [(TransactionTypeField, [''transaction type''], []),
      (SymbolField, [''stock'', ''symbol''], []),
      (QuantityField, [''quantity''], []),
      (AmountPerUnitField, [''amount per unit'', ''price per unit''], []),
      (TotalAmountField, [''total amount''], []),
      (TradingFeesField, [''trading fees''], [''fees'']),
      (InvestmentAccountField, [''investment account''], [''account'']),
      (DateField, [], [''date''])]"

definition labelField :: "string \<Rightarrow> Field option" where
  "labelField label =
     map_option fst
       (List.find (\<lambda>(f, included, whole). list_ex (str_includes label) included \<or> label \<in> set whole)
          labelKeywords)"

text \<open>
  A line is labelled for a field when, its bullet markers and emphasis markup stripped,
  it matches the pattern \<open>label: value\<close> and its label, trimmed and in lower case, is a
  label of the field. Its value is the text after the colon, trimmed.
\<close>

definition labelledLine :: "string \<Rightarrow> (Field \<times> string) option" where
  "labelledLine line =
     (case matchLabelValue (normalizeLine line) of
        None \<Rightarrow> None
      | Some (g1, g2) \<Rightarrow> map_option (\<lambda>f. (f, trim g2)) (labelField (toLowerCase (trim g1))))"







subsection \<open>The format of the prompt\<close>

text \<open>
  The message format that \<open>manualTradePrompt\<close> asks for: one line per field, a bullet,
  the name of the field, a colon and the value.
\<close>

definition fieldLine :: "string \<Rightarrow> string \<Rightarrow> string" where
  "fieldLine label v = ''- '' @ label @ '': '' @ v"

definition fieldLines :: "string list \<Rightarrow> string list" where
  "fieldLines vs = map (\<lambda>(label, v). fieldLine label v) (zip fieldLabels vs)"

text \<open>
  A value that this format carries unchanged: it is not blank, lies on one line and
  holds no emphasis markup.
\<close>

definition plainValue :: "string \<Rightarrow> bool" where
  "plainValue v \<longleftrightarrow>
     trim v \<noteq> [] \<and> (\<forall>c \<in> set v. c \<noteq> CHR ''*'' \<and> c \<noteq> CHR 0x0A \<and> c \<noteq> CHR 0x0D)"

text \<open>The prompt's own example.\<close>

definition sampleValues :: "string list" where
  "sampleValues = [''buy'', ''SPUS'', ''10'', ''55.00'', ''01-20-2026'', ''550.00'', ''0'', ''Brokerage 1'']"

section \<open>Summarizer (index.ts, api/chat.ts)\<close>

text \<open>
  \<open>row[key]\<close>: an undefined key reads the property named \<open>undefined\<close>. The column names
  are taken not to be names of members of \<open>Object.prototype\<close>.
\<close>

definition property :: "row \<Rightarrow> string option \<Rightarrow> string option" where
  "property r key = map_of r (case key of None \<Rightarrow> ''undefined'' | Some k \<Rightarrow> k)"

definition parseDate :: "(string \<Rightarrow> int option) \<Rightarrow> string option \<Rightarrow> int option" where
  "parseDate newDate value =
     (case value of None \<Rightarrow> None | Some s \<Rightarrow> if s = [] then None else newDate s)"

text \<open>The predicate of \<open>rows.filter\<close>, the same in both files.\<close>

definition keepRow :: "(string \<Rightarrow> int option) \<Rightarrow> TradeLogConfig \<Rightarrow> SummaryQuery \<Rightarrow> row \<Rightarrow> bool" where
  "keepRow newDate config query r =
     (let symbolKey = col_symbol (columns config);
          dateKey = col_date (columns config);
          hasValues = list_ex (\<lambda>(k, value). trim value \<noteq> []) r
      in if \<not> hasValues then False
         else if (case q_symbol query of
                    None \<Rightarrow> False
                  | Some qs \<Rightarrow> qs \<noteq> [] \<and> toUpperCase (orElse (property r symbolKey) []) \<noteq> toUpperCase qs)
         then False
         else if \<not> falsy dateKey \<and> (\<not> falsy (startDate query) \<or> \<not> falsy (endDate query))
         then (case parseDate newDate (property r dateKey) of
                 None \<Rightarrow> False
               | Some rowDate \<Rightarrow>
                   let start = parseDate newDate (startDate query);
                       end' = parseDate newDate (endDate query)
                   in if (case start of None \<Rightarrow> False | Some s \<Rightarrow> rowDate < s) then False
                      else if (case end' of None \<Rightarrow> False | Some e \<Rightarrow> e < rowDate) then False
                      else True)
         else True)"

text \<open>
  What the \<open>forEach\<close> over the filtered rows reads from a row, the same in both files:
  the symbol, the side, the quantity and the total amount.
\<close>

definition rowSymbol :: "TradeLogConfig \<Rightarrow> row \<Rightarrow> string" where
  "rowSymbol config r = toUpperCase (orElse (property r (col_symbol (columns config))) ''UNKNOWN'')"

definition rowSide :: "TradeLogConfig \<Rightarrow> row \<Rightarrow> string" where
  "rowSide config r = toLowerCase (trim (orElse (property r (col_transactionType (columns config))) []))"

definition rowQty :: "js_arith \<Rightarrow> TradeLogConfig \<Rightarrow> row \<Rightarrow> number" where
  "rowQty js config r = parseMoney js (orElse (property r (col_quantity (columns config))) [])"

definition rowTotal :: "js_arith \<Rightarrow> TradeLogConfig \<Rightarrow> row \<Rightarrow> number" where
  "rowTotal js config r =
     (let qty = rowQty js config r;
          amountPerUnit = parseMoney js (orElse (property r (col_amountPerUnit (columns config))) []);
          total = parseMoney js (orElse (property r (col_totalAmount (columns config))) [])
      in if truthy total then total else js_times js amountPerUnit qty)"

text \<open>A \<open>Map\<close> with string keys, in insertion order, and a \<open>Set\<close> of strings.\<close>

fun map_set :: "(string \<times> 'v) list \<Rightarrow> string \<Rightarrow> 'v \<Rightarrow> (string \<times> 'v) list" where
  "map_set [] k v = [(k, v)]"
| "map_set ((k', v') # m) k v = (if k' = k then (k, v) # m else (k', v') # map_set m k v)"

definition set_add :: "string list \<Rightarrow> string \<Rightarrow> string list" where
  "set_add s x = (if x \<in> set s then s else s @ [x])"

subsection \<open>The server's summary\<close>

record SummaryEntry =
  buyQty :: number
  buyValue :: number
  sellQty :: number
  sellValue :: number
  otherCount :: nat
  otherTypes :: "string list"

definition accumulate :: "js_arith \<Rightarrow> TradeLogConfig \<Rightarrow> (string \<times> SummaryEntry) list \<Rightarrow> row
    \<Rightarrow> (string \<times> SummaryEntry) list" where
  "accumulate js config summary' r =
     (let symbol' = rowSymbol config r;
          rawSide = rowSide config r;
          qty = rowQty js config r;
          total = rowTotal js config r;
          entry = orElse (map_of summary' symbol')
                    \<lparr>buyQty = Num 0, buyValue = Num 0, sellQty = Num 0, sellValue = Num 0,
                     otherCount = 0, otherTypes = []\<rparr>;
          entry' =
            (if startsWith rawSide ''buy''
             then entry\<lparr>buyQty := js_plus js (buyQty entry) qty,
                        buyValue := js_plus js (buyValue entry) total\<rparr>
             else if startsWith rawSide ''sell''
             then entry\<lparr>sellQty := js_plus js (sellQty entry) qty,
                        sellValue := js_plus js (sellValue entry) total\<rparr>
             else if rawSide \<noteq> []
             then entry\<lparr>otherCount := otherCount entry + 1,
                        otherTypes := set_add (otherTypes entry)
                          (orElse (property r (col_transactionType (columns config))) ''Other'')\<rparr>
             else entry)
      in map_set summary' symbol' entry')"

text \<open>\<open>qty > 0 ? (value / qty).toFixed(2) : "0.00"\<close>\<close>

definition average :: "js_arith \<Rightarrow> number \<Rightarrow> number \<Rightarrow> string" where
  "average js value qty =
     (if gtZero qty then toFixed js (js_divide js value qty) 2 else ''0.00'')"

definition formatLine :: "js_arith \<Rightarrow> string \<times> SummaryEntry \<Rightarrow> string" where
  "formatLine js = (\<lambda>(symbol', entry).
     let buyAvg = average js (buyValue entry) (buyQty entry);
         sellAvg = average js (sellValue entry) (sellQty entry);
         extras = (if 0 < otherCount entry
                   then '', other '' @ nat_digits (otherCount entry) @ '' ('' @
                        join '', '' (otherTypes entry) @ '')''
                   else [])
     in symbol' @ '': buy '' @ js_String js (buyQty entry) @ '' @ avg '' @ buyAvg @
        '', sell '' @ js_String js (sellQty entry) @ '' @ avg '' @ sellAvg @ extras)"

definition noTradesMessage :: string where
  "noTradesMessage = ''No trades found for that filter.''"

definition summarizeTrades :: "js_arith \<Rightarrow> (string \<Rightarrow> int option) \<Rightarrow> TradeLogConfig \<Rightarrow> row list
    \<Rightarrow> SummaryQuery \<Rightarrow> string" where
  "summarizeTrades js newDate config rows query =
     (let filtered = filter (keepRow newDate config query) rows
      in if filtered = [] then noTradesMessage
         else
           let summary' = foldl (accumulate js config) [] filtered;
               lines = map (formatLine js) summary'
           in ''Total trades: '' @ nat_digits (length filtered) @ ''.\<newline>'' @ join ''\<newline>'' lines)"

subsection \<open>The summary of api/chat.ts\<close>

record SummaryEntry_api =
  a_buyQty :: number
  a_buyValue :: number
  a_sellQty :: number
  a_sellValue :: number

definition accumulate_api :: "js_arith \<Rightarrow> TradeLogConfig \<Rightarrow> (string \<times> SummaryEntry_api) list \<Rightarrow> row
    \<Rightarrow> (string \<times> SummaryEntry_api) list" where
  "accumulate_api js config summary' r =
     (let symbol' = rowSymbol config r;
          rawSide = rowSide config r;
          qty = rowQty js config r;
          total = rowTotal js config r;
          entry = orElse (map_of summary' symbol')
                    \<lparr>a_buyQty = Num 0, a_buyValue = Num 0, a_sellQty = Num 0, a_sellValue = Num 0\<rparr>;
          entry' =
            (if startsWith rawSide ''buy''
             then entry\<lparr>a_buyQty := js_plus js (a_buyQty entry) qty,
                        a_buyValue := js_plus js (a_buyValue entry) total\<rparr>
             else if startsWith rawSide ''sell''
             then entry\<lparr>a_sellQty := js_plus js (a_sellQty entry) qty,
                        a_sellValue := js_plus js (a_sellValue entry) total\<rparr>
             else entry)
      in map_set summary' symbol' entry')"

definition formatLine_api :: "js_arith \<Rightarrow> string \<times> SummaryEntry_api \<Rightarrow> string" where
  "formatLine_api js = (\<lambda>(symbol', entry).
     let buyAvg = average js (a_buyValue entry) (a_buyQty entry);
         sellAvg = average js (a_sellValue entry) (a_sellQty entry)
     in symbol' @ '': buy '' @ js_String js (a_buyQty entry) @ '' @ avg '' @ buyAvg @
        '', sell '' @ js_String js (a_sellQty entry) @ '' @ avg '' @ sellAvg)"

definition summarizeTrades_api :: "js_arith \<Rightarrow> (string \<Rightarrow> int option) \<Rightarrow> row list \<Rightarrow> SummaryQuery \<Rightarrow> string" where
  "summarizeTrades_api js newDate rows query =
     (let filtered = filter (keepRow newDate config_api query) rows
      in if filtered = [] then noTradesMessage
         else
           let summary' = foldl (accumulate_api js config_api) [] filtered;
               lines = map (formatLine_api js) summary'
           in ''Total trades: '' @ nat_digits (length filtered) @ ''.\<newline>'' @ join ''\<newline>'' lines)"

subsection \<open>The summary as section 4.5 words it\<close>

text \<open>
  The filter of the specification, to be compared with \<open>keepRow\<close>. A row is kept when
  it is not fully blank; when its symbol is the symbol of the query, if the query has
  one, without regard to case; and, if the query has a date bound (and the date column is
  configured), when its date parses and lies between the bounds, both included. A bound
  that is absent or does not parse bounds nothing.
\<close>

definition blankRow :: "row \<Rightarrow> bool" where
  "blankRow r \<longleftrightarrow> list_all (\<lambda>(header, cell). trim cell = []) r"

definition symbolMatches :: "TradeLogConfig \<Rightarrow> SummaryQuery \<Rightarrow> row \<Rightarrow> bool" where
  "symbolMatches config query r \<longleftrightarrow>
     (case q_symbol query of
        None \<Rightarrow> True
      | Some wanted \<Rightarrow>
          wanted = [] \<or>
          toUpperCase (orElse (property r (col_symbol (columns config))) []) = toUpperCase wanted)"

definition dateBounded :: "TradeLogConfig \<Rightarrow> SummaryQuery \<Rightarrow> bool" where
  "dateBounded config query \<longleftrightarrow>
     \<not> falsy (col_date (columns config)) \<and> (\<not> falsy (startDate query) \<or> \<not> falsy (endDate query))"

definition dateWithin :: "(string \<Rightarrow> int option) \<Rightarrow> TradeLogConfig \<Rightarrow> SummaryQuery \<Rightarrow> row \<Rightarrow> bool" where
  "dateWithin newDate config query r \<longleftrightarrow>
     (case parseDate newDate (property r (col_date (columns config))) of
        None \<Rightarrow> False
      | Some rowDate \<Rightarrow>
          (case parseDate newDate (startDate query) of None \<Rightarrow> True | Some start \<Rightarrow> start \<le> rowDate) \<and>
          (case parseDate newDate (endDate query) of None \<Rightarrow> True | Some end' \<Rightarrow> rowDate \<le> end'))"

definition withinFilter :: "(string \<Rightarrow> int option) \<Rightarrow> TradeLogConfig \<Rightarrow> SummaryQuery \<Rightarrow> row \<Rightarrow> bool" where
  "withinFilter newDate config query r \<longleftrightarrow>
     \<not> blankRow r \<and> symbolMatches config query r \<and>
     (dateBounded config query \<longrightarrow> dateWithin newDate config query r)"

text \<open>
  The aggregate of the specification: the symbols in the order in which they are first
  seen, and for a symbol and a side the rows of that symbol whose transaction type starts
  with the side, whose quantities and values are added up from 0 in the order of the
  rows.
\<close>

definition firstSeen :: "'a list \<Rightarrow> 'a list" where
  "firstSeen xs = rev (remdups (rev xs))"

definition sideRows :: "TradeLogConfig \<Rightarrow> string \<Rightarrow> string \<Rightarrow> row list \<Rightarrow> row list" where
  "sideRows config sy side rs =
     filter (\<lambda>r. rowSymbol config r = sy \<and> startsWith (rowSide config r) side) rs"

definition sumOf :: "js_arith \<Rightarrow> number list \<Rightarrow> number" where
  "sumOf js xs = foldl (js_plus js) (Num 0) xs"

text \<open>
  A value printed with two decimals: the sign, then the value in hundredths, rounded to
  the nearest integer (a half upwards), as its digits before the last two, a dot, and the
  last two digits.
\<close>

definition twoDecimals :: "rat \<Rightarrow> string" where
  "twoDecimals r =
     (let hundredths = nat \<lfloor>\<bar>r\<bar> * 100 + 1 / 2\<rfloor>
      in (if r < 0 then ''-'' else []) @ nat_digits (hundredths div 100) @ ''.'' @
         [digit_char (hundredths div 10), digit_char hundredths])"

section \<open>Conversation orchestrator (index.ts, api/chat.ts)\<close>

definition MAX_HISTORY :: nat where
  "MAX_HISTORY = 20"

definition pushHistory :: "ChatMessage list \<Rightarrow> ChatMessage \<Rightarrow> ChatMessage list" where
  "pushHistory h entry =
     (let h' = h @ [entry]
      in if MAX_HISTORY < length h' then drop (length h' - MAX_HISTORY) h' else h')"

definition defaultTools :: ToolUsage where
  "defaultTools = \<lparr>status = Skipped, results = 0\<rparr>"

text \<open>
  The JSON body of a response: \<open>{reply, tools}\<close> (the server's reply to an empty
  message has no \<open>tools\<close>), \<open>{error}\<close>, or none.
\<close>

datatype body = ReplyBody string "ToolUsage option" | ErrorBody string | NoBody

record HttpResponse =
  statusCode :: nat
  sentBody :: body

text \<open>
  What a turn leaves: the response sent (\<open>None\<close> when the handler's promise is rejected
  and nothing is sent), the chat history after it, and the trades that \<open>appendTradeRow\<close>
  was called with. An exception thrown inside the \<open>try\<close> block is the thrown message
  with the calls made before it.
\<close>

record Turn =
  sent :: "HttpResponse option"
  chatHistory :: "ChatMessage list"
  appendCalls :: "TradeInput list"

text \<open>The two \<open>pushHistory\<close> calls of a turn: the user message, then the reply.\<close>

definition recorded :: "ChatMessage list \<Rightarrow> string \<Rightarrow> string \<Rightarrow> ChatMessage list" where
  "recorded h message reply =
     pushHistory (pushHistory h \<lparr>role = User, content = message\<rparr>)
       \<lparr>role = Assistant, content = reply\<rparr>"

text \<open>The end of a path that records the turn and sends \<open>{reply, tools}\<close>.\<close>

definition respond :: "nat \<Rightarrow> string \<Rightarrow> ToolUsage \<Rightarrow> ChatMessage list \<Rightarrow> string \<Rightarrow> TradeInput list \<Rightarrow> Turn" where
  "respond code reply tools h message calls =
     \<lparr>sent = Some \<lparr>statusCode = code, sentBody = ReplyBody reply (Some tools)\<rparr>,
      chatHistory = recorded h message reply,
      appendCalls = calls\<rparr>"

text \<open>
  The trade that the manual fallback commits. \<open>the\<close> is the non-null assertion \<open>!\<close> of
  the source; the fallback builds the trade only when no field is missing.
\<close>

definition manualTrade :: "js_arith \<Rightarrow> ManualFields \<Rightarrow> TradeInput" where
  "manualTrade js manualFields =
     \<lparr>symbol = the (m_symbol manualFields),
      transactionType = the (m_transactionType manualFields),
      quantity = the (m_quantity manualFields),
      amountPerUnit = the (m_amountPerUnit manualFields),
      totalAmount =
        orElse (m_totalAmount manualFields)
          (js_times js (the (m_quantity manualFields)) (the (m_amountPerUnit manualFields))),
      tradingFees = orElse (m_tradingFees manualFields) (Num 0),
      investmentAccount = the (m_investmentAccount manualFields),
      date = the (m_date manualFields)\<rparr>"

text \<open>The manual fallback, which the server has in both of its \<open>catch\<close> blocks.\<close>

definition manualFallback :: "runtime \<Rightarrow> ChatMessage list \<Rightarrow> string \<Rightarrow> TradeInput list
    \<Rightarrow> (string \<times> TradeInput list) + Turn" where
  "manualFallback rt h message calls =
     (let manualFields = parseManualTrade (arith rt) message;
          missing = getMissingManualFields manualFields
      in if missing = []
         then
           let t = manualTrade (arith rt) manualFields
           in case appendTradeRow_outcome rt t of
                Some thrown \<Rightarrow> Inl (thrown, calls @ [t])
              | None \<Rightarrow>
                  Inr (respond 200 (manualTradeConfirmation (arith rt) t) defaultTools h message
                         (calls @ [t]))
         else
           Inr \<lparr>sent = Some \<lparr>statusCode = 503,
                               sentBody = ReplyBody (manualTradePrompt missing) (Some defaultTools)\<rparr>,
                chatHistory = h,
                appendCalls = calls\<rparr>)"

subsection \<open>The server's handler of POST /api/chat\<close>

definition tryBlock :: "runtime \<Rightarrow> TradeLogConfig \<Rightarrow> ChatMessage list \<Rightarrow> string
    \<Rightarrow> (string \<times> TradeInput list) + Turn" where
  "tryBlock rt config h message =
     (case interpretMessage rt message h of
        Inl thrown \<Rightarrow>
          if isLlmAuthError thrown then manualFallback rt h message [] else Inl (thrown, [])
      | Inr a \<Rightarrow>
          (case (if action a = Log_trade then trade a else None) of
             Some t \<Rightarrow>
               (case appendTradeRow_outcome rt t of
                  Some thrown \<Rightarrow> Inl (thrown, [t])
                | None \<Rightarrow>
                    (case generateReply rt message (LogTradeContext t) h of
                       Inl thrown \<Rightarrow> Inl (thrown, [t])
                     | Inr (reply, tools) \<Rightarrow> Inr (respond 200 reply tools h message [t])))
           | None \<Rightarrow>
               if action a = Summarize
               then
                 (case readTrades_outcome rt of
                    Inl thrown \<Rightarrow> Inl (thrown, [])
                  | Inr trades \<Rightarrow>
                      let query = orElse (summary a) emptyQuery;
                          summaryText = summarizeTrades (arith rt) (Date_time rt) config trades query
                      in case generateReply rt message (SummarizeContext query summaryText) h of
                           Inl thrown \<Rightarrow> Inl (thrown, [])
                         | Inr (reply, tools) \<Rightarrow> Inr (respond 200 reply tools h message []))
               else
                 (case generateReply rt message UnknownContext h of
                    Inl thrown \<Rightarrow> Inl (thrown, [])
                  | Inr (reply, tools) \<Rightarrow> Inr (respond 200 reply tools h message []))))"

definition catchBlock :: "runtime \<Rightarrow> ChatMessage list \<Rightarrow> string \<Rightarrow> string \<times> TradeInput list \<Rightarrow> Turn" where
  "catchBlock rt h message = (\<lambda>(errorMessage, calls).
     if isLlmAuthError errorMessage
     then
       (case manualFallback rt h message calls of
          Inr t \<Rightarrow> t
        | Inl (thrown, calls') \<Rightarrow> \<lparr>sent = None, chatHistory = h, appendCalls = calls'\<rparr>)
     else
       (case generateReply rt message (ErrorContext errorMessage) h of
          Inr (reply, tools) \<Rightarrow> respond 500 reply tools h message calls
        | Inl thrown \<Rightarrow>
            \<lparr>sent = Some \<lparr>statusCode = 500, sentBody = ReplyBody errorMessage (Some defaultTools)\<rparr>,
             chatHistory = h,
             appendCalls = calls\<rparr>))"

text \<open>\<open>requestMessage\<close> is \<open>String(req.body?.message ?? "")\<close>.\<close>

definition chatHandler :: "runtime \<Rightarrow> TradeLogConfig \<Rightarrow> ChatMessage list \<Rightarrow> string \<Rightarrow> Turn" where
  "chatHandler rt config h requestMessage =
     (let message = trim requestMessage
      in if message = []
         then \<lparr>sent = Some \<lparr>statusCode = 400, sentBody = ReplyBody ''Message is required.'' None\<rparr>,
               chatHistory = h,
               appendCalls = []\<rparr>
         else (case tryBlock rt config h message of
                 Inr t \<Rightarrow> t
               | Inl thrown \<Rightarrow> catchBlock rt h message thrown))"

subsection \<open>The handler of api/chat.ts\<close>

datatype Method = OPTIONS | POST | OtherMethod

definition tryBlock_api :: "runtime \<Rightarrow> ChatMessage list \<Rightarrow> string \<Rightarrow> (string \<times> TradeInput list) + Turn" where
  "tryBlock_api rt h message =
     (case interpretMessage rt message h of
        Inl thrown \<Rightarrow> Inl (thrown, [])
      | Inr a \<Rightarrow>
          let tools = \<lparr>status = Skipped, results = 0\<rparr>
          in case (if action a = Log_trade then trade a else None) of
               Some t \<Rightarrow>
                 (case appendTradeRow_outcome rt t of
                    Some thrown \<Rightarrow> Inl (thrown, [t])
                  | None \<Rightarrow>
                      (case generateReply_api rt message (LogTradeContext t) h tools of
                         Inl thrown \<Rightarrow> Inl (thrown, [t])
                       | Inr (reply, updatedTools) \<Rightarrow>
                           Inr (respond 200 reply updatedTools h message [t])))
             | None \<Rightarrow>
                 if action a = Summarize
                 then
                   (case readTrades_outcome rt of
                      Inl thrown \<Rightarrow> Inl (thrown, [])
                    | Inr trades \<Rightarrow>
                        let query = orElse (summary a) emptyQuery;
                            summaryText = summarizeTrades_api (arith rt) (Date_time rt) trades query
                        in case generateReply_api rt message (SummarizeContext query summaryText) h tools of
                             Inl thrown \<Rightarrow> Inl (thrown, [])
                           | Inr (reply, updatedTools) \<Rightarrow>
                               Inr (respond 200 reply updatedTools h message []))
                 else
                   (case generateReply_api rt message UnknownContext h tools of
                      Inl thrown \<Rightarrow> Inl (thrown, [])
                    | Inr (reply, updatedTools) \<Rightarrow>
                        Inr (respond 200 reply updatedTools h message [])))"

definition handler_api :: "runtime \<Rightarrow> ChatMessage list \<Rightarrow> Method \<Rightarrow> string \<Rightarrow> Turn" where
  "handler_api rt h method requestMessage =
     (if method = OPTIONS
      then \<lparr>sent = Some \<lparr>statusCode = 200, sentBody = NoBody\<rparr>, chatHistory = h, appendCalls = []\<rparr>
      else if method \<noteq> POST
      then \<lparr>sent = Some \<lparr>statusCode = 405, sentBody = ErrorBody ''Method not allowed''\<rparr>,
            chatHistory = h, appendCalls = []\<rparr>
      else
        let message = trim requestMessage
        in if message = []
           then \<lparr>sent = Some \<lparr>statusCode = 400,
                                sentBody = ReplyBody ''Message is required.'' (Some defaultTools)\<rparr>,
                 chatHistory = h, appendCalls = []\<rparr>
           else (case tryBlock_api rt h message of
                   Inr t \<Rightarrow> t
                 | Inl (errorMessage, calls) \<Rightarrow>
                     \<lparr>sent = Some \<lparr>statusCode = 500,
                                    sentBody = ReplyBody errorMessage (Some defaultTools)\<rparr>,
                      chatHistory = h, appendCalls = calls\<rparr>))"

section \<open>Running the model\<close>

subsection \<open>A reference arithmetic\<close>

text \<open>
  The arithmetic of exact decimal values, used to run the model on concrete inputs. It
  agrees with the runtime wherever every value involved is a binary64 value that has at
  most 15 significant decimal digits and is 0 or at least \<open>10^-6\<close> in magnitude, as
  for the integers and two-place amounts evaluated below: on such values the operations
  round nothing and \<open>String\<close> prints the exact digits. \<open>exact_Number\<close> reads signed
  decimal literals without exponent: the only texts the program passes to \<open>Number\<close>
  consist of digits, dots and minus signs.
\<close>

definition digit_val :: "char \<Rightarrow> nat" where
  "digit_val c = of_char c - 48"

definition digits_val :: "string \<Rightarrow> int" where
  "digits_val s = foldl (\<lambda>a c. 10 * a + int (digit_val c)) 0 s"

definition parseUnsigned :: "string \<Rightarrow> rat option" where
  "parseUnsigned s =
     (let ip = takeWhile isDigit s; rest = dropWhile isDigit s
      in if rest = [] then (if ip = [] then None else Some (of_int (digits_val ip)))
         else if hd rest = CHR ''.'' \<and> list_all isDigit (tl rest) \<and> (ip \<noteq> [] \<or> tl rest \<noteq> [])
         then Some (of_int (digits_val ip) + of_int (digits_val (tl rest)) / 10 ^ length (tl rest))
         else None)"

definition exact_Number :: "string \<Rightarrow> number" where
  "exact_Number s =
     (case trim s of
        [] \<Rightarrow> Num 0
      | c # cs \<Rightarrow>
          if c = CHR ''-'' then (case parseUnsigned cs of Some r \<Rightarrow> Num (- r) | None \<Rightarrow> NaN)
          else if c = CHR ''+'' then (case parseUnsigned cs of Some r \<Rightarrow> Num r | None \<Rightarrow> NaN)
          else (case parseUnsigned (c # cs) of Some r \<Rightarrow> Num r | None \<Rightarrow> NaN))"

fun signOf :: "number \<Rightarrow> rat" where
  "signOf (Num r) = sgn r"
| "signOf PosInfinity = 1"
| "signOf NegInfinity = - 1"
| "signOf NaN = 0"

definition infinityOf :: "rat \<Rightarrow> number" where
  "infinityOf s = (if s = 0 then NaN else if 0 < s then PosInfinity else NegInfinity)"

fun exact_times :: "number \<Rightarrow> number \<Rightarrow> number" where
  "exact_times NaN y = NaN"
| "exact_times x NaN = NaN"
| "exact_times (Num a) (Num b) = Num (a * b)"
| "exact_times x y = infinityOf (signOf x * signOf y)"

fun exact_plus :: "number \<Rightarrow> number \<Rightarrow> number" where
  "exact_plus NaN y = NaN"
| "exact_plus x NaN = NaN"
| "exact_plus (Num a) (Num b) = Num (a + b)"
| "exact_plus (Num a) y = y"
| "exact_plus x (Num b) = x"
| "exact_plus x y = (if x = y then x else NaN)"

fun exact_divide :: "number \<Rightarrow> number \<Rightarrow> number" where
  "exact_divide NaN y = NaN"
| "exact_divide x NaN = NaN"
| "exact_divide (Num a) (Num b) = (if b = 0 then infinityOf (sgn a) else Num (a / b))"
| "exact_divide (Num a) y = Num 0"
| "exact_divide x (Num b) = infinityOf (signOf x * (if b < 0 then - 1 else 1))"
| "exact_divide x y = NaN"

fun frac_digits :: "nat \<Rightarrow> rat \<Rightarrow> string" where
  "frac_digits 0 r = []"
| "frac_digits (Suc k) r =
     (if r = 0 then []
      else let d = nat \<lfloor>r * 10\<rfloor> in digit_char d # frac_digits k (r * 10 - of_nat d))"

text \<open>
  \<open>String(x)\<close> for a magnitude of \<open>10^21\<close> or more, which is printed with an exponent:
  the significant digits, a dot after the first of them, and the decimal exponent. The
  digits are those of the integer part, of which a binary64 value has at most 309.
\<close>

fun int_digits :: "nat \<Rightarrow> int \<Rightarrow> string" where
  "int_digits 0 n = []"
| "int_digits (Suc fuel) n =
     (if n < 10 then [digit_char (nat n)]
      else int_digits fuel (n div 10) @ [digit_char (nat (n mod 10))])"

definition exponentForm :: "int \<Rightarrow> string" where
  "exponentForm ip =
     (let ds = int_digits 309 ip;
          significant = rev (dropWhile (\<lambda>c. c = CHR ''0'') (rev ds))
      in hd significant # (if tl significant = [] then [] else ''.'' @ tl significant) @
         ''e+'' @ nat_digits (length ds - 1))"

fun exact_String :: "number \<Rightarrow> string" where
  "exact_String NaN = ''NaN''"
| "exact_String PosInfinity = ''Infinity''"
| "exact_String NegInfinity = ''-Infinity''"
| "exact_String (Num r) =
     (let a = \<bar>r\<bar>
      in (if r < 0 then ''-'' else []) @
         (if 10 ^ 21 \<le> a then exponentForm \<lfloor>a\<rfloor>
          else
            let ip = nat \<lfloor>a\<rfloor>; fp = a - of_nat ip
            in nat_digits ip @ (if fp = 0 then [] else ''.'' @ frac_digits 17 fp)))"

definition exact_arith :: js_arith where
  "exact_arith =
     \<lparr>js_Number = exact_Number, js_times = exact_times, js_plus = exact_plus,
      js_divide = exact_divide, js_String = exact_String\<rparr>"

subsection \<open>Sample inputs\<close>

definition sampleTrade :: TradeInput where
  "sampleTrade =
     \<lparr>symbol = ''SPUS'', transactionType = Buy, quantity = Num 10, amountPerUnit = Num 55,
      totalAmount = Num 0, tradingFees = Num 0, investmentAccount = ''Brokerage 1'',
      date = ''01-20-2026''\<rparr>"

definition sampleConfig :: TradeLogConfig where
  "sampleConfig = config_api"

text \<open>A sheet whose header row names only two of the configured columns.\<close>

definition sampleHeaders :: HeaderIndex where
  "sampleHeaders =
     [''Stock / ETF Symbol'' \<mapsto> 1, ''Total Amount (before trading fees)'' \<mapsto> 3]"

text \<open>
  A runtime to run the model on: the completion service answers the interpretation prompt
  with a fixed text and every reply prompt with a fixed reply; there is no search
  credential; \<open>sample_JSON_parse\<close> agrees with \<open>JSON.parse\<close> on the texts it is given
  below.
\<close>

definition sample_JSON_parse :: "string \<Rightarrow> json option" where
  "sample_JSON_parse s =
     (if s = ''{\"action\":\"summarize\"}'' then Some (JObject [(''action'', JString ''summarize'')])
      else if s = ''{\"action\":\"buy\"}'' then Some (JObject [(''action'', JString ''buy'')])
      else None)"

definition sampleRuntime :: "string \<Rightarrow> runtime" where
  "sampleRuntime answer =
     \<lparr>arith = exact_arith,
      JSON_parse = sample_JSON_parse,
      Date_time = (\<lambda>s. None),
      OPENAI_API_KEY = Some ''sk-test'',
      LINKUP_API_KEY = None,
      completions_create =
        (\<lambda>p. case p of InterpretPrompt h m \<Rightarrow> Inr (Some answer)
              | ReplyPrompt h c w m \<Rightarrow> Inr (Some '' Done. '')),
      fetch_linkup = (\<lambda>q. FetchThrows),
      appendTradeRow_outcome = (\<lambda>t. None),
      readTrades_outcome = Inr []\<rparr>"

text \<open>A runtime with a search credential, whose search service returns \<open>n\<close> results.\<close>

definition sampleResult :: LinkupSearchResult where
  "sampleResult = \<lparr>res_name = Some ''AAPL'', res_url = Some ''https://example.com'', res_content = None\<rparr>"

definition searchRuntime :: "nat \<Rightarrow> runtime" where
  "searchRuntime n =
     (sampleRuntime [])
       \<lparr>LINKUP_API_KEY := Some ''key'',
        fetch_linkup := (\<lambda>q. FetchResponse True (Some \<lparr>payload_results = Some (replicate n sampleResult)\<rparr>))\<rparr>"

text \<open>
  A spreadsheet with a first sheet \<open>Summary\<close> and a sheet \<open>Trade Log\<close> of the given
  size, on which no call throws, and the error of a call that is refused.
\<close>

definition sampleGrid :: "int \<Rightarrow> int \<Rightarrow> GridProperties" where
  "sampleGrid rowTotal' columnTotal =
     \<lparr>grid_rowCount = Some rowTotal', grid_columnCount = Some columnTotal\<rparr>"

definition tradeLogSheet :: "int \<Rightarrow> int \<Rightarrow> Properties" where
  "tradeLogSheet rowTotal' columnTotal =
     \<lparr>prop_sheetId = Some 7, prop_title = Some ''Trade Log'',
      prop_gridProperties = Some (sampleGrid rowTotal' columnTotal)\<rparr>"

definition sampleSheets :: "int \<Rightarrow> int \<Rightarrow> Properties option list" where
  "sampleSheets rowTotal' columnTotal =
     [Some \<lparr>prop_sheetId = Some 0, prop_title = Some ''Summary'',
            prop_gridProperties = Some (sampleGrid 100 26)\<rparr>,
      Some (tradeLogSheet rowTotal' columnTotal)]"

definition sampleClient :: "int \<Rightarrow> int \<Rightarrow> SheetsClient" where
  "sampleClient rowTotal' columnTotal =
     \<lparr>spreadsheets_get = Inr (Some (sampleSheets rowTotal' columnTotal)),
      batchUpdate_throws = None\<rparr>"

definition refused :: ApiError where
  "refused =
     \<lparr>err_status = Some 403, err_apiStatus = Some ''PERMISSION_DENIED'',
      err_apiMessage = Some ''The caller does not have permission'',
      err_message = Some ''The caller does not have permission''\<rparr>"

definition refusingClient :: SheetsClient where
  "refusingClient = \<lparr>spreadsheets_get = Inl refused, batchUpdate_throws = Some refused\<rparr>"

text \<open>A single buy row of quantity 10 at price 5, with no total, and the empty query.\<close>

definition buyRow :: row where
  "buyRow =
     [(''Date (MM-DD-YYYY)'', ''01-20-2026''), (''Transaction Type'', ''Buy''),
      (''Stock / ETF Symbol'', ''aapl''), (''Quantity of Units'', ''10''),
      (''Amount per unit'', ''5''), (''Total Amount (before trading fees)'', []),
      (''Trading Fees'', ''0''), (''Investment Account'', ''Interactive Brokers (IBKR)'')]"

definition noQuery :: SummaryQuery where
  "noQuery = emptyQuery"

text \<open>A second buy row of the same symbol: quantity 30 with the total 270.\<close>

definition secondBuyRow :: row where
  "secondBuyRow =
     [(''Date (MM-DD-YYYY)'', ''01-21-2026''), (''Transaction Type'', ''buy''),
      (''Stock / ETF Symbol'', ''AAPL''), (''Quantity of Units'', ''30''),
      (''Amount per unit'', ''9''), (''Total Amount (before trading fees)'', ''270.00''),
      (''Trading Fees'', ''0''), (''Investment Account'', ''Interactive Brokers (IBKR)'')]"

text \<open>A row whose cells are blank.\<close>

definition blankCells :: row where
  "blankCells = [(''Date (MM-DD-YYYY)'', '' ''), (''Transaction Type'', [])]"

text \<open>A single buy row of quantity 1 with a total of \<open>10^21\<close>.\<close>

definition largeRow :: row where
  "largeRow =
     [(''Date (MM-DD-YYYY)'', ''01-20-2026''), (''Transaction Type'', ''Buy''),
      (''Stock / ETF Symbol'', ''aapl''), (''Quantity of Units'', ''1''),
      (''Amount per unit'', []), (''Total Amount (before trading fees)'', ''1000000000000000000000''),
      (''Trading Fees'', ''0''), (''Investment Account'', ''Interactive Brokers (IBKR)'')]"






text \<open>A chat history of 19 entries, one short of the capacity.\<close>

definition longHistory :: "ChatMessage list" where
  "longHistory = replicate 19 \<lparr>role = Assistant, content = ''ok''\<rparr>"

text \<open>A runtime without the completion credential.\<close>

definition noKeyRuntime :: runtime where
  "noKeyRuntime = (sampleRuntime [])\<lparr>OPENAI_API_KEY := None\<rparr>"

section \<open>Verified properties\<close>

subsection \<open>Row mapper\<close>

lemma normalize_buy: "normalizeTransactionType ''buy'' = ''Buy''"
  by (simp add: normalizeTransactionType_def trim_def isWhiteSpace_def toLowerCase_def
      toLowerChar_def upper_lower_def VALID_TRANSACTION_TYPES_def)

lemma normalize_sell: "normalizeTransactionType ''sell'' = ''Sell''"
  by (simp add: normalizeTransactionType_def trim_def isWhiteSpace_def toLowerCase_def
      toLowerChar_def upper_lower_def VALID_TRANSACTION_TYPES_def)

lemma normalizedType_valid:
  "normalizeTransactionType (transactionType_text t) \<in> set VALID_TRANSACTION_TYPES"
  by (cases t) (simp_all add: normalize_buy normalize_sell VALID_TRANSACTION_TYPES_def)

lemma indices_map_fst: "indices headerIndex es = List.map_filter (resolve headerIndex) (map fst es)"
  by (induction es) (auto simp: indices_def List.map_filter_simps split: option.splits)

lemma indices_entries: "indices headerIndex (entries js tr nt config) = resolvedColumns headerIndex config"
  by (simp add: indices_map_fst resolvedColumns_def configuredHeaders_def entries_def)

lemma length_fillRow: "length (fillRow js headerIndex es row) = length row"
  unfolding fillRow_def
  by (induction es arbitrary: row) (auto split: option.splits)

lemma fillRow_Cons:
  "fillRow js headerIndex ((header, value) # es) row =
     fillRow js headerIndex es
       (case resolve headerIndex header of None \<Rightarrow> row | Some idx \<Rightarrow> row[idx := entry_text js value])"
  by (simp add: fillRow_def)

lemma fillRow_Nil: "fillRow js headerIndex [] row = row"
  by (simp add: fillRow_def)

lemma indices_Cons:
  "indices headerIndex ((header, value) # es) =
     (case resolve headerIndex header of None \<Rightarrow> indices headerIndex es
      | Some idx \<Rightarrow> idx # indices headerIndex es)"
  by (simp add: indices_def List.map_filter_simps split: option.splits)

lemma fillRow_untouched:
  "i \<notin> set (indices headerIndex es) \<Longrightarrow> fillRow js headerIndex es row ! i = row ! i"
proof (induction es arbitrary: row)
  case Nil
  then show ?case by (simp add: fillRow_Nil)
next
  case (Cons e es)
  obtain header v where e: "e = (header, v)" by (cases e)
  show ?case
  proof (cases "resolve headerIndex header")
    case None
    with Cons e show ?thesis by (simp add: fillRow_Cons indices_Cons)
  next
    case (Some idx)
    with Cons.prems e have "i \<noteq> idx" and "i \<notin> set (indices headerIndex es)"
      by (auto simp: indices_Cons)
    with Cons.IH e Some show ?thesis by (simp add: fillRow_Cons)
  qed
qed

lemma fillRow_written:
  "i \<in> set (indices headerIndex es) \<Longrightarrow> i < length row \<Longrightarrow>
   \<exists>(header, v) \<in> set es. resolve headerIndex header = Some i \<and>
      fillRow js headerIndex es row ! i = entry_text js v"
proof (induction es arbitrary: row)
  case Nil
  then show ?case by (simp add: indices_def List.map_filter_simps)
next
  case (Cons e es)
  obtain header v where e: "e = (header, v)" by (cases e)
  show ?case
  proof (cases "i \<in> set (indices headerIndex es)")
    case True
    have "i < length (case resolve headerIndex header of None \<Rightarrow> row | Some idx \<Rightarrow> row[idx := entry_text js v])"
      using Cons.prems(2) by (simp split: option.splits)
    from Cons.IH[OF True this] e show ?thesis by (auto simp: fillRow_Cons)
  next
    case False
    with Cons.prems(1) e have r: "resolve headerIndex header = Some i"
      by (auto simp: indices_Cons split: option.splits)
    have "fillRow js headerIndex (e # es) row ! i = (row[i := entry_text js v]) ! i"
      using fillRow_untouched[OF False] e r by (simp add: fillRow_Cons)
    with Cons.prems(2) r e show ?thesis by auto
  qed
qed

lemma buildRow_api_eq: "buildRow_api js tr headerIndex config = buildRow js tr headerIndex config"
  by (simp add: buildRow_api_def buildRow_def normalizedType_valid Let_def)

lemma buildRow_unfold:
  "buildRow js tr headerIndex config =
     (if resolvedColumns headerIndex config = [] then Inl NoMatchingHeaders
      else Inr (fillRow js headerIndex
                  (entries js tr (normalizeTransactionType (transactionType_text (transactionType tr))) config)
                  (replicate (Max (set (resolvedColumns headerIndex config)) + 1) [])))"
  by (simp add: buildRow_def normalizedType_valid Let_def indices_entries)

lemma fillRow_append:
  "fillRow js headerIndex (es1 @ es2) row = fillRow js headerIndex es2 (fillRow js headerIndex es1 row)"
  by (simp add: fillRow_def)

lemma fillRow_last_write:
  assumes "resolve headerIndex header = Some i"
    and "i \<notin> set (indices headerIndex es2)"
    and "i < length row"
  shows "fillRow js headerIndex (es1 @ (header, v) # es2) row ! i = entry_text js v"
proof -
  let ?r1 = "fillRow js headerIndex es1 row"
  have "fillRow js headerIndex (es1 @ (header, v) # es2) row ! i
      = fillRow js headerIndex es2 (?r1[i := entry_text js v]) ! i"
    using assms(1) by (simp add: fillRow_append fillRow_Cons)
  also have "\<dots> = (?r1[i := entry_text js v]) ! i"
    using assms(2) by (rule fillRow_untouched)
  also have "\<dots> = entry_text js v"
    using assms(3) by (simp add: length_fillRow)
  finally show ?thesis .
qed

lemma resolved_le_Max:
  assumes "resolve headerIndex header = Some i"
    and "header \<in> set (configuredHeaders config)"
  shows "i \<le> Max (set (resolvedColumns headerIndex config))"
proof -
  have "i \<in> set (resolvedColumns headerIndex config)"
    using assms by (force simp: resolvedColumns_def List.map_filter_def)
  then show ?thesis by simp
qed

lemma sample_buildRow:
  "buildRow exact_arith sampleTrade sampleHeaders sampleConfig = Inr [[], ''SPUS'', [], ''550'']"
  by code_simp

lemma sample_resolvedColumns: "resolvedColumns sampleHeaders sampleConfig = [1, 3]"
  by code_simp

lemma sample_buildRow_empty:
  "buildRow exact_arith sampleTrade Map.empty sampleConfig = Inl NoMatchingHeaders"
  by code_simp

lemma sample_resolve_total:
  "resolve sampleHeaders (col_totalAmount (columns sampleConfig)) = Some 3"
  by code_simp

text \<open>
  C1. \<open>buildRow\<close> fails with \<open>NoMatchingHeaders\<close> exactly when none of the configured
  fields resolves to a column, and it fails in no other way. When it succeeds, the row has
  length \<open>max(resolved column index) + 1\<close>, holds the empty string at every position
  that no resolved field fills, and holds at the position of a resolved field the text of a
  field that resolves there. The row mapper of \<open>api/chat.ts\<close> returns the same result.
\<close>

theorem buildRow_NoMatchingHeaders_iff:
  "(buildRow js tr headerIndex config = Inl NoMatchingHeaders
      \<longleftrightarrow> resolvedColumns headerIndex config = []) \<and>
   (\<forall>e. buildRow js tr headerIndex config = Inl e \<longrightarrow> e = NoMatchingHeaders) \<and>
   (\<forall>row. buildRow js tr headerIndex config = Inr row \<longrightarrow>
      length row = Max (set (resolvedColumns headerIndex config)) + 1 \<and>
      (\<forall>i < length row. i \<notin> set (resolvedColumns headerIndex config) \<longrightarrow> row ! i = []) \<and>
      (\<forall>i \<in> set (resolvedColumns headerIndex config).
         \<exists>(header, v) \<in> set (entries js tr
             (normalizeTransactionType (transactionType_text (transactionType tr))) config).
           resolve headerIndex header = Some i \<and> row ! i = entry_text js v)) \<and>
   buildRow_api js tr headerIndex config = buildRow js tr headerIndex config"
proof -
  let ?rs = "resolvedColumns headerIndex config"
  let ?es = "entries js tr (normalizeTransactionType (transactionType_text (transactionType tr))) config"
  let ?row = "fillRow js headerIndex ?es (replicate (Max (set ?rs) + 1) [])"
  have b: "buildRow js tr headerIndex config = (if ?rs = [] then Inl NoMatchingHeaders else Inr ?row)"
    by (rule buildRow_unfold)
  have len: "length ?row = Max (set ?rs) + 1"
    by (simp only: length_fillRow length_replicate)
  have blank: "?row ! i = []" if "i < length ?row" "i \<notin> set ?rs" for i
  proof -
    have "?row ! i = replicate (Max (set ?rs) + 1) [] ! i"
      using that(2) by (intro fillRow_untouched) (simp add: indices_entries)
    also have "\<dots> = []"
      using that(1) unfolding len by (rule nth_replicate)
    finally show ?thesis .
  qed
  have 1: "buildRow js tr headerIndex config = Inl NoMatchingHeaders \<longleftrightarrow> ?rs = []"
    by (simp add: b)
  have 2: "\<forall>e. buildRow js tr headerIndex config = Inl e \<longrightarrow> e = NoMatchingHeaders"
    by (simp add: b)
  have filled: "\<exists>(header, v) \<in> set ?es. resolve headerIndex header = Some i \<and> ?row ! i = entry_text js v"
    if "i \<in> set ?rs" for i
  proof (rule fillRow_written)
    show "i \<in> set (indices headerIndex ?es)" using that by (simp add: indices_entries)
    have "i \<le> Max (set ?rs)" using that by simp
    then show "i < length (replicate (Max (set ?rs) + 1) ([]::string))" by simp
  qed
  have 3: "\<forall>row. buildRow js tr headerIndex config = Inr row \<longrightarrow>
      length row = Max (set ?rs) + 1 \<and> (\<forall>i < length row. i \<notin> set ?rs \<longrightarrow> row ! i = []) \<and>
      (\<forall>i \<in> set ?rs. \<exists>(header, v) \<in> set ?es.
         resolve headerIndex header = Some i \<and> row ! i = entry_text js v)"
    using len blank filled by (simp add: b)
  from 1 2 3 buildRow_api_eq show ?thesis by blast
qed

theorem buildRow_NoMatchingHeaders_iff_witness:
  "buildRow exact_arith sampleTrade sampleHeaders sampleConfig = Inr [[], ''SPUS'', [], ''550''] \<and>
   resolvedColumns sampleHeaders sampleConfig = [1, 3] \<and>
   length [[], ''SPUS'', [], ''550''] = Max (set (resolvedColumns sampleHeaders sampleConfig)) + 1 \<and>
   [[], ''SPUS'', [], ''550''] ! 0 = [] \<and>
   buildRow exact_arith sampleTrade Map.empty sampleConfig = Inl NoMatchingHeaders"
  using buildRow_NoMatchingHeaders_iff [of exact_arith sampleTrade sampleHeaders sampleConfig]
    buildRow_NoMatchingHeaders_iff [of exact_arith sampleTrade Map.empty sampleConfig]
  by (simp add: sample_buildRow sample_resolvedColumns sample_buildRow_empty)

text \<open>
  C5. The total written by \<open>buildRow\<close> is \<open>quantity * amountPerUnit\<close> when the trade's
  \<open>totalAmount\<close> is not finite or is 0, and the given \<open>totalAmount\<close> when that is finite
  and not 0; the cell of the total-amount column holds its text, unless one of the two
  later fields resolves to the same column. (\<open>totalAmount\<close> has type \<open>number\<close>: it is
  never absent.)
\<close>

theorem buildRow_totalAmount:
  "(\<not> isFinite (totalAmount tr) \<or> isZero (totalAmount tr) \<longrightarrow>
      effectiveTotal js tr = js_times js (quantity tr) (amountPerUnit tr)) \<and>
   (isFinite (totalAmount tr) \<and> \<not> isZero (totalAmount tr) \<longrightarrow>
      effectiveTotal js tr = totalAmount tr) \<and>
   (\<forall>row i. buildRow js tr headerIndex config = Inr row \<and>
        resolve headerIndex (col_totalAmount (columns config)) = Some i \<and>
        resolve headerIndex (col_tradingFees (columns config)) \<noteq> Some i \<and>
        resolve headerIndex (col_investmentAccount (columns config)) \<noteq> Some i \<longrightarrow>
      row ! i = js_String js (effectiveTotal js tr))"
proof -
  let ?nt = "normalizeTransactionType (transactionType_text (transactionType tr))"
  let ?rs = "resolvedColumns headerIndex config"
  let ?c = "columns config"
  let ?es1 = "[(col_date ?c, Str (date tr)), (col_transactionType ?c, Str ?nt),
               (col_symbol ?c, Str (symbol tr)), (col_quantity ?c, Number (quantity tr)),
               (col_amountPerUnit ?c, Number (amountPerUnit tr))]"
  let ?es2 = "[(col_tradingFees ?c, Number (tradingFees tr)),
               (col_investmentAccount ?c, Str DEFAULT_INVESTMENT_ACCOUNT)]"
  have es: "entries js tr ?nt config
      = ?es1 @ (col_totalAmount ?c, Number (effectiveTotal js tr)) # ?es2"
    by (simp add: entries_def)
  have cell: "row ! i = js_String js (effectiveTotal js tr)"
    if b: "buildRow js tr headerIndex config = Inr row"
      and r: "resolve headerIndex (col_totalAmount ?c) = Some i"
      and n1: "resolve headerIndex (col_tradingFees ?c) \<noteq> Some i"
      and n2: "resolve headerIndex (col_investmentAccount ?c) \<noteq> Some i"
    for row i
  proof -
    have row: "row = fillRow js headerIndex (entries js tr ?nt config)
        (replicate (Max (set ?rs) + 1) [])"
      using b by (simp add: buildRow_unfold split: if_splits)
    have "i \<le> Max (set ?rs)"
      using r by (rule resolved_le_Max) (simp add: configuredHeaders_def)
    then have len: "i < length (replicate (Max (set ?rs) + 1) ([]::string))"
      by simp
    have notin: "i \<notin> set (indices headerIndex ?es2)"
      using n1 n2 by (auto simp: indices_Cons indices_def List.map_filter_simps split: option.splits)
    have "row ! i = entry_text js (Number (effectiveTotal js tr))"
      unfolding row es using r notin len by (rule fillRow_last_write)
    then show ?thesis by simp
  qed
  show ?thesis
    using cell by (auto simp: effectiveTotal_def)
qed

theorem buildRow_totalAmount_witness:
  "isZero (totalAmount sampleTrade) \<and>
   effectiveTotal exact_arith sampleTrade
     = js_times exact_arith (quantity sampleTrade) (amountPerUnit sampleTrade) \<and>
   buildRow exact_arith sampleTrade sampleHeaders sampleConfig = Inr [[], ''SPUS'', [], ''550''] \<and>
   [[], ''SPUS'', [], ''550''] ! 3 = js_String exact_arith (effectiveTotal exact_arith sampleTrade) \<and>
   isFinite (Num 600) \<and> \<not> isZero (Num 600) \<and>
   effectiveTotal exact_arith (sampleTrade\<lparr>totalAmount := Num 600\<rparr>) = Num 600"
proof -
  note t = buildRow_totalAmount [of sampleTrade exact_arith sampleHeaders sampleConfig]
  note u = buildRow_totalAmount [of "sampleTrade\<lparr>totalAmount := Num 600\<rparr>" exact_arith
      sampleHeaders sampleConfig]
  have z: "isZero (totalAmount sampleTrade)"
    by code_simp
  have n1: "resolve sampleHeaders (col_tradingFees (columns sampleConfig)) \<noteq> Some 3"
    by code_simp
  have n2: "resolve sampleHeaders (col_investmentAccount (columns sampleConfig)) \<noteq> Some 3"
    by code_simp
  have 1: "effectiveTotal exact_arith sampleTrade
      = js_times exact_arith (quantity sampleTrade) (amountPerUnit sampleTrade)"
    using t z by blast
  have 2: "[[], ''SPUS'', [], ''550''] ! 3
      = js_String exact_arith (effectiveTotal exact_arith sampleTrade)"
    using t sample_buildRow sample_resolve_total n1 n2 by blast
  have 3: "effectiveTotal exact_arith (sampleTrade\<lparr>totalAmount := Num 600\<rparr>) = Num 600"
    using u by simp
  from z 1 2 3 sample_buildRow show ?thesis by simp
qed

subsection \<open>Capacity manager\<close>

lemma readProperties_found:
  assumes "findSheet sheets title = Some props" "prop_sheetId props = Some sid" "sid \<noteq> 0"
    "prop_gridProperties props = Some g"
  shows "readProperties sheets sp title =
     Inr \<lparr>sheetId = sid, rowCount = orElse (grid_rowCount g) 0,
          columnCount = orElse (grid_columnCount g) 0\<rparr>"
  using assms by (simp add: readProperties_def)

lemma readProperties_not_found:
  assumes "findSheet sheets title = None \<or>
     (\<exists>props. findSheet sheets title = Some props \<and>
        (prop_sheetId props = None \<or> prop_gridProperties props = None))"
  shows "readProperties sheets sp title = Inl (sheetNotFound title sp)"
  using assms by (auto simp: readProperties_def split: option.splits)

text \<open>
  The test \<open>!properties?.sheetId\<close> also takes the identifier 0 for an absent one, so
  that a sheet with this identifier is reported as not found.
\<close>

lemma readProperties_zero:
  assumes "findSheet sheets title = Some props" "prop_sheetId props = Some 0"
  shows "readProperties sheets sp title = Inl (sheetNotFound title sp)"
  using assms by (simp add: readProperties_def split: option.splits)

lemma findSheet_title:
  "findSheet sheets title = Some props \<Longrightarrow> prop_title props = Some title"
  by (auto simp: findSheet_def find_Some_iff split: option.splits)

lemma ensureSheetCapacity_api_found:
  assumes "getSheetProperties_api client sp title = Inr p"
  shows "ensureSheetCapacity_api client sp title minRows minColumns =
     (if minRows + 10 \<le> rowCount p \<and> minColumns \<le> columnCount p
      then \<lparr>resizes = [], raised = None\<rparr>
      else \<lparr>resizes = [\<lparr>upd_sheetId = sheetId p, upd_rowCount = max (rowCount p) (minRows + 10),
                         upd_columnCount = max (columnCount p) minColumns\<rparr>],
            raised = map_option Thrown (batchUpdate_throws client)\<rparr>)"
  using assms by (auto simp: ensureSheetCapacity_api_def Let_def max_def)

lemma ensureSheetCapacity_found:
  assumes "getSheetProperties client mail sp title = Inr p"
  shows "ensureSheetCapacity client mail sp title minRows minColumns =
     (if minRows \<le> rowCount p \<and> minColumns \<le> columnCount p
      then \<lparr>resizes = [], raised = None\<rparr>
      else \<lparr>resizes = [\<lparr>upd_sheetId = sheetId p, upd_rowCount = max (rowCount p) minRows,
                         upd_columnCount = max (columnCount p) minColumns\<rparr>],
            raised = map_option (\<lambda>err. formatSheetsError err sp mail ''resizing the trade log sheet'')
                       (batchUpdate_throws client)\<rparr>)"
  using assms by (auto simp: ensureSheetCapacity_def Let_def max_def)

lemma sample_findSheet:
  "findSheet (Some (sampleSheets r c)) ''Trade Log'' = Some (tradeLogSheet r c)"
  "findSheet (Some (sampleSheets r c)) ''Trades'' = None"
  by (simp_all add: findSheet_def sampleSheets_def tradeLogSheet_def)

lemma sample_sheet:
  "spreadsheets_get (sampleClient r c) = Inr (Some (sampleSheets r c))"
  "batchUpdate_throws (sampleClient r c) = None"
  "prop_sheetId (tradeLogSheet r c) = Some 7"
  "prop_gridProperties (tradeLogSheet r c) = Some (sampleGrid r c)"
  "orElse (grid_rowCount (sampleGrid r c)) 0 = r"
  "orElse (grid_columnCount (sampleGrid r c)) 0 = c"
  "spreadsheets_get refusingClient = Inl refused"
  by (simp_all add: sampleClient_def tradeLogSheet_def sampleGrid_def orElse_def refusingClient_def)

lemma sample_refused:
  "formatSheetsError refused ''sheet-1'' ''bot@example.com'' ''reading sheet metadata'' =
     Failure ''Google Sheets permission denied while reading sheet metadata for spreadsheet sheet-1. Share the sheet with the service account bot@example.com.''"
  by (simp add: formatSheetsError_def refused_def)

text \<open>
  C2, as stated, fails on both versions. In \<open>api/chat.ts\<close> a sheet of 20 rows and 26
  columns meets the minimums 15 and 8, and a resize to 25 rows is sent all the same. In
  \<open>sheets.ts\<close> a sheet of 5 rows asked for 8 is resized to 8 rows, not to 18.
\<close>

theorem ensureSheetCapacity_counterexample:
  "ensureSheetCapacity_api (sampleClient 20 26) ''sheet-1'' ''Trade Log'' 15 8
     = \<lparr>resizes = [\<lparr>upd_sheetId = 7, upd_rowCount = 25, upd_columnCount = 26\<rparr>], raised = None\<rparr> \<and>
   ensureSheetCapacity (sampleClient 5 26) ''bot@example.com'' ''sheet-1'' ''Trade Log'' 8 8
     = \<lparr>resizes = [\<lparr>upd_sheetId = 7, upd_rowCount = 8, upd_columnCount = 26\<rparr>], raised = None\<rparr>"
  by (simp add: ensureSheetCapacity_api_def ensureSheetCapacity_def getSheetProperties_api_def
      getSheetProperties_def readProperties_def sample_findSheet sample_sheet)

text \<open>
  C2, amended. When the metadata holds a sheet of the given title with its grid
  properties and an identifier other than 0 (an absent row or column count reads as 0),
  \<open>ensureSheetCapacity\<close> of \<open>api/chat.ts\<close> sends no resize exactly when the sheet has
  at least \<open>minRows + 10\<close> rows and at least \<open>minColumns\<close> columns, and otherwise sends
  exactly one resize, for that sheet, to \<open>max(currentRows, minRows + 10)\<close> rows and
  \<open>max(currentColumns, minColumns)\<close> columns. The server's version has no buffer: it
  sends no resize exactly when both minimums are met, and otherwise exactly one, to
  \<open>max(currentRows, minRows)\<close> rows and \<open>max(currentColumns, minColumns)\<close> columns.
  Neither version throws when it sends no resize, and after a resize each throws exactly
  when \<open>batchUpdate\<close> does. When reading the metadata throws, when no sheet has the
  title, or when the sheet found has no identifier or no grid properties, both versions
  throw and send nothing; the error is the not-found error unless the read itself threw.
\<close>

theorem ensureSheetCapacity_resize:
  "(spreadsheets_get client = Inr sheets \<and> findSheet sheets title = Some props \<and>
    prop_sheetId props = Some sid \<and> sid \<noteq> 0 \<and> prop_gridProperties props = Some g \<longrightarrow>
      ensureSheetCapacity_api client sp title minRows minColumns =
        (if minRows + 10 \<le> orElse (grid_rowCount g) 0 \<and> minColumns \<le> orElse (grid_columnCount g) 0
         then \<lparr>resizes = [], raised = None\<rparr>
         else \<lparr>resizes = [\<lparr>upd_sheetId = sid,
                            upd_rowCount = max (orElse (grid_rowCount g) 0) (minRows + 10),
                            upd_columnCount = max (orElse (grid_columnCount g) 0) minColumns\<rparr>],
               raised = map_option Thrown (batchUpdate_throws client)\<rparr>) \<and>
      ensureSheetCapacity client mail sp title minRows minColumns =
        (if minRows \<le> orElse (grid_rowCount g) 0 \<and> minColumns \<le> orElse (grid_columnCount g) 0
         then \<lparr>resizes = [], raised = None\<rparr>
         else \<lparr>resizes = [\<lparr>upd_sheetId = sid,
                            upd_rowCount = max (orElse (grid_rowCount g) 0) minRows,
                            upd_columnCount = max (orElse (grid_columnCount g) 0) minColumns\<rparr>],
               raised = map_option
                 (\<lambda>err. formatSheetsError err sp mail ''resizing the trade log sheet'')
                 (batchUpdate_throws client)\<rparr>)) \<and>
   (spreadsheets_get client = Inr sheets \<and>
    (findSheet sheets title = None \<or>
     (\<exists>found. findSheet sheets title = Some found \<and>
        (prop_sheetId found = None \<or> prop_gridProperties found = None))) \<longrightarrow>
      ensureSheetCapacity_api client sp title minRows minColumns
        = \<lparr>resizes = [], raised = Some (sheetNotFound title sp)\<rparr> \<and>
      ensureSheetCapacity client mail sp title minRows minColumns
        = \<lparr>resizes = [], raised = Some (sheetNotFound title sp)\<rparr>) \<and>
   (spreadsheets_get client = Inl err \<longrightarrow>
      ensureSheetCapacity_api client sp title minRows minColumns
        = \<lparr>resizes = [], raised = Some (Thrown err)\<rparr> \<and>
      ensureSheetCapacity client mail sp title minRows minColumns
        = \<lparr>resizes = [],
           raised = Some (formatSheetsError err sp mail ''reading sheet metadata'')\<rparr>)"
proof (intro conjI impI)
  assume a: "spreadsheets_get client = Inr sheets \<and> findSheet sheets title = Some props \<and>
    prop_sheetId props = Some sid \<and> sid \<noteq> 0 \<and> prop_gridProperties props = Some g"
  let ?p = "\<lparr>sheetId = sid, rowCount = orElse (grid_rowCount g) 0,
            columnCount = orElse (grid_columnCount g) 0\<rparr>"
  from a have r: "readProperties sheets sp title = Inr ?p"
    using readProperties_found[of sheets title props sid g sp] by simp
  from a r have 1: "getSheetProperties_api client sp title = Inr ?p"
    by (simp add: getSheetProperties_api_def)
  from a r have 2: "getSheetProperties client mail sp title = Inr ?p"
    by (simp add: getSheetProperties_def)
  show "ensureSheetCapacity_api client sp title minRows minColumns =
        (if minRows + 10 \<le> orElse (grid_rowCount g) 0 \<and> minColumns \<le> orElse (grid_columnCount g) 0
         then \<lparr>resizes = [], raised = None\<rparr>
         else \<lparr>resizes = [\<lparr>upd_sheetId = sid,
                            upd_rowCount = max (orElse (grid_rowCount g) 0) (minRows + 10),
                            upd_columnCount = max (orElse (grid_columnCount g) 0) minColumns\<rparr>],
               raised = map_option Thrown (batchUpdate_throws client)\<rparr>)"
    by (simp add: ensureSheetCapacity_api_found[OF 1])
  show "ensureSheetCapacity client mail sp title minRows minColumns =
        (if minRows \<le> orElse (grid_rowCount g) 0 \<and> minColumns \<le> orElse (grid_columnCount g) 0
         then \<lparr>resizes = [], raised = None\<rparr>
         else \<lparr>resizes = [\<lparr>upd_sheetId = sid,
                            upd_rowCount = max (orElse (grid_rowCount g) 0) minRows,
                            upd_columnCount = max (orElse (grid_columnCount g) 0) minColumns\<rparr>],
               raised = map_option
                 (\<lambda>err. formatSheetsError err sp mail ''resizing the trade log sheet'')
                 (batchUpdate_throws client)\<rparr>)"
    by (simp add: ensureSheetCapacity_found[OF 2])
next
  assume a: "spreadsheets_get client = Inr sheets \<and>
    (findSheet sheets title = None \<or>
     (\<exists>found. findSheet sheets title = Some found \<and>
        (prop_sheetId found = None \<or> prop_gridProperties found = None)))"
  then have r: "readProperties sheets sp title = Inl (sheetNotFound title sp)"
    using readProperties_not_found[of sheets title sp] by simp
  from a r show "ensureSheetCapacity_api client sp title minRows minColumns
        = \<lparr>resizes = [], raised = Some (sheetNotFound title sp)\<rparr>"
    by (simp add: ensureSheetCapacity_api_def getSheetProperties_api_def)
  from a r show "ensureSheetCapacity client mail sp title minRows minColumns
        = \<lparr>resizes = [], raised = Some (sheetNotFound title sp)\<rparr>"
    by (simp add: ensureSheetCapacity_def getSheetProperties_def)
next
  assume a: "spreadsheets_get client = Inl err"
  then show "ensureSheetCapacity_api client sp title minRows minColumns
        = \<lparr>resizes = [], raised = Some (Thrown err)\<rparr>"
    by (simp add: ensureSheetCapacity_api_def getSheetProperties_api_def)
  from a show "ensureSheetCapacity client mail sp title minRows minColumns
        = \<lparr>resizes = [],
           raised = Some (formatSheetsError err sp mail ''reading sheet metadata'')\<rparr>"
    by (simp add: ensureSheetCapacity_def getSheetProperties_def)
qed

theorem ensureSheetCapacity_resize_witness:
  "ensureSheetCapacity_api (sampleClient 30 26) ''sheet-1'' ''Trade Log'' 15 8
     = \<lparr>resizes = [], raised = None\<rparr> \<and>
   ensureSheetCapacity_api (sampleClient 20 26) ''sheet-1'' ''Trade Log'' 15 8
     = \<lparr>resizes = [\<lparr>upd_sheetId = 7, upd_rowCount = 25, upd_columnCount = 26\<rparr>], raised = None\<rparr> \<and>
   ensureSheetCapacity (sampleClient 20 26) ''bot@example.com'' ''sheet-1'' ''Trade Log'' 15 8
     = \<lparr>resizes = [], raised = None\<rparr> \<and>
   ensureSheetCapacity (sampleClient 5 4) ''bot@example.com'' ''sheet-1'' ''Trade Log'' 8 8
     = \<lparr>resizes = [\<lparr>upd_sheetId = 7, upd_rowCount = 8, upd_columnCount = 8\<rparr>], raised = None\<rparr> \<and>
   ensureSheetCapacity_api (sampleClient 20 26) ''sheet-1'' ''Trades'' 15 8
     = \<lparr>resizes = [], raised = Some (sheetNotFound ''Trades'' ''sheet-1'')\<rparr> \<and>
   ensureSheetCapacity refusingClient ''bot@example.com'' ''sheet-1'' ''Trade Log'' 15 8
     = \<lparr>resizes = [],
        raised = Some (Failure ''Google Sheets permission denied while reading sheet metadata for spreadsheet sheet-1. Share the sheet with the service account bot@example.com.'')\<rparr>"
proof -
  have found:
    "ensureSheetCapacity_api (sampleClient r c) ''sheet-1'' ''Trade Log'' minRows minColumns =
       (if minRows + 10 \<le> r \<and> minColumns \<le> c then \<lparr>resizes = [], raised = None\<rparr>
        else \<lparr>resizes = [\<lparr>upd_sheetId = 7, upd_rowCount = max r (minRows + 10),
                           upd_columnCount = max c minColumns\<rparr>],
              raised = None\<rparr>) \<and>
     ensureSheetCapacity (sampleClient r c) ''bot@example.com'' ''sheet-1'' ''Trade Log'' minRows minColumns =
       (if minRows \<le> r \<and> minColumns \<le> c then \<lparr>resizes = [], raised = None\<rparr>
        else \<lparr>resizes = [\<lparr>upd_sheetId = 7, upd_rowCount = max r minRows,
                           upd_columnCount = max c minColumns\<rparr>],
              raised = None\<rparr>)" for r c minRows minColumns
    using ensureSheetCapacity_resize [where sheets = "Some (sampleSheets r c)"
      and client = "sampleClient r c" and title = "''Trade Log''" and props = "tradeLogSheet r c"
      and sid = 7 and g = "sampleGrid r c" and sp = "''sheet-1''" and mail = "''bot@example.com''"
      and minRows = minRows and minColumns = minColumns]
    by (simp add: sample_sheet sample_findSheet)
  have missing:
    "ensureSheetCapacity_api (sampleClient 20 26) ''sheet-1'' ''Trades'' 15 8
       = \<lparr>resizes = [], raised = Some (sheetNotFound ''Trades'' ''sheet-1'')\<rparr>"
    using ensureSheetCapacity_resize [where sheets = "Some (sampleSheets 20 26)"
      and client = "sampleClient 20 26" and title = "''Trades''" and sp = "''sheet-1''"
      and minRows = 15 and minColumns = 8]
    by (simp add: sample_sheet sample_findSheet)
  have failed:
    "ensureSheetCapacity refusingClient ''bot@example.com'' ''sheet-1'' ''Trade Log'' 15 8
       = \<lparr>resizes = [],
          raised = Some (Failure ''Google Sheets permission denied while reading sheet metadata for spreadsheet sheet-1. Share the sheet with the service account bot@example.com.'')\<rparr>"
    using ensureSheetCapacity_resize [where client = refusingClient and err = refused
      and title = "''Trade Log''" and sp = "''sheet-1''" and mail = "''bot@example.com''"
      and minRows = 15 and minColumns = 8]
    by (simp add: sample_sheet sample_refused)
  from found[where r = 30 and c = 26 and minRows = 15 and minColumns = 8] have 1:
    "ensureSheetCapacity_api (sampleClient 30 26) ''sheet-1'' ''Trade Log'' 15 8
       = \<lparr>resizes = [], raised = None\<rparr>"
    by simp
  from found[where r = 20 and c = 26 and minRows = 15 and minColumns = 8] have 2:
    "ensureSheetCapacity_api (sampleClient 20 26) ''sheet-1'' ''Trade Log'' 15 8
       = \<lparr>resizes = [\<lparr>upd_sheetId = 7, upd_rowCount = 25, upd_columnCount = 26\<rparr>], raised = None\<rparr>"
    and 3: "ensureSheetCapacity (sampleClient 20 26) ''bot@example.com'' ''sheet-1'' ''Trade Log'' 15 8
       = \<lparr>resizes = [], raised = None\<rparr>"
    by simp_all
  from found[where r = 5 and c = 4 and minRows = 8 and minColumns = 8] have 4:
    "ensureSheetCapacity (sampleClient 5 4) ''bot@example.com'' ''sheet-1'' ''Trade Log'' 8 8
       = \<lparr>resizes = [\<lparr>upd_sheetId = 7, upd_rowCount = 8, upd_columnCount = 8\<rparr>], raised = None\<rparr>"
    by simp
  note 5 = missing
  note 6 = failed
  from 1 2 3 4 5 6 show ?thesis by (intro conjI)
qed

subsection \<open>Slot finder\<close>

lemma findIndex_ge: "- 1 \<le> findIndex P xs"
  by (induction xs) (auto simp: Let_def)

lemma findIndex_none: "findIndex P xs = - 1 \<longleftrightarrow> (\<forall>x \<in> set xs. \<not> P x)"
proof (induction xs)
  case Nil
  then show ?case by simp
next
  case (Cons x xs)
  have "- 1 \<le> findIndex P xs" by (rule findIndex_ge)
  with Cons show ?case by (auto simp: Let_def)
qed

lemma findIndex_first:
  "findIndex P xs \<noteq> - 1 \<Longrightarrow>
   \<exists>k < length xs. findIndex P xs = int k \<and> P (xs ! k) \<and> (\<forall>j < k. \<not> P (xs ! j))"
proof (induction xs)
  case Nil
  then show ?case by simp
next
  case (Cons x xs)
  show ?case
  proof (cases "P x")
    case True
    then show ?thesis by auto
  next
    case False
    with Cons.prems have ne: "findIndex P xs \<noteq> - 1"
      by (auto simp: Let_def split: if_splits)
    from Cons.IH[OF ne] obtain k where k: "k < length xs" "findIndex P xs = int k"
      "P (xs ! k)" "\<forall>j < k. \<not> P (xs ! j)" by blast
    have "\<forall>j < Suc k. \<not> P ((x # xs) ! j)"
      using False k(4) by (auto simp: nth_Cons split: nat.splits)
    with False k ne show ?thesis
      by (intro exI[of _ "Suc k"]) (auto simp: Let_def)
  qed
qed

lemma isEmptyRow_iff: "isEmptyRow r \<longleftrightarrow> (\<forall>cell \<in> set r. trim cell = [])"
  by (auto simp: isEmptyRow_def list_ex_iff)

text \<open>
  C4. When some existing row has only cells that trim to empty, the target is the row
  number of the first such row; when no row is blank it is the row after the last existing
  row, \<open>firstDataRow + length(existingRows)\<close>; when every row is blank it is
  \<open>firstDataRow\<close>.
\<close>

theorem targetRow_first_empty:
  "((\<exists>r \<in> set rows. \<forall>cell \<in> set r. trim cell = []) \<longrightarrow>
      (\<exists>k < length rows. targetRow startRow rows = startRow + int k \<and>
          (\<forall>cell \<in> set (rows ! k). trim cell = []) \<and>
          (\<forall>j < k. \<exists>cell \<in> set (rows ! j). trim cell \<noteq> []))) \<and>
   ((\<forall>r \<in> set rows. \<exists>cell \<in> set r. trim cell \<noteq> []) \<longrightarrow>
      targetRow startRow rows = startRow + int (length rows)) \<and>
   ((\<forall>r \<in> set rows. \<forall>cell \<in> set r. trim cell = []) \<longrightarrow>
      targetRow startRow rows = startRow)"
proof -
  let ?P = "isEmptyRow"
  have a: "\<exists>k < length rows. targetRow startRow rows = startRow + int k \<and>
          (\<forall>cell \<in> set (rows ! k). trim cell = []) \<and>
          (\<forall>j < k. \<exists>cell \<in> set (rows ! j). trim cell \<noteq> [])"
    if "\<exists>r \<in> set rows. \<forall>cell \<in> set r. trim cell = []"
  proof -
    from that have ne: "findIndex ?P rows \<noteq> - 1"
      by (auto simp: findIndex_none isEmptyRow_iff)
    from findIndex_first[OF ne] obtain k where k: "k < length rows" "findIndex ?P rows = int k"
      "?P (rows ! k)" "\<forall>j < k. \<not> ?P (rows ! j)" by blast
    have "targetRow startRow rows = startRow + int k"
      using k(2) by (simp add: targetRow_def firstEmptyIndex_def)
    with k show ?thesis
      unfolding isEmptyRow_iff by blast
  qed
  have b: "targetRow startRow rows = startRow + int (length rows)"
    if "\<forall>r \<in> set rows. \<exists>cell \<in> set r. trim cell \<noteq> []"
  proof -
    from that have "findIndex ?P rows = - 1"
      by (auto simp: findIndex_none isEmptyRow_iff)
    then show ?thesis by (simp add: targetRow_def firstEmptyIndex_def)
  qed
  have c: "targetRow startRow rows = startRow"
    if "\<forall>r \<in> set rows. \<forall>cell \<in> set r. trim cell = []"
  proof (cases rows)
    case Nil
    then show ?thesis by (simp add: targetRow_def firstEmptyIndex_def)
  next
    case (Cons r rs)
    with that have "?P r" by (simp add: isEmptyRow_iff)
    with Cons show ?thesis by (simp add: targetRow_def firstEmptyIndex_def)
  qed
  from a b c show ?thesis by blast
qed

lemma trim_blank: "trim ''  '' = []" "trim [] = []"
  by code_simp+

lemma trim_not_blank: "trim ''x'' \<noteq> []" "trim '' y '' \<noteq> []"
  by code_simp+

theorem targetRow_first_empty_witness:
  "targetRow 8 [[''x''], [''  '', []], ['' y '']] = 9 \<and>
   targetRow 8 [[''x''], ['' y '']] = 10 \<and>
   targetRow 8 [[''  '', []], []] = 8"
proof -
  have 1: "\<exists>r \<in> set [[''x''], [''  '', []], ['' y '']]. \<forall>cell \<in> set r. trim cell = []"
    by (simp add: trim_blank)
  have 2: "\<forall>r \<in> set [[''x''], ['' y '']]. \<exists>cell \<in> set r. trim cell \<noteq> []"
    by (simp add: trim_not_blank)
  have 3: "\<forall>r \<in> set [[''  '', []], []]. \<forall>cell \<in> set r. trim cell = []"
    by (simp add: trim_blank)
  from targetRow_first_empty [of "[[''x''], [''  '', []], ['' y '']]" 8] 1
  obtain k where k: "k < 3" "targetRow 8 [[''x''], [''  '', []], ['' y '']] = 8 + int k"
    "\<forall>cell \<in> set ([[''x''], [''  '', []], ['' y '']] ! k). trim cell = []"
    "\<forall>j < k. \<exists>cell \<in> set ([[''x''], [''  '', []], ['' y '']] ! j). trim cell \<noteq> []"
    by auto
  have "k = 1"
  proof -
    from k(1) consider "k = 0" | "k = 1" | "k = 2" by linarith
    then show ?thesis
    proof cases
      case 1
      with k(3) show ?thesis by (simp add: trim_not_blank)
    next
      case 2
      then show ?thesis .
    next
      case 3
      with k(3) show ?thesis by (simp add: trim_not_blank)
    qed
  qed
  with k(2) have a: "targetRow 8 [[''x''], [''  '', []], ['' y '']] = 9" by simp
  from targetRow_first_empty [of "[[''x''], ['' y '']]" 8] 2
  have b: "targetRow 8 [[''x''], ['' y '']] = 10" by simp
  from targetRow_first_empty [of "[[''  '', []], []]" 8] 3
  have c: "targetRow 8 [[''  '', []], []] = 8" by blast
  from a b c show ?thesis by simp
qed

subsection \<open>Intent resolver\<close>

lemma responseSchema_empty: "responseSchema (JObject []) = None"
  by (simp add: responseSchema_def z_action_def)

lemma interpretMessage_returns:
  assumes "\<not> falsy (OPENAI_API_KEY rt)"
    and "completions_create rt (InterpretPrompt history message) = Inr c"
  shows "interpretMessage rt message history =
     Inr (case responseSchema (payloadOf rt (case c of None \<Rightarrow> [] | Some text \<Rightarrow> text)) of
            None \<Rightarrow> \<lparr>action = Unknown, trade = None, summary = None\<rparr> | Some parsed \<Rightarrow> parsed)"
  using assms by (simp add: interpretMessage_def Let_def split: option.splits)

lemma interpretMessage_throws:
  "interpretMessage rt message history = Inl e \<Longrightarrow>
     (falsy (OPENAI_API_KEY rt) \<and> e = ''Missing OPENAI_API_KEY'') \<or>
     (\<not> falsy (OPENAI_API_KEY rt) \<and> completions_create rt (InterpretPrompt history message) = Inl e)"
  by (auto simp: interpretMessage_def Let_def split: if_splits sum.splits option.splits)

text \<open>
  C8. When the credential is present and the completion service returns, whatever the
  text, \<open>interpretMessage\<close> returns a result and does not throw: when no JSON span can be
  extracted or \<open>JSON.parse\<close> fails on it, the payload is the empty object; on the empty
  object, and on every payload that the schema rejects, the result is the \<open>unknown\<close>
  action. \<open>interpretMessage\<close> throws only when the credential is missing or the call to
  the completion service throws, and then it throws that error.
\<close>

theorem interpretMessage_malformed:
  "(\<not> falsy (OPENAI_API_KEY rt) \<and> completions_create rt (InterpretPrompt history message) = Inr c \<longrightarrow>
      (\<exists>a. interpretMessage rt message history = Inr a) \<and>
      (extractJson (case c of None \<Rightarrow> [] | Some text \<Rightarrow> text) = None \<longrightarrow>
         payloadOf rt (case c of None \<Rightarrow> [] | Some text \<Rightarrow> text) = JObject []) \<and>
      (\<forall>jsonText. extractJson (case c of None \<Rightarrow> [] | Some text \<Rightarrow> text) = Some jsonText \<and>
           JSON_parse rt jsonText = None \<longrightarrow>
         payloadOf rt (case c of None \<Rightarrow> [] | Some text \<Rightarrow> text) = JObject []) \<and>
      (payloadOf rt (case c of None \<Rightarrow> [] | Some text \<Rightarrow> text) = JObject [] \<longrightarrow>
         interpretMessage rt message history = Inr \<lparr>action = Unknown, trade = None, summary = None\<rparr>) \<and>
      (responseSchema (payloadOf rt (case c of None \<Rightarrow> [] | Some text \<Rightarrow> text)) = None \<longrightarrow>
         interpretMessage rt message history = Inr \<lparr>action = Unknown, trade = None, summary = None\<rparr>)) \<and>
   (\<forall>e. interpretMessage rt message history = Inl e \<longrightarrow>
      (falsy (OPENAI_API_KEY rt) \<and> e = ''Missing OPENAI_API_KEY'') \<or>
      completions_create rt (InterpretPrompt history message) = Inl e)"
proof -
  let ?response = "case c of None \<Rightarrow> [] | Some text \<Rightarrow> text"
  have p1: "extractJson ?response = None \<longrightarrow> payloadOf rt ?response = JObject []"
    by (simp add: payloadOf_def)
  have p2: "\<forall>jsonText. extractJson ?response = Some jsonText \<and> JSON_parse rt jsonText = None \<longrightarrow>
      payloadOf rt ?response = JObject []"
    by (simp add: payloadOf_def)
  have r: "interpretMessage rt message history =
     Inr (case responseSchema (payloadOf rt ?response) of
            None \<Rightarrow> \<lparr>action = Unknown, trade = None, summary = None\<rparr> | Some parsed \<Rightarrow> parsed)"
    if "\<not> falsy (OPENAI_API_KEY rt)" "completions_create rt (InterpretPrompt history message) = Inr c"
    using that by (rule interpretMessage_returns)
  have a: "\<exists>a. interpretMessage rt message history = Inr a"
    if "\<not> falsy (OPENAI_API_KEY rt)" "completions_create rt (InterpretPrompt history message) = Inr c"
    using r[OF that] by blast
  have u1: "interpretMessage rt message history = Inr \<lparr>action = Unknown, trade = None, summary = None\<rparr>"
    if "\<not> falsy (OPENAI_API_KEY rt)" "completions_create rt (InterpretPrompt history message) = Inr c"
      "responseSchema (payloadOf rt ?response) = None"
    using r[OF that(1,2)] that(3) by simp
  have u2: "interpretMessage rt message history = Inr \<lparr>action = Unknown, trade = None, summary = None\<rparr>"
    if "\<not> falsy (OPENAI_API_KEY rt)" "completions_create rt (InterpretPrompt history message) = Inr c"
      "payloadOf rt ?response = JObject []"
    using u1[OF that(1,2)] that(3) by (simp add: responseSchema_empty)
  have t: "\<forall>e. interpretMessage rt message history = Inl e \<longrightarrow>
      (falsy (OPENAI_API_KEY rt) \<and> e = ''Missing OPENAI_API_KEY'') \<or>
      completions_create rt (InterpretPrompt history message) = Inl e"
    using interpretMessage_throws by blast
  from p1 p2 a u1 u2 t show ?thesis by blast
qed

lemma sample_interpret_key: "\<not> falsy (OPENAI_API_KEY (sampleRuntime ''Sure: {oops}''))"
  by code_simp

lemma sample_interpret_completion:
  "completions_create (sampleRuntime ''Sure: {oops}'') (InterpretPrompt [] ''hello'')
     = Inr (Some ''Sure: {oops}'')"
  by code_simp

lemma sample_interpret_extract: "extractJson ''Sure: {oops}'' = Some ''{oops}''"
  by code_simp

lemma sample_interpret_parse: "JSON_parse (sampleRuntime ''Sure: {oops}'') ''{oops}'' = None"
  by code_simp

theorem interpretMessage_malformed_witness:
  "\<not> falsy (OPENAI_API_KEY (sampleRuntime ''Sure: {oops}'')) \<and>
   completions_create (sampleRuntime ''Sure: {oops}'') (InterpretPrompt [] ''hello'')
     = Inr (Some ''Sure: {oops}'') \<and>
   extractJson ''Sure: {oops}'' = Some ''{oops}'' \<and>
   JSON_parse (sampleRuntime ''Sure: {oops}'') ''{oops}'' = None \<and>
   payloadOf (sampleRuntime ''Sure: {oops}'') ''Sure: {oops}'' = JObject [] \<and>
   interpretMessage (sampleRuntime ''Sure: {oops}'') ''hello'' []
     = Inr \<lparr>action = Unknown, trade = None, summary = None\<rparr>"
  using interpretMessage_malformed [of "sampleRuntime ''Sure: {oops}''" "[]" "''hello''"
      "Some ''Sure: {oops}''"]
    sample_interpret_key sample_interpret_completion sample_interpret_extract
    sample_interpret_parse
  by simp

subsection \<open>Reply composer\<close>

lemma recordSearch_cases:
  "recordSearch \<lparr>status = Skipped, results = 0\<rparr> search =
     (case search of
        Outcome_not_configured \<Rightarrow> (\<lparr>status = Not_configured, results = 0\<rparr>, None)
      | Outcome_error \<Rightarrow> (\<lparr>status = Error, results = 0\<rparr>, None)
      | Outcome_ok payload \<Rightarrow>
          (case payload_results payload of
             None \<Rightarrow> (\<lparr>status = Attempted, results = 0\<rparr>, None)
           | Some rs \<Rightarrow>
               if rs = [] then (\<lparr>status = Attempted, results = 0\<rparr>, None)
               else (\<lparr>status = Used, results = length rs\<rparr>, Some payload)))"
  by (simp add: recordSearch_def Let_def split: LinkupSearchOutcome.splits option.splits)

lemma webSearch_usage:
  "shouldUseWebSearch message \<Longrightarrow> fst (webSearch rt message) = searchUsage rt message"
  by (simp add: webSearch_def fetchLinkupSearch_def searchUsage_def recordSearch_cases
      split: fetch_result.splits option.splits)

lemma recordSearch_api_usage:
  "fst (recordSearch \<lparr>status = Skipped, results = 0\<rparr> (fetchLinkupSearch_api rt message))
     = searchUsage rt message"
  by (simp add: fetchLinkupSearch_api_def searchUsage_def recordSearch_cases
      split: fetch_result.splits option.splits)

lemma generateReply_usage:
  assumes "shouldUseWebSearch message"
    and "generateReply rt message ctx history = Inr (reply, tools)"
  shows "tools = searchUsage rt message"
proof -
  obtain t w where tw: "webSearch rt message = (t, w)"
    by (cases "webSearch rt message")
  with assms(2) have "tools = t"
    by (auto simp: generateReply_def split: if_splits sum.splits)
  with tw webSearch_usage[OF assms(1), of rt] show ?thesis by simp
qed

lemma generateReply_api_usage:
  assumes "shouldUseWebSearch message"
    and "generateReply_api rt message ctx history \<lparr>status = Skipped, results = 0\<rparr> = Inr (reply, tools)"
  shows "tools = searchUsage rt message"
proof -
  obtain t w where tw: "recordSearch \<lparr>status = Skipped, results = 0\<rparr>
      (fetchLinkupSearch_api rt message) = (t, w)"
    by (cases "recordSearch \<lparr>status = Skipped, results = 0\<rparr> (fetchLinkupSearch_api rt message)")
  with assms have "tools = t"
    by (auto simp: generateReply_api_def split: if_splits sum.splits)
  with tw recordSearch_api_usage[of rt message] show ?thesis by simp
qed

lemma sample_shouldUseWebSearch: "shouldUseWebSearch ''current price of AAPL''"
  by code_simp

lemma tool_usage_table:
  "shouldUseWebSearch message \<and>
    (generateReply rt message ctx history = Inr (reply, tools) \<or>
     generateReply_api rt message ctx history \<lparr>status = Skipped, results = 0\<rparr> = Inr (reply, tools)) \<longrightarrow>
      (falsy (map_option trim (LINKUP_API_KEY rt)) \<longrightarrow>
         tools = \<lparr>status = Not_configured, results = 0\<rparr>) \<and>
      (\<not> falsy (map_option trim (LINKUP_API_KEY rt)) \<and> fetch_linkup rt message = FetchThrows \<longrightarrow>
         tools = \<lparr>status = Error, results = 0\<rparr>) \<and>
      (\<not> falsy (map_option trim (LINKUP_API_KEY rt)) \<and>
       fetch_linkup rt message = FetchResponse False body \<longrightarrow>
         tools = \<lparr>status = Error, results = 0\<rparr>) \<and>
      (\<not> falsy (map_option trim (LINKUP_API_KEY rt)) \<and>
       fetch_linkup rt message = FetchResponse True None \<longrightarrow>
         tools = \<lparr>status = Error, results = 0\<rparr>) \<and>
      (\<not> falsy (map_option trim (LINKUP_API_KEY rt)) \<and>
       fetch_linkup rt message = FetchResponse True (Some payload) \<and>
       (payload_results payload = None \<or> payload_results payload = Some []) \<longrightarrow>
         tools = \<lparr>status = Attempted, results = 0\<rparr>) \<and>
      (\<not> falsy (map_option trim (LINKUP_API_KEY rt)) \<and>
       fetch_linkup rt message = FetchResponse True (Some payload) \<and>
       payload_results payload = Some rs \<and> rs \<noteq> [] \<longrightarrow>
         tools = \<lparr>status = Used, results = length rs\<rparr>)"
proof -
  have u: "tools = searchUsage rt message"
    if "shouldUseWebSearch message"
      "generateReply rt message ctx history = Inr (reply, tools) \<or>
       generateReply_api rt message ctx history \<lparr>status = Skipped, results = 0\<rparr> = Inr (reply, tools)"
    using that generateReply_usage generateReply_api_usage by blast
  have c: "(falsy (map_option trim (LINKUP_API_KEY rt)) \<longrightarrow>
         searchUsage rt message = \<lparr>status = Not_configured, results = 0\<rparr>) \<and>
      (\<not> falsy (map_option trim (LINKUP_API_KEY rt)) \<and> fetch_linkup rt message = FetchThrows \<longrightarrow>
         searchUsage rt message = \<lparr>status = Error, results = 0\<rparr>) \<and>
      (\<not> falsy (map_option trim (LINKUP_API_KEY rt)) \<and>
       fetch_linkup rt message = FetchResponse False body \<longrightarrow>
         searchUsage rt message = \<lparr>status = Error, results = 0\<rparr>) \<and>
      (\<not> falsy (map_option trim (LINKUP_API_KEY rt)) \<and>
       fetch_linkup rt message = FetchResponse True None \<longrightarrow>
         searchUsage rt message = \<lparr>status = Error, results = 0\<rparr>) \<and>
      (\<not> falsy (map_option trim (LINKUP_API_KEY rt)) \<and>
       fetch_linkup rt message = FetchResponse True (Some payload) \<and>
       (payload_results payload = None \<or> payload_results payload = Some []) \<longrightarrow>
         searchUsage rt message = \<lparr>status = Attempted, results = 0\<rparr>) \<and>
      (\<not> falsy (map_option trim (LINKUP_API_KEY rt)) \<and>
       fetch_linkup rt message = FetchResponse True (Some payload) \<and>
       payload_results payload = Some rs \<and> rs \<noteq> [] \<longrightarrow>
         searchUsage rt message = \<lparr>status = Used, results = length rs\<rparr>)"
    by (auto simp: searchUsage_def)
  from u c show ?thesis by metis
qed

text \<open>
  C9. When the message triggers the search heuristic and a reply is returned, the tool
  usage returned with it is: \<open>not_configured\<close> (0 results) when the search credential is
  missing; \<open>error\<close> when the call throws, the response is not a success or its body
  cannot be read; \<open>attempted\<close> when the result list is absent or empty; \<open>used\<close> with the
  number of results when it is not empty. This holds for the server's \<open>generateReply\<close>
  and for that of \<open>api/chat.ts\<close> called with the fresh \<open>skipped\<close> usage that its handler
  passes. The message \<open>current price of AAPL\<close> triggers the heuristic, so that without a
  search credential its reply carries \<open>not_configured\<close> and 0 results.
\<close>

theorem generateReply_tool_usage:
  "shouldUseWebSearch ''current price of AAPL'' \<and>
   (falsy (map_option trim (LINKUP_API_KEY rt)) \<and>
    generateReply rt ''current price of AAPL'' ctx history = Inr (reply, tools) \<longrightarrow>
      tools = \<lparr>status = Not_configured, results = 0\<rparr>) \<and>
   (shouldUseWebSearch message \<and>
    (generateReply rt message ctx history = Inr (reply, tools) \<or>
     generateReply_api rt message ctx history \<lparr>status = Skipped, results = 0\<rparr> = Inr (reply, tools)) \<longrightarrow>
      (falsy (map_option trim (LINKUP_API_KEY rt)) \<longrightarrow>
         tools = \<lparr>status = Not_configured, results = 0\<rparr>) \<and>
      (\<not> falsy (map_option trim (LINKUP_API_KEY rt)) \<and> fetch_linkup rt message = FetchThrows \<longrightarrow>
         tools = \<lparr>status = Error, results = 0\<rparr>) \<and>
      (\<not> falsy (map_option trim (LINKUP_API_KEY rt)) \<and>
       fetch_linkup rt message = FetchResponse False body \<longrightarrow>
         tools = \<lparr>status = Error, results = 0\<rparr>) \<and>
      (\<not> falsy (map_option trim (LINKUP_API_KEY rt)) \<and>
       fetch_linkup rt message = FetchResponse True None \<longrightarrow>
         tools = \<lparr>status = Error, results = 0\<rparr>) \<and>
      (\<not> falsy (map_option trim (LINKUP_API_KEY rt)) \<and>
       fetch_linkup rt message = FetchResponse True (Some payload) \<and>
       (payload_results payload = None \<or> payload_results payload = Some []) \<longrightarrow>
         tools = \<lparr>status = Attempted, results = 0\<rparr>) \<and>
      (\<not> falsy (map_option trim (LINKUP_API_KEY rt)) \<and>
       fetch_linkup rt message = FetchResponse True (Some payload) \<and>
       payload_results payload = Some rs \<and> rs \<noteq> [] \<longrightarrow>
         tools = \<lparr>status = Used, results = length rs\<rparr>))"
proof -
  note scenario = tool_usage_table [of "''current price of AAPL''" rt ctx history reply tools]
  have 1: "falsy (map_option trim (LINKUP_API_KEY rt)) \<and>
    generateReply rt ''current price of AAPL'' ctx history = Inr (reply, tools) \<longrightarrow>
      tools = \<lparr>status = Not_configured, results = 0\<rparr>"
    using scenario sample_shouldUseWebSearch by blast
  from sample_shouldUseWebSearch 1 tool_usage_table [of message rt ctx history reply tools body payload rs]
  show ?thesis by (intro conjI)
qed

lemma sample_reply:
  "generateReply (sampleRuntime []) ''current price of AAPL'' UnknownContext []
     = Inr (''Done.'', \<lparr>status = Not_configured, results = 0\<rparr>)"
  by code_simp

lemma sample_reply_api:
  "generateReply_api (searchRuntime 2) ''AAPL quote'' UnknownContext [] \<lparr>status = Skipped, results = 0\<rparr>
     = Inr (''Done.'', \<lparr>status = Used, results = 2\<rparr>)"
  by code_simp

lemma sample_search_facts:
  "falsy (map_option trim (LINKUP_API_KEY (sampleRuntime [])))"
  "shouldUseWebSearch ''AAPL quote''"
  "\<not> falsy (map_option trim (LINKUP_API_KEY (searchRuntime 2)))"
  "fetch_linkup (searchRuntime 2) ''AAPL quote''
     = FetchResponse True (Some \<lparr>payload_results = Some (replicate 2 sampleResult)\<rparr>)"
  by code_simp+

theorem generateReply_tool_usage_witness:
  "shouldUseWebSearch ''current price of AAPL'' \<and>
   falsy (map_option trim (LINKUP_API_KEY (sampleRuntime []))) \<and>
   generateReply (sampleRuntime []) ''current price of AAPL'' UnknownContext []
     = Inr (''Done.'', \<lparr>status = Not_configured, results = 0\<rparr>) \<and>
   shouldUseWebSearch ''AAPL quote'' \<and>
   \<not> falsy (map_option trim (LINKUP_API_KEY (searchRuntime 2))) \<and>
   generateReply_api (searchRuntime 2) ''AAPL quote'' UnknownContext [] \<lparr>status = Skipped, results = 0\<rparr>
     = Inr (''Done.'', \<lparr>status = Used, results = length (replicate 2 sampleResult)\<rparr>)"
  using generateReply_tool_usage [where message = "''current price of AAPL''"
      and rt = "sampleRuntime []" and ctx = UnknownContext and history = "[]"
      and reply = "''Done.''" and tools = "\<lparr>status = Not_configured, results = 0\<rparr>"]
    generateReply_tool_usage [where message = "''AAPL quote''"
      and rt = "searchRuntime 2" and ctx = UnknownContext and history = "[]"
      and reply = "''Done.''" and tools = "\<lparr>status = Used, results = 2\<rparr>"
      and payload = "\<lparr>payload_results = Some (replicate 2 sampleResult)\<rparr>"
      and rs = "replicate 2 sampleResult"]
    sample_reply sample_reply_api sample_search_facts
  by simp

subsection \<open>Manual fallback parser\<close>

lemma dropWhile_padded:
  assumes "\<forall>c \<in> set a. P c" "m \<noteq> []" "\<not> P (hd m)"
  shows "dropWhile P (a @ m @ b) = m @ b"
proof -
  from assms(2) obtain x xs where m: "m = x # xs" by (cases m) auto
  with assms(3) have "\<not> P x" by simp
  with assms(1) m show ?thesis by (simp add: dropWhile_append2)
qed

lemma rev_dropWhile_rev_padded:
  assumes "\<forall>c \<in> set b. P c" "m \<noteq> []" "\<not> P (last m)"
  shows "rev (dropWhile P (rev (a @ m @ b))) = a @ m"
proof -
  have "rev (a @ m @ b) = rev b @ rev m @ rev a" by simp
  moreover have "dropWhile P (rev b @ rev m @ rev a) = rev m @ rev a"
    using assms by (intro dropWhile_padded) (auto simp: hd_rev)
  ultimately show ?thesis by simp
qed

lemma trim_padded:
  assumes "\<forall>c \<in> set a. isWhiteSpace c" "\<forall>c \<in> set b. isWhiteSpace c"
    "m \<noteq> []" "\<not> isWhiteSpace (hd m)" "\<not> isWhiteSpace (last m)"
  shows "trim (a @ m @ b) = m"
proof -
  have "dropWhile isWhiteSpace (a @ m @ b) = m @ b"
    using assms(1,3,4) by (rule dropWhile_padded)
  then have "trim (a @ m @ b) = rev (dropWhile isWhiteSpace (rev ([] @ m @ b)))"
    by (simp only: trim_def append_Nil)
  also have "\<dots> = [] @ m"
    using assms by (intro rev_dropWhile_rev_padded)
  finally show ?thesis by simp
qed

lemma trim_decomp:
  assumes "trim v \<noteq> []"
  obtains a b where "v = a @ trim v @ b" "\<forall>c \<in> set a. isWhiteSpace c" "\<forall>c \<in> set b. isWhiteSpace c"
    "\<not> isWhiteSpace (hd (trim v))" "\<not> isWhiteSpace (last (trim v))"
proof -
  let ?P = isWhiteSpace
  let ?r = "dropWhile ?P v"
  let ?a = "takeWhile ?P v"
  let ?b = "rev (takeWhile ?P (rev ?r))"
  have t: "trim v = rev (dropWhile ?P (rev ?r))" by (simp add: trim_def)
  have "rev ?r = takeWhile ?P (rev ?r) @ dropWhile ?P (rev ?r)" by simp
  then have "rev (rev ?r) = rev (takeWhile ?P (rev ?r) @ dropWhile ?P (rev ?r))"
    by (rule arg_cong)
  then have "?r = rev (dropWhile ?P (rev ?r)) @ ?b"
    by (simp only: rev_rev_ident rev_append)
  then have r: "?r = trim v @ ?b" by (simp only: t)
  have 1: "v = ?a @ trim v @ ?b"
    using r by (metis takeWhile_dropWhile_id)
  have 2: "\<forall>c \<in> set ?a. ?P c" by (auto dest: set_takeWhileD)
  have 3: "\<forall>c \<in> set ?b. ?P c" by (auto dest: set_takeWhileD)
  have ne: "dropWhile ?P (rev ?r) \<noteq> []" using assms t by simp
  then have "\<not> ?P (hd (dropWhile ?P (rev ?r)))" by (rule hd_dropWhile)
  then have 5: "\<not> ?P (last (trim v))"
    using ne by (simp add: t last_rev)
  have "?r \<noteq> []" using assms r by (metis append_is_Nil_conv)
  then have "\<not> ?P (hd ?r)" by (rule hd_dropWhile)
  moreover have "hd ?r = hd (trim v)" using assms r by (metis hd_append2)
  ultimately have 4: "\<not> ?P (hd (trim v))" by simp
  from 1 2 3 4 5 show ?thesis by (rule that)
qed

lemma removeEmphasis_id: "CHR ''*'' \<notin> set s \<Longrightarrow> removeEmphasis s = s"
  by (induction s rule: removeEmphasis.induct) auto

lemma trim_trim: "trim v \<noteq> [] \<Longrightarrow> trim (trim v) = trim v"
proof -
  assume ne: "trim v \<noteq> []"
  then obtain a b where "\<not> isWhiteSpace (hd (trim v))" "\<not> isWhiteSpace (last (trim v))"
    by (rule trim_decomp)
  with ne have "trim ([] @ trim v @ []) = trim v"
    by (intro trim_padded) auto
  then show ?thesis by simp
qed

lemma fieldLabel_shape:
  assumes "l \<in> set fieldLabels"
  shows "l \<noteq> []" "\<not> isBullet (hd l)" "\<not> isWhiteSpace (hd l)"
    "\<forall>c \<in> set l. c \<noteq> CHR '':'' \<and> c \<noteq> CHR ''*'' \<and> c \<noteq> CHR 0x0A \<and> c \<noteq> CHR 0x0D"
  using assms by (auto simp: fieldLabels_def requiredFields_def isBullet_def isWhiteSpace_def)

lemma plainValue_chars:
  "plainValue v \<Longrightarrow> c \<in> set v \<Longrightarrow> c \<noteq> CHR ''*'' \<and> c \<noteq> CHR 0x0A \<and> c \<noteq> CHR 0x0D"
  by (simp add: plainValue_def)

lemma normalizeLine_fieldLine:
  assumes l: "l \<in> set fieldLabels" and v: "plainValue v"
  obtains a where "\<forall>c \<in> set a. isWhiteSpace c"
    "normalizeLine (fieldLine l v) = l @ '': '' @ a @ trim v"
proof -
  note s = fieldLabel_shape[OF l]
  from v have ne: "trim v \<noteq> []" by (simp add: plainValue_def)
  then obtain a b where d: "v = a @ trim v @ b" "\<forall>c \<in> set a. isWhiteSpace c"
    "\<forall>c \<in> set b. isWhiteSpace c" "\<not> isWhiteSpace (hd (trim v))" "\<not> isWhiteSpace (last (trim v))"
    by (rule trim_decomp)
  have "CHR ''*'' \<notin> set (fieldLine l v)"
    using s(4) plainValue_chars[OF v] by (auto simp: fieldLine_def)
  then have 1: "removeEmphasis (fieldLine l v) = fieldLine l v"
    by (rule removeEmphasis_id)
  obtain x xs where lx: "l = x # xs" using s(1) by (cases l) auto
  with s(2,3) have x: "\<not> isBullet x" "\<not> isWhiteSpace x" by simp_all
  have 2: "stripBullets (fieldLine l v) = l @ '': '' @ v"
    using x by (simp add: stripBullets_def fieldLine_def lx isBullet_def isWhiteSpace_def)
  have "trim (l @ '': '' @ v) = trim ([] @ (l @ '': '' @ a @ trim v) @ b)"
    using d(1) by (metis append.assoc append_Nil)
  also have "\<dots> = l @ '': '' @ a @ trim v"
  proof (rule trim_padded)
    show "\<forall>c \<in> set b. isWhiteSpace c" by (rule d(3))
    show "\<not> isWhiteSpace (hd (l @ '': '' @ a @ trim v))" using x lx by simp
    show "\<not> isWhiteSpace (last (l @ '': '' @ a @ trim v))" using d(5) ne by simp
  qed simp_all
  finally have 3: "trim (l @ '': '' @ v) = l @ '': '' @ a @ trim v" .
  have "normalizeLine (fieldLine l v) = l @ '': '' @ a @ trim v"
    by (simp only: normalizeLine_def 1 2 3)
  with d(2) show ?thesis by (rule that)
qed

lemma matchLabelValue_fieldLine:
  assumes l: "l \<in> set fieldLabels" and v: "plainValue v"
  shows "matchLabelValue (normalizeLine (fieldLine l v)) = Some (l, trim v)"
proof -
  note s = fieldLabel_shape[OF l]
  from v have ne: "trim v \<noteq> []" by (simp add: plainValue_def)
  then obtain a0 b0 where d: "v = a0 @ trim v @ b0" "\<not> isWhiteSpace (hd (trim v))"
    by (rule trim_decomp)
  from l v obtain a where a: "\<forall>c \<in> set a. isWhiteSpace c"
    and n: "normalizeLine (fieldLine l v) = l @ '': '' @ a @ trim v"
    by (rule normalizeLine_fieldLine)
  let ?line = "l @ CHR '':'' # CHR '' '' # a @ trim v"
  have line: "normalizeLine (fieldLine l v) = ?line" using n by simp
  have g1: "takeWhile (\<lambda>c. c \<noteq> CHR '':'') ?line = l"
    using s(4) by (simp add: takeWhile_append2)
  have rest: "dropWhile (\<lambda>c. c \<noteq> CHR '':'') ?line = CHR '':'' # CHR '' '' # a @ trim v"
    using s(4) by (simp add: dropWhile_append2)
  have "dropWhile isWhiteSpace ((CHR '' '' # a) @ trim v @ []) = trim v @ []"
    using a ne d(2) by (intro dropWhile_padded) (auto simp: isWhiteSpace_def)
  then have g2: "dropWhile isWhiteSpace (CHR '' '' # a @ trim v) = trim v" by simp
  have "set (trim v) \<subseteq> set v" using d(1) by (metis set_append sup_ge1 sup_ge2 subset_trans)
  then have nolt: "\<not> list_ex isLineTerminator (trim v)"
    using plainValue_chars[OF v] by (auto simp: list_ex_iff isLineTerminator_def)
  show ?thesis
    unfolding line matchLabelValue_def
    by (simp only: g1 rest Let_def g2 list.sel) (simp add: s(1) ne nolt)
qed


lemma prompt_labels:
  "labelField (toLowerCase (trim ''Transaction Type'')) = Some TransactionTypeField"
  "labelField (toLowerCase (trim ''Stock/ETF Symbol'')) = Some SymbolField"
  "labelField (toLowerCase (trim ''Quantity of Units'')) = Some QuantityField"
  "labelField (toLowerCase (trim ''Amount per unit'')) = Some AmountPerUnitField"
  "labelField (toLowerCase (trim ''Date'')) = Some DateField"
  "labelField (toLowerCase (trim ''Total Amount (before fees)'')) = Some TotalAmountField"
  "labelField (toLowerCase (trim ''Trading Fees'')) = Some TradingFeesField"
  "labelField (toLowerCase (trim ''Investment Account'')) = Some InvestmentAccountField"
  by code_simp+

lemma prompt_line_labelled:
  assumes "plainValue v"
  shows "labelledLine (fieldLine (fieldName f) v) = Some (f, trim v)"
proof -
  have "fieldName f \<in> set fieldLabels"
    by (cases f) (simp_all add: fieldLabels_def requiredFields_def)
  then have m: "matchLabelValue (normalizeLine (fieldLine (fieldName f) v)) = Some (fieldName f, trim v)"
    using assms by (rule matchLabelValue_fieldLine)
  have "labelField (toLowerCase (trim (fieldName f))) = Some f"
    by (cases f) (simp_all add: prompt_labels)
  moreover from assms have "trim (trim v) = trim v" by (simp add: plainValue_def trim_trim)
  ultimately show ?thesis by (simp add: labelledLine_def m)
qed

















lemma toUpperCase_nonempty: "s \<noteq> [] \<Longrightarrow> toUpperCase s \<noteq> []"
  by (simp add: toUpperCase_def)

lemma parseMoney_Num: "\<exists>x. parseMoney js v = Num x"
proof -
  have "isFinite n \<Longrightarrow> \<exists>x. n = Num x" for n by (cases n) auto
  then show ?thesis by (auto simp: parseMoney_def Let_def)
qed












subsection \<open>Summarizer\<close>

lemma keepRow_withinFilter: "keepRow nd cfg q r = withinFilter nd cfg q r"
  by (auto simp: keepRow_def withinFilter_def blankRow_def symbolMatches_def dateBounded_def
      dateWithin_def Let_def list_ex_iff list_all_iff split: option.splits)

lemma filter_keepRow: "filter (keepRow nd cfg q) rows = filter (withinFilter nd cfg q) rows"
  by (rule filter_cong) (simp_all add: keepRow_withinFilter)

lemma map_set_keys:
  "map fst (map_set m k v) = (if k \<in> set (map fst m) then map fst m else map fst m @ [k])"
  by (induction m) (auto simp: rev_image_eqI)

lemma map_of_map_set: "map_of (map_set m k v) k' = (if k' = k then Some v else map_of m k')"
  by (induction m) auto

lemma firstSeen_snoc:
  "firstSeen (xs @ [x]) = (if x \<in> set xs then firstSeen xs else firstSeen xs @ [x])"
  by (simp add: firstSeen_def)

lemma firstSeen_set: "set (firstSeen xs) = set xs" "distinct (firstSeen xs)"
  by (simp_all add: firstSeen_def)

lemma sideRows_snoc:
  "sideRows cfg sy side (rs @ [r]) =
     (if rowSymbol cfg r = sy \<and> startsWith (rowSide cfg r) side
      then sideRows cfg sy side rs @ [r] else sideRows cfg sy side rs)"
  by (simp add: sideRows_def)

lemma sideRows_none: "sy \<notin> rowSymbol cfg ` set rs \<Longrightarrow> sideRows cfg sy side rs = []"
  by (auto simp: sideRows_def filter_empty_conv)

lemma sumOf_snoc: "sumOf js (xs @ [x]) = js_plus js (sumOf js xs) x"
  by (simp add: sumOf_def)

lemma sumOf_Nil: "sumOf js [] = Num 0"
  by (simp add: sumOf_def)

lemma buy_not_sell: "startsWith s ''buy'' \<Longrightarrow> \<not> startsWith s ''sell''"
  by (cases s) auto

lemma accumulate_keys:
  "map fst (accumulate js cfg s r) =
     (if rowSymbol cfg r \<in> set (map fst s) then map fst s else map fst s @ [rowSymbol cfg r])"
  by (simp only: accumulate_def Let_def map_set_keys)

lemma accumulate_api_keys:
  "map fst (accumulate_api js cfg s r) =
     (if rowSymbol cfg r \<in> set (map fst s) then map fst s else map fst s @ [rowSymbol cfg r])"
  by (simp only: accumulate_api_def Let_def map_set_keys)

lemma summary_keys:
  "map fst (foldl (accumulate js cfg) [] rs) = firstSeen (map (rowSymbol cfg) rs)"
  by (induction rs rule: rev_induct) (simp_all add: accumulate_keys firstSeen_snoc firstSeen_set firstSeen_def)

lemma summary_api_keys:
  "map fst (foldl (accumulate_api js cfg) [] rs) = firstSeen (map (rowSymbol cfg) rs)"
  by (induction rs rule: rev_induct) (simp_all add: accumulate_api_keys firstSeen_snoc firstSeen_set firstSeen_def)

lemma accumulate_other:
  "sy \<noteq> rowSymbol cfg r \<Longrightarrow> map_of (accumulate js cfg m r) sy = map_of m sy"
  by (simp add: accumulate_def Let_def map_of_map_set)

lemma accumulate_entry:
  assumes "map_of (accumulate js cfg m r) (rowSymbol cfg r) = Some e"
    and "old = orElse (map_of m (rowSymbol cfg r))
      \<lparr>buyQty = Num 0, buyValue = Num 0, sellQty = Num 0, sellValue = Num 0,
       otherCount = 0, otherTypes = []\<rparr>"
  shows "buyQty e = (if startsWith (rowSide cfg r) ''buy''
                     then js_plus js (buyQty old) (rowQty js cfg r) else buyQty old)"
    and "buyValue e = (if startsWith (rowSide cfg r) ''buy''
                       then js_plus js (buyValue old) (rowTotal js cfg r) else buyValue old)"
    and "sellQty e = (if startsWith (rowSide cfg r) ''sell''
                      then js_plus js (sellQty old) (rowQty js cfg r) else sellQty old)"
    and "sellValue e = (if startsWith (rowSide cfg r) ''sell''
                        then js_plus js (sellValue old) (rowTotal js cfg r) else sellValue old)"
  using assms buy_not_sell[of "rowSide cfg r"]
  by (auto simp: accumulate_def Let_def map_of_map_set split: if_splits)

lemma summary_entries:
  "map_of (foldl (accumulate js cfg) [] rs) sy = Some e \<Longrightarrow>
     buyQty e = sumOf js (map (rowQty js cfg) (sideRows cfg sy ''buy'' rs)) \<and>
     buyValue e = sumOf js (map (rowTotal js cfg) (sideRows cfg sy ''buy'' rs)) \<and>
     sellQty e = sumOf js (map (rowQty js cfg) (sideRows cfg sy ''sell'' rs)) \<and>
     sellValue e = sumOf js (map (rowTotal js cfg) (sideRows cfg sy ''sell'' rs))"
proof (induction rs arbitrary: sy e rule: rev_induct)
  case Nil
  then show ?case by simp
next
  case (snoc r rs)
  define S where "S = foldl (accumulate js cfg) [] rs"
  let ?k = "rowSymbol cfg r"
  from snoc.prems have e: "map_of (accumulate js cfg S r) sy = Some e" by (simp add: S_def)
  note IH = snoc.IH[folded S_def]
  show ?case
  proof (cases "sy = ?k")
    case False
    with e have "map_of S sy = Some e" by (simp add: accumulate_other)
    from IH[OF this] False show ?thesis by (simp add: sideRows_snoc)
  next
    case True
    define old where "old = orElse (map_of S ?k)
        \<lparr>buyQty = Num 0, buyValue = Num 0, sellQty = Num 0, sellValue = Num 0,
         otherCount = 0, otherTypes = []\<rparr>"
    have old: "buyQty old = sumOf js (map (rowQty js cfg) (sideRows cfg ?k ''buy'' rs)) \<and>
       buyValue old = sumOf js (map (rowTotal js cfg) (sideRows cfg ?k ''buy'' rs)) \<and>
       sellQty old = sumOf js (map (rowQty js cfg) (sideRows cfg ?k ''sell'' rs)) \<and>
       sellValue old = sumOf js (map (rowTotal js cfg) (sideRows cfg ?k ''sell'' rs))"
    proof (cases "map_of S ?k")
      case None
      then have "?k \<notin> set (map fst S)" by (simp add: map_of_eq_None_iff)
      then have "?k \<notin> rowSymbol cfg ` set rs" by (simp add: S_def summary_keys firstSeen_set)
      then have "sideRows cfg ?k side rs = []" for side by (rule sideRows_none)
      with None show ?thesis by (simp add: old_def orElse_def sumOf_Nil)
    next
      case (Some e0)
      from IH[OF Some] Some show ?thesis by (simp add: old_def orElse_def)
    qed
    from e True have e': "map_of (accumulate js cfg S r) ?k = Some e" by simp
    note step = accumulate_entry[OF e' old_def]
    show ?thesis
      unfolding True by (simp add: step old sideRows_snoc sumOf_snoc)
  qed
qed

lemma accumulate_api_other:
  "sy \<noteq> rowSymbol cfg r \<Longrightarrow> map_of (accumulate_api js cfg m r) sy = map_of m sy"
  by (simp add: accumulate_api_def Let_def map_of_map_set)

lemma accumulate_api_entry:
  assumes "map_of (accumulate_api js cfg m r) (rowSymbol cfg r) = Some e"
    and "old = orElse (map_of m (rowSymbol cfg r))
      \<lparr>a_buyQty = Num 0, a_buyValue = Num 0, a_sellQty = Num 0, a_sellValue = Num 0\<rparr>"
  shows "a_buyQty e = (if startsWith (rowSide cfg r) ''buy''
                     then js_plus js (a_buyQty old) (rowQty js cfg r) else a_buyQty old)"
    and "a_buyValue e = (if startsWith (rowSide cfg r) ''buy''
                       then js_plus js (a_buyValue old) (rowTotal js cfg r) else a_buyValue old)"
    and "a_sellQty e = (if startsWith (rowSide cfg r) ''sell''
                      then js_plus js (a_sellQty old) (rowQty js cfg r) else a_sellQty old)"
    and "a_sellValue e = (if startsWith (rowSide cfg r) ''sell''
                        then js_plus js (a_sellValue old) (rowTotal js cfg r) else a_sellValue old)"
  using assms buy_not_sell[of "rowSide cfg r"]
  by (auto simp: accumulate_api_def Let_def map_of_map_set split: if_splits)

lemma summary_api_entries:
  "map_of (foldl (accumulate_api js cfg) [] rs) sy = Some e \<Longrightarrow>
     a_buyQty e = sumOf js (map (rowQty js cfg) (sideRows cfg sy ''buy'' rs)) \<and>
     a_buyValue e = sumOf js (map (rowTotal js cfg) (sideRows cfg sy ''buy'' rs)) \<and>
     a_sellQty e = sumOf js (map (rowQty js cfg) (sideRows cfg sy ''sell'' rs)) \<and>
     a_sellValue e = sumOf js (map (rowTotal js cfg) (sideRows cfg sy ''sell'' rs))"
proof (induction rs arbitrary: sy e rule: rev_induct)
  case Nil
  then show ?case by simp
next
  case (snoc r rs)
  define S where "S = foldl (accumulate_api js cfg) [] rs"
  let ?k = "rowSymbol cfg r"
  from snoc.prems have e: "map_of (accumulate_api js cfg S r) sy = Some e" by (simp add: S_def)
  note IH = snoc.IH[folded S_def]
  show ?case
  proof (cases "sy = ?k")
    case False
    with e have "map_of S sy = Some e" by (simp add: accumulate_api_other)
    from IH[OF this] False show ?thesis by (simp add: sideRows_snoc)
  next
    case True
    define old where "old = orElse (map_of S ?k)
        \<lparr>a_buyQty = Num 0, a_buyValue = Num 0, a_sellQty = Num 0, a_sellValue = Num 0\<rparr>"
    have old: "a_buyQty old = sumOf js (map (rowQty js cfg) (sideRows cfg ?k ''buy'' rs)) \<and>
       a_buyValue old = sumOf js (map (rowTotal js cfg) (sideRows cfg ?k ''buy'' rs)) \<and>
       a_sellQty old = sumOf js (map (rowQty js cfg) (sideRows cfg ?k ''sell'' rs)) \<and>
       a_sellValue old = sumOf js (map (rowTotal js cfg) (sideRows cfg ?k ''sell'' rs))"
    proof (cases "map_of S ?k")
      case None
      then have "?k \<notin> set (map fst S)" by (simp add: map_of_eq_None_iff)
      then have "?k \<notin> rowSymbol cfg ` set rs" by (simp add: S_def summary_api_keys firstSeen_set)
      then have "sideRows cfg ?k side rs = []" for side by (rule sideRows_none)
      with None show ?thesis by (simp add: old_def orElse_def sumOf_Nil)
    next
      case (Some e0)
      from IH[OF Some] Some show ?thesis by (simp add: old_def orElse_def)
    qed
    from e True have e': "map_of (accumulate_api js cfg S r) ?k = Some e" by simp
    note step = accumulate_api_entry[OF e' old_def]
    show ?thesis
      unfolding True by (simp add: step old sideRows_snoc sumOf_snoc)
  qed
qed

lemma summarizeTrades_unfold:
  "summarizeTrades js nd cfg rows q =
     (if filter (withinFilter nd cfg q) rows = [] then noTradesMessage
      else ''Total trades: '' @ nat_digits (length (filter (withinFilter nd cfg q) rows)) @ ''.\<newline>'' @
           join ''\<newline>'' (map (formatLine js)
             (foldl (accumulate js cfg) [] (filter (withinFilter nd cfg q) rows))))"
  by (simp add: summarizeTrades_def Let_def filter_keepRow)

lemma summarizeTrades_api_unfold:
  "summarizeTrades_api js nd rows q =
     (if filter (withinFilter nd config_api q) rows = [] then noTradesMessage
      else ''Total trades: '' @ nat_digits (length (filter (withinFilter nd config_api q) rows)) @ ''.\<newline>'' @
           join ''\<newline>'' (map (formatLine_api js)
             (foldl (accumulate_api js config_api) [] (filter (withinFilter nd config_api q) rows))))"
  by (simp add: summarizeTrades_api_def Let_def filter_keepRow)

lemma total_not_noTrades: "''Total trades: '' @ s \<noteq> noTradesMessage"
  by (simp add: noTradesMessage_def)

lemma formatLine_shape:
  "\<exists>extras. formatLine js (sy, e) =
     sy @ '': buy '' @ js_String js (buyQty e) @ '' @ avg '' @ average js (buyValue e) (buyQty e) @
     '', sell '' @ js_String js (sellQty e) @ '' @ avg '' @ average js (sellValue e) (sellQty e) @ extras"
  by (simp add: formatLine_def Let_def)

lemma formatLine_api_shape:
  "formatLine_api js (sy, e) =
     sy @ '': buy '' @ js_String js (a_buyQty e) @ '' @ avg '' @ average js (a_buyValue e) (a_buyQty e) @
     '', sell '' @ js_String js (a_sellQty e) @ '' @ avg '' @ average js (a_sellValue e) (a_sellQty e)"
  by (simp add: formatLine_api_def Let_def)

lemma average_cases:
  "(\<not> gtZero qty \<longrightarrow> average js v qty = ''0.00'') \<and>
   (isZero qty \<longrightarrow> average js v qty = ''0.00'') \<and>
   (gtZero qty \<longrightarrow> average js v qty = toFixed js (js_divide js v qty) 2)"
  by (cases qty) (auto simp: average_def)

lemma rowTotal_eq:
  "rowTotal js cfg r =
     (if isZero (parseMoney js (orElse (property r (col_totalAmount (columns cfg))) []))
      then js_times js (parseMoney js (orElse (property r (col_amountPerUnit (columns cfg))) []))
             (parseMoney js (orElse (property r (col_quantity (columns cfg))) []))
      else parseMoney js (orElse (property r (col_totalAmount (columns cfg))) []))"
proof -
  obtain x where "parseMoney js (orElse (property r (col_totalAmount (columns cfg))) []) = Num x"
    using parseMoney_Num by blast
  then show ?thesis by (simp add: rowTotal_def rowQty_def Let_def)
qed

lemma isDigit_digit_char: "isDigit (digit_char n)"
proof -
  have "n mod 10 < length ''0123456789''" by simp
  then have "''0123456789'' ! (n mod 10) \<in> set ''0123456789''" by (rule nth_mem)
  then show ?thesis by (simp only: isDigit_def digit_char_def)
qed

lemma nat_digits_digits: "list_all isDigit (nat_digits n) \<and> nat_digits n \<noteq> []"
proof (induction n rule: nat_digits.induct)
  case (1 n)
  show ?case
  proof (cases "n < 10")
    case True
    then show ?thesis by (simp add: nat_digits.simps[of n] isDigit_digit_char)
  next
    case False
    with 1 show ?thesis by (simp add: nat_digits.simps[of n] isDigit_digit_char)
  qed
qed

lemma nat_digits_small: "n < 10 \<Longrightarrow> nat_digits n = [digit_char n]"
  by (simp add: nat_digits.simps[of n])

lemma nat_digits_step: "10 \<le> n \<Longrightarrow> nat_digits n = nat_digits (n div 10) @ [digit_char n]"
  by (simp add: nat_digits.simps[of n])

lemma digit_char_0: "digit_char 0 = CHR ''0''"
  by (simp add: digit_char_def)

lemma two_places:
  fixes n :: nat
  defines "m \<equiv> replicate (2 + 1 - length (nat_digits n)) CHR ''0'' @ nat_digits n"
  shows "take (length m - 2) m @ ''.'' @ drop (length m - 2) m =
     nat_digits (n div 100) @ ''.'' @ [digit_char (n div 10), digit_char n]"
proof -
  consider "n < 10" | "10 \<le> n" "n < 100" | "100 \<le> n" by linarith
  then show ?thesis
  proof cases
    case 1
    then have "m = [CHR ''0'', CHR ''0'', digit_char n]"
      by (simp add: m_def nat_digits_small numeral_2_eq_2)
    with 1 show ?thesis by (simp add: nat_digits_small digit_char_0)
  next
    case 2
    then have d: "nat_digits n = [digit_char (n div 10), digit_char n]"
      by (simp add: nat_digits_step nat_digits_small)
    then have "m = [CHR ''0'', digit_char (n div 10), digit_char n]"
      by (simp add: m_def)
    with 2 show ?thesis by (simp add: nat_digits_small digit_char_0)
  next
    case 3
    then have "10 \<le> n div 10" by simp
    then have "nat_digits (n div 10) = nat_digits (n div 10 div 10) @ [digit_char (n div 10)]"
      by (rule nat_digits_step)
    moreover have "n div 10 div 10 = n div 100" by (simp add: div_mult2_eq)
    ultimately have d: "nat_digits n = nat_digits (n div 100) @ [digit_char (n div 10), digit_char n]"
      using 3 by (simp add: nat_digits_step[of n])
    have "nat_digits (n div 100) \<noteq> []" using nat_digits_digits by blast
    then have "3 \<le> length (nat_digits n)"
      by (cases "nat_digits (n div 100)") (simp_all add: d)
    then have "m = nat_digits n" by (simp add: m_def)
    then show ?thesis by (simp add: d)
  qed
qed

lemma toFixed_two:
  assumes "\<bar>r\<bar> < 10 ^ 21"
  shows "toFixed js (Num r) 2 = twoDecimals r"
  using assms two_places[of "nat \<lfloor>\<bar>r\<bar> * 100 + 1 / 2\<rfloor>"]
  by (simp add: toFixed_def twoDecimals_def Let_def)

lemma twoDecimals_shape:
  "\<exists>s ip fp. twoDecimals r = s @ ip @ ''.'' @ fp \<and> (s = [] \<or> s = ''-'') \<and>
     ip \<noteq> [] \<and> list_all isDigit ip \<and> length fp = 2 \<and> list_all isDigit fp"
proof -
  define n where "n = nat \<lfloor>\<bar>r\<bar> * 100 + 1 / 2\<rfloor>"
  have "twoDecimals r = (if r < 0 then ''-'' else []) @ nat_digits (n div 100) @ ''.'' @
      [digit_char (n div 10), digit_char n]"
    by (simp add: twoDecimals_def Let_def n_def)
  moreover have "(if r < 0 then ''-'' else []) = [] \<or> (if r < 0 then ''-'' else []) = ''-''"
    by simp
  moreover have "nat_digits (n div 100) \<noteq> []" "list_all isDigit (nat_digits (n div 100))"
    using nat_digits_digits by blast+
  moreover have "length [digit_char (n div 10), digit_char n] = 2"
    "list_all isDigit [digit_char (n div 10), digit_char n]"
    by (simp_all add: isDigit_digit_char)
  ultimately show ?thesis by blast
qed

lemma summary_lines:
  assumes "F \<noteq> []"
  shows "\<exists>summary'.
     ''Total trades: '' @ nat_digits (length F) @ ''.\<newline>'' @
       join ''\<newline>'' (map (formatLine js) (foldl (accumulate js cfg) [] F))
     = ''Total trades: '' @ nat_digits (length F) @ ''.\<newline>'' @ join ''\<newline>'' (map (formatLine js) summary') \<and>
     map fst summary' = firstSeen (map (rowSymbol cfg) F) \<and>
     (\<forall>(sy, e) \<in> set summary'.
        buyQty e = sumOf js (map (rowQty js cfg) (sideRows cfg sy ''buy'' F)) \<and>
        buyValue e = sumOf js (map (rowTotal js cfg) (sideRows cfg sy ''buy'' F)) \<and>
        sellQty e = sumOf js (map (rowQty js cfg) (sideRows cfg sy ''sell'' F)) \<and>
        sellValue e = sumOf js (map (rowTotal js cfg) (sideRows cfg sy ''sell'' F)))"
proof -
  let ?S = "foldl (accumulate js cfg) [] F"
  have k: "map fst ?S = firstSeen (map (rowSymbol cfg) F)" by (rule summary_keys)
  then have "distinct (map fst ?S)" by (simp add: firstSeen_set)
  then have "map_of ?S sy = Some e" if "(sy, e) \<in> set ?S" for sy e
    using that by simp
  then have "\<forall>(sy, e) \<in> set ?S.
        buyQty e = sumOf js (map (rowQty js cfg) (sideRows cfg sy ''buy'' F)) \<and>
        buyValue e = sumOf js (map (rowTotal js cfg) (sideRows cfg sy ''buy'' F)) \<and>
        sellQty e = sumOf js (map (rowQty js cfg) (sideRows cfg sy ''sell'' F)) \<and>
        sellValue e = sumOf js (map (rowTotal js cfg) (sideRows cfg sy ''sell'' F))"
    using summary_entries by blast
  with k show ?thesis by blast
qed

lemma summary_api_lines:
  assumes "F \<noteq> []"
  shows "\<exists>summary'.
     ''Total trades: '' @ nat_digits (length F) @ ''.\<newline>'' @
       join ''\<newline>'' (map (formatLine_api js) (foldl (accumulate_api js cfg) [] F))
     = ''Total trades: '' @ nat_digits (length F) @ ''.\<newline>'' @ join ''\<newline>'' (map (formatLine_api js) summary') \<and>
     map fst summary' = firstSeen (map (rowSymbol cfg) F) \<and>
     (\<forall>(sy, e) \<in> set summary'.
        a_buyQty e = sumOf js (map (rowQty js cfg) (sideRows cfg sy ''buy'' F)) \<and>
        a_buyValue e = sumOf js (map (rowTotal js cfg) (sideRows cfg sy ''buy'' F)) \<and>
        a_sellQty e = sumOf js (map (rowQty js cfg) (sideRows cfg sy ''sell'' F)) \<and>
        a_sellValue e = sumOf js (map (rowTotal js cfg) (sideRows cfg sy ''sell'' F)))"
proof -
  let ?S = "foldl (accumulate_api js cfg) [] F"
  have k: "map fst ?S = firstSeen (map (rowSymbol cfg) F)" by (rule summary_api_keys)
  then have "distinct (map fst ?S)" by (simp add: firstSeen_set)
  then have "map_of ?S sy = Some e" if "(sy, e) \<in> set ?S" for sy e
    using that by simp
  then have "\<forall>(sy, e) \<in> set ?S.
        a_buyQty e = sumOf js (map (rowQty js cfg) (sideRows cfg sy ''buy'' F)) \<and>
        a_buyValue e = sumOf js (map (rowTotal js cfg) (sideRows cfg sy ''buy'' F)) \<and>
        a_sellQty e = sumOf js (map (rowQty js cfg) (sideRows cfg sy ''sell'' F)) \<and>
        a_sellValue e = sumOf js (map (rowTotal js cfg) (sideRows cfg sy ''sell'' F))"
    using summary_api_entries by blast
  with k show ?thesis by blast
qed

lemma sample_summary:
  "summarizeTrades exact_arith (\<lambda>s. None) sampleConfig [buyRow] noQuery
     = ''Total trades: 1.\<newline>AAPL: buy 10 @ avg 5.00, sell 0 @ avg 0.00''"
  "summarizeTrades_api exact_arith (\<lambda>s. None) [buyRow] noQuery
     = ''Total trades: 1.\<newline>AAPL: buy 10 @ avg 5.00, sell 0 @ avg 0.00''"
  by code_simp+

text \<open>
  C6, as stated, fails on the format of the average. A single buy row of quantity 1 whose
  total is \<open>10^21\<close> has the average \<open>10^21\<close>, which \<open>toFixed(2)\<close> prints as \<open>1e+21\<close>,
  without decimals.
\<close>

theorem summarizeTrades_counterexample:
  "summarizeTrades exact_arith (\<lambda>s. None) sampleConfig [largeRow] noQuery
     = ''Total trades: 1.\<newline>AAPL: buy 1 @ avg 1e+21, sell 0 @ avg 0.00'' \<and>
   summarizeTrades_api exact_arith (\<lambda>s. None) [largeRow] noQuery
     = ''Total trades: 1.\<newline>AAPL: buy 1 @ avg 1e+21, sell 0 @ avg 0.00''"
  by code_simp

text \<open>
  C6, amended. \<open>summarizeTrades\<close> returns the fixed no-trades message exactly when no
  row is within the filter of section 4.5. Otherwise its text is the count line followed
  by one line per symbol, the symbols upper-cased and in the order in which they are
  first seen. The line of a symbol gives for each side the accumulated quantity and the
  average, where the quantity and the value of a side are the sums, from 0 and in row
  order, of the quantities and the values of the filtered rows of that symbol whose
  transaction type starts with \<open>buy\<close> or \<open>sell\<close>; the value of a row is its parsed total,
  or quantity times price when that is 0. The average is \<open>0.00\<close> when the quantity is
  not greater than 0, in particular when it is 0, so that nothing is divided by zero;
  otherwise it is the value divided by the quantity, put through \<open>toFixed(2)\<close>, which
  prints it with two decimals whenever the quotient is finite and below \<open>10^21\<close> in
  magnitude. The same holds for \<open>api/chat.ts\<close>. A single buy row of quantity 10 at
  price 5 gives the buy average \<open>5.00\<close>.
\<close>

theorem summarizeTrades_lines:
  "(summarizeTrades js nd cfg rows q = noTradesMessage \<longleftrightarrow> filter (withinFilter nd cfg q) rows = []) \<and>
   (filter (withinFilter nd cfg q) rows \<noteq> [] \<longrightarrow>
      (\<exists>summary'.
         summarizeTrades js nd cfg rows q =
           ''Total trades: '' @ nat_digits (length (filter (withinFilter nd cfg q) rows)) @ ''.\<newline>'' @
           join ''\<newline>'' (map (formatLine js) summary') \<and>
         map fst summary' = firstSeen (map (rowSymbol cfg) (filter (withinFilter nd cfg q) rows)) \<and>
         (\<forall>(sy, e) \<in> set summary'.
            buyQty e = sumOf js (map (rowQty js cfg)
              (sideRows cfg sy ''buy'' (filter (withinFilter nd cfg q) rows))) \<and>
            buyValue e = sumOf js (map (rowTotal js cfg)
              (sideRows cfg sy ''buy'' (filter (withinFilter nd cfg q) rows))) \<and>
            sellQty e = sumOf js (map (rowQty js cfg)
              (sideRows cfg sy ''sell'' (filter (withinFilter nd cfg q) rows))) \<and>
            sellValue e = sumOf js (map (rowTotal js cfg)
              (sideRows cfg sy ''sell'' (filter (withinFilter nd cfg q) rows)))))) \<and>
   (\<exists>extras. formatLine js (sy, e) =
      sy @ '': buy '' @ js_String js (buyQty e) @ '' @ avg '' @ average js (buyValue e) (buyQty e) @
      '', sell '' @ js_String js (sellQty e) @ '' @ avg '' @ average js (sellValue e) (sellQty e) @ extras) \<and>
   (summarizeTrades_api js nd rows q = noTradesMessage \<longleftrightarrow> filter (withinFilter nd config_api q) rows = []) \<and>
   (filter (withinFilter nd config_api q) rows \<noteq> [] \<longrightarrow>
      (\<exists>summary'.
         summarizeTrades_api js nd rows q =
           ''Total trades: '' @ nat_digits (length (filter (withinFilter nd config_api q) rows)) @ ''.\<newline>'' @
           join ''\<newline>'' (map (formatLine_api js) summary') \<and>
         map fst summary' = firstSeen (map (rowSymbol config_api) (filter (withinFilter nd config_api q) rows)) \<and>
         (\<forall>(sy, e) \<in> set summary'.
            a_buyQty e = sumOf js (map (rowQty js config_api)
              (sideRows config_api sy ''buy'' (filter (withinFilter nd config_api q) rows))) \<and>
            a_buyValue e = sumOf js (map (rowTotal js config_api)
              (sideRows config_api sy ''buy'' (filter (withinFilter nd config_api q) rows))) \<and>
            a_sellQty e = sumOf js (map (rowQty js config_api)
              (sideRows config_api sy ''sell'' (filter (withinFilter nd config_api q) rows))) \<and>
            a_sellValue e = sumOf js (map (rowTotal js config_api)
              (sideRows config_api sy ''sell'' (filter (withinFilter nd config_api q) rows)))))) \<and>
   formatLine_api js (sy, e') =
      sy @ '': buy '' @ js_String js (a_buyQty e') @ '' @ avg '' @ average js (a_buyValue e') (a_buyQty e') @
      '', sell '' @ js_String js (a_sellQty e') @ '' @ avg '' @ average js (a_sellValue e') (a_sellQty e') \<and>
   rowTotal js cfg r =
     (if isZero (parseMoney js (orElse (property r (col_totalAmount (columns cfg))) []))
      then js_times js (parseMoney js (orElse (property r (col_amountPerUnit (columns cfg))) []))
             (parseMoney js (orElse (property r (col_quantity (columns cfg))) []))
      else parseMoney js (orElse (property r (col_totalAmount (columns cfg))) [])) \<and>
   (\<not> gtZero qty \<longrightarrow> average js v qty = ''0.00'') \<and>
   (isZero qty \<longrightarrow> average js v qty = ''0.00'') \<and>
   (gtZero qty \<longrightarrow> average js v qty = toFixed js (js_divide js v qty) 2) \<and>
   (\<bar>x\<bar> < 10 ^ 21 \<longrightarrow> toFixed js (Num x) 2 = twoDecimals x) \<and>
   (\<exists>s ip fp. twoDecimals x = s @ ip @ ''.'' @ fp \<and> (s = [] \<or> s = ''-'') \<and>
      ip \<noteq> [] \<and> list_all isDigit ip \<and> length fp = 2 \<and> list_all isDigit fp) \<and>
   summarizeTrades exact_arith (\<lambda>s. None) sampleConfig [buyRow] noQuery
     = ''Total trades: 1.\<newline>AAPL: buy 10 @ avg 5.00, sell 0 @ avg 0.00'' \<and>
   summarizeTrades_api exact_arith (\<lambda>s. None) [buyRow] noQuery
     = ''Total trades: 1.\<newline>AAPL: buy 10 @ avg 5.00, sell 0 @ avg 0.00''"
proof -
  let ?f = "filter (withinFilter nd cfg q) rows"
  let ?fa = "filter (withinFilter nd config_api q) rows"
  have 1: "summarizeTrades js nd cfg rows q = noTradesMessage \<longleftrightarrow> ?f = []"
    by (simp add: summarizeTrades_unfold noTradesMessage_def)
  have 2: "?f \<noteq> [] \<longrightarrow>
      (\<exists>summary'.
         summarizeTrades js nd cfg rows q =
           ''Total trades: '' @ nat_digits (length ?f) @ ''.\<newline>'' @
           join ''\<newline>'' (map (formatLine js) summary') \<and>
         map fst summary' = firstSeen (map (rowSymbol cfg) ?f) \<and>
         (\<forall>(sy, e) \<in> set summary'.
            buyQty e = sumOf js (map (rowQty js cfg) (sideRows cfg sy ''buy'' ?f)) \<and>
            buyValue e = sumOf js (map (rowTotal js cfg) (sideRows cfg sy ''buy'' ?f)) \<and>
            sellQty e = sumOf js (map (rowQty js cfg) (sideRows cfg sy ''sell'' ?f)) \<and>
            sellValue e = sumOf js (map (rowTotal js cfg) (sideRows cfg sy ''sell'' ?f))))"
  proof
    assume ne: "?f \<noteq> []"
    then have "summarizeTrades js nd cfg rows q =
        ''Total trades: '' @ nat_digits (length ?f) @ ''.\<newline>'' @
        join ''\<newline>'' (map (formatLine js) (foldl (accumulate js cfg) [] ?f))"
      by (simp add: summarizeTrades_unfold)
    with summary_lines[OF ne, of js cfg] show "\<exists>summary'.
         summarizeTrades js nd cfg rows q =
           ''Total trades: '' @ nat_digits (length ?f) @ ''.\<newline>'' @
           join ''\<newline>'' (map (formatLine js) summary') \<and>
         map fst summary' = firstSeen (map (rowSymbol cfg) ?f) \<and>
         (\<forall>(sy, e) \<in> set summary'.
            buyQty e = sumOf js (map (rowQty js cfg) (sideRows cfg sy ''buy'' ?f)) \<and>
            buyValue e = sumOf js (map (rowTotal js cfg) (sideRows cfg sy ''buy'' ?f)) \<and>
            sellQty e = sumOf js (map (rowQty js cfg) (sideRows cfg sy ''sell'' ?f)) \<and>
            sellValue e = sumOf js (map (rowTotal js cfg) (sideRows cfg sy ''sell'' ?f)))"
      by (simp only:)
  qed
  have 3: "summarizeTrades_api js nd rows q = noTradesMessage \<longleftrightarrow> ?fa = []"
    by (simp add: summarizeTrades_api_unfold noTradesMessage_def)
  have 4: "?fa \<noteq> [] \<longrightarrow>
      (\<exists>summary'.
         summarizeTrades_api js nd rows q =
           ''Total trades: '' @ nat_digits (length ?fa) @ ''.\<newline>'' @
           join ''\<newline>'' (map (formatLine_api js) summary') \<and>
         map fst summary' = firstSeen (map (rowSymbol config_api) ?fa) \<and>
         (\<forall>(sy, e) \<in> set summary'.
            a_buyQty e = sumOf js (map (rowQty js config_api) (sideRows config_api sy ''buy'' ?fa)) \<and>
            a_buyValue e = sumOf js (map (rowTotal js config_api) (sideRows config_api sy ''buy'' ?fa)) \<and>
            a_sellQty e = sumOf js (map (rowQty js config_api) (sideRows config_api sy ''sell'' ?fa)) \<and>
            a_sellValue e = sumOf js (map (rowTotal js config_api) (sideRows config_api sy ''sell'' ?fa))))"
  proof
    assume ne: "?fa \<noteq> []"
    then have "summarizeTrades_api js nd rows q =
        ''Total trades: '' @ nat_digits (length ?fa) @ ''.\<newline>'' @
        join ''\<newline>'' (map (formatLine_api js) (foldl (accumulate_api js config_api) [] ?fa))"
      by (simp add: summarizeTrades_api_unfold)
    with summary_api_lines[OF ne, of js config_api] show "\<exists>summary'.
         summarizeTrades_api js nd rows q =
           ''Total trades: '' @ nat_digits (length ?fa) @ ''.\<newline>'' @
           join ''\<newline>'' (map (formatLine_api js) summary') \<and>
         map fst summary' = firstSeen (map (rowSymbol config_api) ?fa) \<and>
         (\<forall>(sy, e) \<in> set summary'.
            a_buyQty e = sumOf js (map (rowQty js config_api) (sideRows config_api sy ''buy'' ?fa)) \<and>
            a_buyValue e = sumOf js (map (rowTotal js config_api) (sideRows config_api sy ''buy'' ?fa)) \<and>
            a_sellQty e = sumOf js (map (rowQty js config_api) (sideRows config_api sy ''sell'' ?fa)) \<and>
            a_sellValue e = sumOf js (map (rowTotal js config_api) (sideRows config_api sy ''sell'' ?fa)))"
      by (simp only:)
  qed
  note a = average_cases[of qty js v]
  show ?thesis
    apply (intro conjI)
                apply (rule 1)
               apply (rule 2)
              apply (rule formatLine_shape)
             apply (rule 3)
            apply (rule 4)
           apply (rule formatLine_api_shape)
          apply (rule rowTotal_eq)
         apply (rule a[THEN conjunct1])
        apply (rule a[THEN conjunct2, THEN conjunct1])
       apply (rule a[THEN conjunct2, THEN conjunct2])
      apply (rule impI, erule toFixed_two)
     apply (rule twoDecimals_shape)
    apply (rule sample_summary(1))
    apply (rule sample_summary(2))
    done
qed

lemma sample_filter:
  "filter (withinFilter (\<lambda>s. None) config_api noQuery) [buyRow, secondBuyRow] = [buyRow, secondBuyRow]"
  "filter (withinFilter (\<lambda>s. None) config_api noQuery) [blankCells] = []"
  "firstSeen (map (rowSymbol config_api) [buyRow, secondBuyRow]) = [''AAPL'']"
  "nat_digits (length [buyRow, secondBuyRow]) = ''2''"
  by code_simp+

lemma sample_sums:
  "sumOf exact_arith (map (rowQty exact_arith config_api)
     (sideRows config_api ''AAPL'' ''buy'' [buyRow, secondBuyRow])) = Num 40"
  "sumOf exact_arith (map (rowTotal exact_arith config_api)
     (sideRows config_api ''AAPL'' ''buy'' [buyRow, secondBuyRow])) = Num 320"
  "sumOf exact_arith (map (rowQty exact_arith config_api)
     (sideRows config_api ''AAPL'' ''sell'' [buyRow, secondBuyRow])) = Num 0"
  "sumOf exact_arith (map (rowTotal exact_arith config_api)
     (sideRows config_api ''AAPL'' ''sell'' [buyRow, secondBuyRow])) = Num 0"
  by code_simp+

lemma sample_numbers:
  "gtZero (Num 40)" "\<not> gtZero (Num 0)" "isZero (Num 0)"
  "js_divide exact_arith (Num 320) (Num 40) = Num 8"
  "\<bar>8::rat\<bar> < 10 ^ 21"
  "twoDecimals 8 = ''8.00''"
  "js_String exact_arith (Num 40) = ''40''"
  "js_String exact_arith (Num 0) = ''0''"
  by code_simp+

theorem summarizeTrades_lines_witness:
  "filter (withinFilter (\<lambda>s. None) config_api noQuery) [buyRow, secondBuyRow] = [buyRow, secondBuyRow] \<and>
   summarizeTrades_api exact_arith (\<lambda>s. None) [buyRow, secondBuyRow] noQuery
     = ''Total trades: 2.\<newline>AAPL: buy 40 @ avg 8.00, sell 0 @ avg 0.00'' \<and>
   filter (withinFilter (\<lambda>s. None) config_api noQuery) [blankCells] = [] \<and>
   summarizeTrades_api exact_arith (\<lambda>s. None) [blankCells] noQuery = noTradesMessage \<and>
   summarizeTrades exact_arith (\<lambda>s. None) config_api [blankCells] noQuery = noTradesMessage \<and>
   gtZero (Num 40) \<and> \<bar>8::rat\<bar> < 10 ^ 21 \<and>
   average exact_arith (Num 320) (Num 40) = ''8.00'' \<and>
   isZero (Num 0) \<and> average exact_arith (Num 0) (Num 0) = ''0.00''"
proof -
  let ?rows = "[buyRow, secondBuyRow]"
  note t = summarizeTrades_lines [where js = exact_arith and nd = "\<lambda>s. None" and q = noQuery
      and cfg = config_api]
  note two = t [where rows = ?rows and qty = "Num 40" and v = "Num 320" and x = 8]
  note none = t [where rows = "[blankCells]" and qty = "Num 0" and v = "Num 0"]
  have avg: "average exact_arith (Num 320) (Num 40) = ''8.00''"
  proof -
    from two sample_numbers(1)
    have "average exact_arith (Num 320) (Num 40) = toFixed exact_arith (js_divide exact_arith (Num 320) (Num 40)) 2"
      by blast
    moreover from two sample_numbers(5) have "toFixed exact_arith (Num 8) 2 = twoDecimals 8"
      by blast
    ultimately show ?thesis by (simp only: sample_numbers(4) sample_numbers(6))
  qed
  have zero: "average exact_arith (Num 0) (Num 0) = ''0.00''"
    using none sample_numbers(3) by blast
  have ne: "filter (withinFilter (\<lambda>s. None) config_api noQuery) ?rows \<noteq> []"
    by (simp only: sample_filter(1)) simp
  note api = two [THEN conjunct2, THEN conjunct2, THEN conjunct2, THEN conjunct2, THEN conjunct1,
      THEN mp, OF ne, unfolded sample_filter(1)]
  from api obtain summary' where
    out: "summarizeTrades_api exact_arith (\<lambda>s. None) ?rows noQuery =
           ''Total trades: '' @ nat_digits (length ?rows) @ ''.\<newline>'' @
           join ''\<newline>'' (map (formatLine_api exact_arith) summary')"
    and keys: "map fst summary' = firstSeen (map (rowSymbol config_api) ?rows)"
    and sums: "\<forall>(sy, e) \<in> set summary'.
            a_buyQty e = sumOf exact_arith (map (rowQty exact_arith config_api)
              (sideRows config_api sy ''buy'' ?rows)) \<and>
            a_buyValue e = sumOf exact_arith (map (rowTotal exact_arith config_api)
              (sideRows config_api sy ''buy'' ?rows)) \<and>
            a_sellQty e = sumOf exact_arith (map (rowQty exact_arith config_api)
              (sideRows config_api sy ''sell'' ?rows)) \<and>
            a_sellValue e = sumOf exact_arith (map (rowTotal exact_arith config_api)
              (sideRows config_api sy ''sell'' ?rows))"
    by (elim exE conjE)
  from keys have "map fst summary' = [''AAPL'']" by (simp only: sample_filter(3))
  then obtain e where s: "summary' = [(''AAPL'', e)]" by auto
  with sums have e: "a_buyQty e = Num 40" "a_buyValue e = Num 320" "a_sellQty e = Num 0"
    "a_sellValue e = Num 0"
    by (simp_all add: sample_sums)
  from t [where sy = "''AAPL''" and e' = e]
  have line: "formatLine_api exact_arith (''AAPL'', e) =
      ''AAPL'' @ '': buy '' @ js_String exact_arith (a_buyQty e) @ '' @ avg '' @
      average exact_arith (a_buyValue e) (a_buyQty e) @
      '', sell '' @ js_String exact_arith (a_sellQty e) @ '' @ avg '' @
      average exact_arith (a_sellValue e) (a_sellQty e)"
    by blast
  have 2: "summarizeTrades_api exact_arith (\<lambda>s. None) ?rows noQuery
     = ''Total trades: 2.\<newline>AAPL: buy 40 @ avg 8.00, sell 0 @ avg 0.00''"
    unfolding out s sample_filter(4)
    by (simp add: line e avg zero sample_numbers)
  from none sample_filter(2)
  have 4: "summarizeTrades_api exact_arith (\<lambda>s. None) [blankCells] noQuery = noTradesMessage"
    and 5: "summarizeTrades exact_arith (\<lambda>s. None) config_api [blankCells] noQuery = noTradesMessage"
    by blast+
  from sample_filter(1) 2 sample_filter(2) 4 5 sample_numbers(1) sample_numbers(5) avg
    sample_numbers(3) zero
  show ?thesis by (intro conjI)
qed

subsection \<open>Conversation orchestrator\<close>

text \<open>The shapes that a turn can have.\<close>

lemma manualFallback_Inr:
  assumes "manualFallback rt h m calls = Inr t"
  shows "(getMissingManualFields (parseManualTrade (arith rt) m) = [] \<and>
          (\<exists>r calls'. t = respond 200 r defaultTools h m calls')) \<or>
         (getMissingManualFields (parseManualTrade (arith rt) m) \<noteq> [] \<and>
          t = \<lparr>sent = Some \<lparr>statusCode = 503,
                  sentBody = ReplyBody (manualTradePrompt
                    (getMissingManualFields (parseManualTrade (arith rt) m))) (Some defaultTools)\<rparr>,
               chatHistory = h, appendCalls = calls\<rparr>)"
  using assms
  by (auto simp: manualFallback_def Let_def split: if_splits option.splits)

lemma manualFallback_Inl:
  assumes "manualFallback rt h m calls = Inl e"
  shows "getMissingManualFields (parseManualTrade (arith rt) m) = []"
  using assms
  by (auto simp: manualFallback_def Let_def split: if_splits option.splits)

lemma tryBlock_Inr:
  assumes "tryBlock rt cfg h m = Inr t"
  shows "(\<exists>r tools calls. t = respond 200 r tools h m calls) \<or>
         (\<exists>r. t = \<lparr>sent = Some \<lparr>statusCode = 503, sentBody = ReplyBody r (Some defaultTools)\<rparr>,
                    chatHistory = h, appendCalls = []\<rparr>)"
proof (cases "interpretMessage rt m h")
  case (Inl thrown)
  with assms have "manualFallback rt h m [] = Inr t"
    by (simp add: tryBlock_def split: if_splits)
  from manualFallback_Inr[OF this] show ?thesis by blast
next
  case (Inr a)
  with assms show ?thesis
    by (auto simp: tryBlock_def Let_def split: if_splits option.splits sum.splits prod.splits)
qed

lemma catchBlock_cases:
  "(\<exists>r tools calls. catchBlock rt h m (e, cs) = respond 200 r tools h m calls) \<or>
   (\<exists>r. catchBlock rt h m (e, cs) =
      \<lparr>sent = Some \<lparr>statusCode = 503, sentBody = ReplyBody r (Some defaultTools)\<rparr>,
       chatHistory = h, appendCalls = cs\<rparr>) \<or>
   (\<exists>calls. catchBlock rt h m (e, cs) = \<lparr>sent = None, chatHistory = h, appendCalls = calls\<rparr>) \<or>
   (\<exists>r tools. generateReply rt m (ErrorContext e) h = Inr (r, tools) \<and>
      catchBlock rt h m (e, cs) = respond 500 r tools h m cs) \<or>
   (\<exists>thrown. generateReply rt m (ErrorContext e) h = Inl thrown \<and>
      catchBlock rt h m (e, cs) =
        \<lparr>sent = Some \<lparr>statusCode = 500, sentBody = ReplyBody e (Some defaultTools)\<rparr>,
         chatHistory = h, appendCalls = cs\<rparr>)"
proof (cases "isLlmAuthError e")
  case True
  show ?thesis
  proof (cases "manualFallback rt h m cs")
    case (Inl x)
    with True show ?thesis by (cases x) (simp add: catchBlock_def)
  next
    case (Inr t)
    with True have c: "catchBlock rt h m (e, cs) = t" by (simp add: catchBlock_def)
    from manualFallback_Inr[OF Inr] show ?thesis unfolding c by blast
  qed
next
  case False
  then show ?thesis
    by (cases "generateReply rt m (ErrorContext e) h") (auto simp: catchBlock_def)
qed

lemma chatHandler_cases:
  "(trim m = [] \<and> chatHandler rt cfg h m =
      \<lparr>sent = Some \<lparr>statusCode = 400, sentBody = ReplyBody ''Message is required.'' None\<rparr>,
       chatHistory = h, appendCalls = []\<rparr>) \<or>
   (\<exists>r tools calls. chatHandler rt cfg h m = respond 200 r tools h (trim m) calls) \<or>
   (\<exists>r calls. chatHandler rt cfg h m =
      \<lparr>sent = Some \<lparr>statusCode = 503, sentBody = ReplyBody r (Some defaultTools)\<rparr>,
       chatHistory = h, appendCalls = calls\<rparr>) \<or>
   (\<exists>calls. chatHandler rt cfg h m = \<lparr>sent = None, chatHistory = h, appendCalls = calls\<rparr>) \<or>
   (\<exists>e r tools calls. generateReply rt (trim m) (ErrorContext e) h = Inr (r, tools) \<and>
      chatHandler rt cfg h m = respond 500 r tools h (trim m) calls) \<or>
   (\<exists>e thrown calls. generateReply rt (trim m) (ErrorContext e) h = Inl thrown \<and>
      chatHandler rt cfg h m =
        \<lparr>sent = Some \<lparr>statusCode = 500, sentBody = ReplyBody e (Some defaultTools)\<rparr>,
         chatHistory = h, appendCalls = calls\<rparr>)"
proof (cases "trim m = []")
  case True
  then show ?thesis by (simp add: chatHandler_def)
next
  case False
  show ?thesis
  proof (cases "tryBlock rt cfg h (trim m)")
    case (Inr t)
    with False have c: "chatHandler rt cfg h m = t" by (simp add: chatHandler_def)
    from tryBlock_Inr[OF Inr] show ?thesis unfolding c by blast
  next
    case (Inl x)
    obtain e cs where x: "x = (e, cs)" by (cases x)
    with Inl False have c: "chatHandler rt cfg h m = catchBlock rt h (trim m) (e, cs)"
      by (simp add: chatHandler_def)
    from catchBlock_cases[of rt h "trim m" e cs] show ?thesis unfolding c by blast
  qed
qed

lemma handler_api_cases:
  "(\<exists>r tools calls. handler_api rt h mth m = respond 200 r tools h (trim m) calls) \<or>
   (\<exists>c b calls. c \<noteq> 200 \<and> handler_api rt h mth m =
      \<lparr>sent = Some \<lparr>statusCode = c, sentBody = b\<rparr>, chatHistory = h, appendCalls = calls\<rparr>) \<or>
   handler_api rt h mth m =
      \<lparr>sent = Some \<lparr>statusCode = 200, sentBody = NoBody\<rparr>, chatHistory = h, appendCalls = []\<rparr>"
proof -
  have t: "(\<exists>r tools calls. t = respond 200 r tools h (trim m) calls)"
    if "tryBlock_api rt h (trim m) = Inr t" for t
    using that
    by (auto simp: tryBlock_api_def Let_def split: if_splits option.splits sum.splits prod.splits)
  show ?thesis
  proof (cases "mth = POST \<and> trim m \<noteq> []")
    case False
    then show ?thesis by (auto simp: handler_api_def)
  next
    case True
    show ?thesis
    proof (cases "tryBlock_api rt h (trim m)")
      case (Inr x)
      with True have "handler_api rt h mth m = x" by (simp add: handler_api_def)
      with t[OF Inr] show ?thesis by simp
    next
      case (Inl x)
      with True show ?thesis by (cases x) (simp add: handler_api_def)
    qed
  qed
qed

text \<open>
  The two \<open>pushHistory\<close> calls of a recorded turn leave the last 20 entries of the old
  history followed by the user message and the reply.
\<close>

lemma pushHistory_eq: "pushHistory h e = drop (length h + 1 - 20) (h @ [e])"
  by (simp add: pushHistory_def MAX_HISTORY_def Let_def)

lemma recorded_eq:
  "recorded h m r =
     drop (length h + 2 - 20) (h @ [\<lparr>role = User, content = m\<rparr>, \<lparr>role = Assistant, content = r\<rparr>])"
proof (cases "length h + 1 \<le> 20")
  case True
  then show ?thesis by (simp add: recorded_def pushHistory_eq)
next
  case False
  let ?u = "\<lparr>role = User, content = m\<rparr>"
  let ?a = "\<lparr>role = Assistant, content = r\<rparr>"
  define h1 where "h1 = drop (length h - 19) h"
  have l1: "length h1 = 19" using False by (simp add: h1_def)
  have p1: "pushHistory h ?u = h1 @ [?u]"
    using False by (simp add: pushHistory_eq h1_def)
  have p2: "pushHistory (h1 @ [?u]) ?a = drop 1 h1 @ [?u, ?a]"
    using l1 by (simp add: pushHistory_eq)
  have "Suc (length h - 19) = length h - 18" using False by arith
  then have "drop 1 h1 = drop (length h - 18) h"
    by (simp add: h1_def)
  with p1 p2 False show ?thesis by (simp add: recorded_def)
qed

text \<open>
  C3, as stated, fails. Without the completion credential the server answers the message
  \<open>hello\<close> through the manual fallback with the prompt that lists the missing fields
  (status 503), and \<open>api/chat.ts\<close> answers it with the error text (status 500): both
  send a reply, and neither appends anything to the history, where the claim asks for the
  user message and the reply.
\<close>

theorem chatHistory_recorded_counterexample:
  "chatHandler noKeyRuntime sampleConfig [] ''hello'' =
     \<lparr>sent = Some \<lparr>statusCode = 503,
              sentBody = ReplyBody (manualTradePrompt fieldLabels) (Some defaultTools)\<rparr>,
      chatHistory = [], appendCalls = []\<rparr> \<and>
   handler_api noKeyRuntime [] POST ''hello'' =
     \<lparr>sent = Some \<lparr>statusCode = 500,
              sentBody = ReplyBody ''Missing OPENAI_API_KEY'' (Some defaultTools)\<rparr>,
      chatHistory = [], appendCalls = []\<rparr>"
  by code_simp

text \<open>
  C3, amended. A turn that ends with status 200 (a logged trade, a summary, the unknown
  path, or a trade committed by the manual fallback) appends to the chat history exactly
  once: the history after the turn is the old history followed by the user message and
  then the assistant reply that is sent, cut to its last 20 entries. In the server's
  error path (status 500) the pair is appended in the same way when the reply composer
  produces the error reply, and nothing is appended when the reply composer fails and the
  error text itself is sent. Every other turn leaves the history unchanged: the manual
  fallback's prompt for the missing fields (503), the reply to an empty message (400), a
  turn that sends nothing, and in \<open>api/chat.ts\<close> every response other than a
  200 reply.
\<close>

theorem chatHistory_recorded:
  "(\<forall>r tools. sent (chatHandler rt cfg h m) = Some \<lparr>statusCode = 200, sentBody = ReplyBody r tools\<rparr> \<longrightarrow>
      chatHistory (chatHandler rt cfg h m) =
        drop (length h + 2 - 20)
          (h @ [\<lparr>role = User, content = trim m\<rparr>, \<lparr>role = Assistant, content = r\<rparr>])) \<and>
   (\<forall>r tools. sent (chatHandler rt cfg h m) = Some \<lparr>statusCode = 500, sentBody = ReplyBody r tools\<rparr> \<longrightarrow>
      (\<exists>e tl. tools = Some tl \<and> generateReply rt (trim m) (ErrorContext e) h = Inr (r, tl) \<and>
          chatHistory (chatHandler rt cfg h m) =
            drop (length h + 2 - 20)
              (h @ [\<lparr>role = User, content = trim m\<rparr>, \<lparr>role = Assistant, content = r\<rparr>])) \<or>
      (\<exists>thrown. generateReply rt (trim m) (ErrorContext r) h = Inl thrown \<and>
          chatHistory (chatHandler rt cfg h m) = h)) \<and>
   (\<forall>c b. sent (chatHandler rt cfg h m) = Some \<lparr>statusCode = c, sentBody = b\<rparr> \<and> c \<noteq> 200 \<and> c \<noteq> 500 \<longrightarrow>
      chatHistory (chatHandler rt cfg h m) = h) \<and>
   (sent (chatHandler rt cfg h m) = None \<longrightarrow> chatHistory (chatHandler rt cfg h m) = h) \<and>
   (\<forall>r tools. sent (handler_api rt h mth m) = Some \<lparr>statusCode = 200, sentBody = ReplyBody r tools\<rparr> \<longrightarrow>
      chatHistory (handler_api rt h mth m) =
        drop (length h + 2 - 20)
          (h @ [\<lparr>role = User, content = trim m\<rparr>, \<lparr>role = Assistant, content = r\<rparr>])) \<and>
   (\<forall>c b. sent (handler_api rt h mth m) = Some \<lparr>statusCode = c, sentBody = b\<rparr> \<and> c \<noteq> 200 \<longrightarrow>
      chatHistory (handler_api rt h mth m) = h)"
proof -
  let ?t = "chatHandler rt cfg h m"
  let ?a = "handler_api rt h mth m"
  let ?pair = "\<lambda>r. drop (length h + 2 - 20)
      (h @ [\<lparr>role = User, content = trim m\<rparr>, \<lparr>role = Assistant, content = r\<rparr>])"
  note c = chatHandler_cases[of m rt cfg h]
  note a = handler_api_cases[of rt h mth m]
  have 1: "\<forall>r tools. sent ?t = Some \<lparr>statusCode = 200, sentBody = ReplyBody r tools\<rparr> \<longrightarrow>
      chatHistory ?t = ?pair r"
    using c by (elim disjE exE conjE) (simp_all add: respond_def recorded_eq)
  have 2: "\<forall>r tools. sent ?t = Some \<lparr>statusCode = 500, sentBody = ReplyBody r tools\<rparr> \<longrightarrow>
      (\<exists>e tl. tools = Some tl \<and> generateReply rt (trim m) (ErrorContext e) h = Inr (r, tl) \<and>
          chatHistory ?t = ?pair r) \<or>
      (\<exists>thrown. generateReply rt (trim m) (ErrorContext r) h = Inl thrown \<and> chatHistory ?t = h)"
    using c by (elim disjE exE conjE) (auto simp: respond_def recorded_eq)
  have 3: "\<forall>c b. sent ?t = Some \<lparr>statusCode = c, sentBody = b\<rparr> \<and> c \<noteq> 200 \<and> c \<noteq> 500 \<longrightarrow>
      chatHistory ?t = h"
    using c by (elim disjE exE conjE) (simp_all add: respond_def)
  have 4: "sent ?t = None \<longrightarrow> chatHistory ?t = h"
    using c by (elim disjE exE conjE) (simp_all add: respond_def)
  have 5: "\<forall>r tools. sent ?a = Some \<lparr>statusCode = 200, sentBody = ReplyBody r tools\<rparr> \<longrightarrow>
      chatHistory ?a = ?pair r"
    using a by (elim disjE exE conjE) (simp_all add: respond_def recorded_eq)
  have 6: "\<forall>c b. sent ?a = Some \<lparr>statusCode = c, sentBody = b\<rparr> \<and> c \<noteq> 200 \<longrightarrow> chatHistory ?a = h"
    using a by (elim disjE exE conjE) (simp_all add: respond_def)
  from 1 2 3 4 5 6 show ?thesis by (intro conjI)
qed

lemma sample_turns:
  "sent (chatHandler (sampleRuntime ''{\"action\":\"summarize\"}'') sampleConfig [] ''Summarize my trades'')
     = Some \<lparr>statusCode = 200, sentBody = ReplyBody ''Done.'' (Some defaultTools)\<rparr>"
  "sent (chatHandler (sampleRuntime ''{\"action\":\"summarize\"}'') sampleConfig longHistory
       '' Summarize my trades '')
     = Some \<lparr>statusCode = 200, sentBody = ReplyBody ''Done.'' (Some defaultTools)\<rparr>"
  "sent (chatHandler noKeyRuntime sampleConfig longHistory ''hello'')
     = Some \<lparr>statusCode = 503,
             sentBody = ReplyBody (manualTradePrompt fieldLabels) (Some defaultTools)\<rparr>"
  "trim ''Summarize my trades'' = ''Summarize my trades''"
  "trim '' Summarize my trades '' = ''Summarize my trades''"
  "length longHistory = 19"
  by code_simp+

lemma sample_histories:
  "drop (length ([]::ChatMessage list) + 2 - 20)
     ([] @ [\<lparr>role = User, content = ''Summarize my trades''\<rparr>, \<lparr>role = Assistant, content = ''Done.''\<rparr>])
   = [\<lparr>role = User, content = ''Summarize my trades''\<rparr>, \<lparr>role = Assistant, content = ''Done.''\<rparr>]"
  "drop (length longHistory + 2 - 20)
     (longHistory @ [\<lparr>role = User, content = ''Summarize my trades''\<rparr>,
                     \<lparr>role = Assistant, content = ''Done.''\<rparr>])
   = replicate 18 \<lparr>role = Assistant, content = ''ok''\<rparr> @
     [\<lparr>role = User, content = ''Summarize my trades''\<rparr>, \<lparr>role = Assistant, content = ''Done.''\<rparr>]"
  by (simp_all add: longHistory_def)

theorem chatHistory_recorded_witness:
  "sent (chatHandler (sampleRuntime ''{\"action\":\"summarize\"}'') sampleConfig [] ''Summarize my trades'')
     = Some \<lparr>statusCode = 200, sentBody = ReplyBody ''Done.'' (Some defaultTools)\<rparr> \<and>
   chatHistory (chatHandler (sampleRuntime ''{\"action\":\"summarize\"}'') sampleConfig []
       ''Summarize my trades'')
     = [\<lparr>role = User, content = ''Summarize my trades''\<rparr>, \<lparr>role = Assistant, content = ''Done.''\<rparr>] \<and>
   length longHistory = 19 \<and>
   sent (chatHandler (sampleRuntime ''{\"action\":\"summarize\"}'') sampleConfig longHistory
       '' Summarize my trades '')
     = Some \<lparr>statusCode = 200, sentBody = ReplyBody ''Done.'' (Some defaultTools)\<rparr> \<and>
   chatHistory (chatHandler (sampleRuntime ''{\"action\":\"summarize\"}'') sampleConfig longHistory
       '' Summarize my trades '')
     = replicate 18 \<lparr>role = Assistant, content = ''ok''\<rparr> @
       [\<lparr>role = User, content = ''Summarize my trades''\<rparr>, \<lparr>role = Assistant, content = ''Done.''\<rparr>] \<and>
   sent (chatHandler noKeyRuntime sampleConfig longHistory ''hello'')
     = Some \<lparr>statusCode = 503,
             sentBody = ReplyBody (manualTradePrompt fieldLabels) (Some defaultTools)\<rparr> \<and>
   chatHistory (chatHandler noKeyRuntime sampleConfig longHistory ''hello'') = longHistory"
proof -
  note a = chatHistory_recorded [where rt = "sampleRuntime ''{\"action\":\"summarize\"}''"
      and cfg = sampleConfig and h = "[]" and m = "''Summarize my trades''"]
  note b = chatHistory_recorded [where rt = "sampleRuntime ''{\"action\":\"summarize\"}''"
      and cfg = sampleConfig and h = longHistory and m = "'' Summarize my trades ''"]
  note c = chatHistory_recorded [where rt = noKeyRuntime and cfg = sampleConfig
      and h = longHistory and m = "''hello''"]
  from a[THEN conjunct1] sample_turns(1)
  have "chatHistory (chatHandler (sampleRuntime ''{\"action\":\"summarize\"}'') sampleConfig []
       ''Summarize my trades'')
     = drop (length ([]::ChatMessage list) + 2 - 20)
        ([] @ [\<lparr>role = User, content = trim ''Summarize my trades''\<rparr>,
               \<lparr>role = Assistant, content = ''Done.''\<rparr>])"
    by blast
  then have 1: "chatHistory (chatHandler (sampleRuntime ''{\"action\":\"summarize\"}'') sampleConfig []
       ''Summarize my trades'')
     = [\<lparr>role = User, content = ''Summarize my trades''\<rparr>, \<lparr>role = Assistant, content = ''Done.''\<rparr>]"
    by (simp only: sample_turns(4) sample_histories(1))
  from b[THEN conjunct1] sample_turns(2)
  have "chatHistory (chatHandler (sampleRuntime ''{\"action\":\"summarize\"}'') sampleConfig longHistory
       '' Summarize my trades '')
     = drop (length longHistory + 2 - 20)
        (longHistory @ [\<lparr>role = User, content = trim '' Summarize my trades ''\<rparr>,
               \<lparr>role = Assistant, content = ''Done.''\<rparr>])"
    by blast
  then have 2: "chatHistory (chatHandler (sampleRuntime ''{\"action\":\"summarize\"}'') sampleConfig longHistory
       '' Summarize my trades '')
     = replicate 18 \<lparr>role = Assistant, content = ''ok''\<rparr> @
       [\<lparr>role = User, content = ''Summarize my trades''\<rparr>, \<lparr>role = Assistant, content = ''Done.''\<rparr>]"
    by (simp only: sample_turns(5) sample_histories(2))
  have "(503::nat) \<noteq> 200 \<and> (503::nat) \<noteq> 500" by simp
  with c[THEN conjunct2, THEN conjunct2, THEN conjunct1] sample_turns(3)
  have 3: "chatHistory (chatHandler noKeyRuntime sampleConfig longHistory ''hello'') = longHistory"
    by blast
  from sample_turns(1) 1 sample_turns(6) sample_turns(2) 2 sample_turns(3) 3
  show ?thesis by (intro conjI)
qed

lemma getMissing_tradingFees:
  "''Trading Fees'' \<in> set (getMissingManualFields f) \<longleftrightarrow> m_tradingFees f = None"
  by (simp add: getMissingManualFields_def)


text \<open>
  C10. When the quantity, the amount per unit or the total amount of a manually parsed
  message is exactly 0, the missing-fields check reports that field as missing. Trading
  fees of 0 are not reported: that field is missing exactly when it is absent. While any
  field is missing, the manual fallback answers with the prompt (status 503) and does
  not call \<open>appendTradeRow\<close>, in particular when the server reaches it because
  \<open>interpretMessage\<close> failed on the credential.
\<close>

theorem zero_counts_as_missing:
  "(m_quantity (parseManualTrade js message) = Some (Num 0) \<longrightarrow>
      ''Quantity of Units'' \<in> set (getMissingManualFields (parseManualTrade js message))) \<and>
   (m_amountPerUnit (parseManualTrade js message) = Some (Num 0) \<longrightarrow>
      ''Amount per unit'' \<in> set (getMissingManualFields (parseManualTrade js message))) \<and>
   (m_totalAmount (parseManualTrade js message) = Some (Num 0) \<longrightarrow>
      ''Total Amount (before fees)'' \<in> set (getMissingManualFields (parseManualTrade js message))) \<and>
   (m_tradingFees (parseManualTrade js message) = Some (Num 0) \<longrightarrow>
      ''Trading Fees'' \<notin> set (getMissingManualFields (parseManualTrade js message))) \<and>
   (''Trading Fees'' \<in> set (getMissingManualFields (parseManualTrade js message)) \<longleftrightarrow>
      m_tradingFees (parseManualTrade js message) = None) \<and>
   (getMissingManualFields (parseManualTrade (arith rt) message) \<noteq> [] \<longrightarrow>
      manualFallback rt h message calls =
        Inr \<lparr>sent = Some \<lparr>statusCode = 503,
                 sentBody = ReplyBody (manualTradePrompt
                   (getMissingManualFields (parseManualTrade (arith rt) message))) (Some defaultTools)\<rparr>,
             chatHistory = h, appendCalls = calls\<rparr>) \<and>
   (trim m \<noteq> [] \<and> interpretMessage rt (trim m) h = Inl e \<and> isLlmAuthError e \<and>
    getMissingManualFields (parseManualTrade (arith rt) (trim m)) \<noteq> [] \<longrightarrow>
      chatHandler rt cfg h m =
        \<lparr>sent = Some \<lparr>statusCode = 503,
                 sentBody = ReplyBody (manualTradePrompt
                   (getMissingManualFields (parseManualTrade (arith rt) (trim m)))) (Some defaultTools)\<rparr>,
         chatHistory = h, appendCalls = []\<rparr>)"
proof -
  let ?f = "parseManualTrade js message"
  have 1: "m_quantity ?f = Some (Num 0) \<longrightarrow> ''Quantity of Units'' \<in> set (getMissingManualFields ?f)"
    by (simp add: getMissingManualFields_def falsyNumber_def)
  have 2: "m_amountPerUnit ?f = Some (Num 0) \<longrightarrow> ''Amount per unit'' \<in> set (getMissingManualFields ?f)"
    by (simp add: getMissingManualFields_def falsyNumber_def)
  have 3: "m_totalAmount ?f = Some (Num 0) \<longrightarrow>
      ''Total Amount (before fees)'' \<in> set (getMissingManualFields ?f)"
    by (simp add: getMissingManualFields_def falsyNumber_def)
  have 4: "m_tradingFees ?f = Some (Num 0) \<longrightarrow> ''Trading Fees'' \<notin> set (getMissingManualFields ?f)"
    by (simp add: getMissing_tradingFees)
  have 5: "''Trading Fees'' \<in> set (getMissingManualFields ?f) \<longleftrightarrow> m_tradingFees ?f = None"
    by (rule getMissing_tradingFees)
  have 6: "getMissingManualFields (parseManualTrade (arith rt) message) \<noteq> [] \<longrightarrow>
      manualFallback rt h message calls =
        Inr \<lparr>sent = Some \<lparr>statusCode = 503,
                 sentBody = ReplyBody (manualTradePrompt
                   (getMissingManualFields (parseManualTrade (arith rt) message))) (Some defaultTools)\<rparr>,
             chatHistory = h, appendCalls = calls\<rparr>"
    by (simp add: manualFallback_def Let_def)
  have 7: "trim m \<noteq> [] \<and> interpretMessage rt (trim m) h = Inl e \<and> isLlmAuthError e \<and>
    getMissingManualFields (parseManualTrade (arith rt) (trim m)) \<noteq> [] \<longrightarrow>
      chatHandler rt cfg h m =
        \<lparr>sent = Some \<lparr>statusCode = 503,
                 sentBody = ReplyBody (manualTradePrompt
                   (getMissingManualFields (parseManualTrade (arith rt) (trim m)))) (Some defaultTools)\<rparr>,
         chatHistory = h, appendCalls = []\<rparr>"
    by (simp add: chatHandler_def tryBlock_def manualFallback_def Let_def)
  from 1 2 3 4 5 6 7 show ?thesis by (intro conjI)
qed

lemma noKeyRuntime_arith: "arith noKeyRuntime = exact_arith"
  by (simp add: noKeyRuntime_def sampleRuntime_def)

lemma sample_zero_quantity:
  "m_quantity (parseManualTrade exact_arith (join [CHR 0x0A] (fieldLines (sampleValues[2 := ''0''])))) = Some (Num 0)"
  "m_tradingFees (parseManualTrade exact_arith (join [CHR 0x0A] (fieldLines (sampleValues[2 := ''0''])))) = Some (Num 0)"
  "trim (join [CHR 0x0A] (fieldLines (sampleValues[2 := ''0'']))) = join [CHR 0x0A] (fieldLines (sampleValues[2 := ''0'']))"
  "join [CHR 0x0A] (fieldLines (sampleValues[2 := ''0''])) \<noteq> []"
  "interpretMessage noKeyRuntime (join [CHR 0x0A] (fieldLines (sampleValues[2 := ''0'']))) [] = Inl ''Missing OPENAI_API_KEY''"
  "isLlmAuthError ''Missing OPENAI_API_KEY''"
  by code_simp+

theorem zero_counts_as_missing_witness:
  "m_quantity (parseManualTrade exact_arith (join [CHR 0x0A] (fieldLines (sampleValues[2 := ''0''])))) = Some (Num 0) \<and>
   m_tradingFees (parseManualTrade exact_arith (join [CHR 0x0A] (fieldLines (sampleValues[2 := ''0''])))) = Some (Num 0) \<and>
   ''Quantity of Units'' \<in> set (getMissingManualFields
      (parseManualTrade exact_arith (join [CHR 0x0A] (fieldLines (sampleValues[2 := ''0'']))))) \<and>
   ''Trading Fees'' \<notin> set (getMissingManualFields
      (parseManualTrade exact_arith (join [CHR 0x0A] (fieldLines (sampleValues[2 := ''0'']))))) \<and>
   appendCalls (chatHandler noKeyRuntime sampleConfig []
      (join [CHR 0x0A] (fieldLines (sampleValues[2 := ''0''])))) = []"
proof -
  let ?m = "join [CHR 0x0A] (fieldLines (sampleValues[2 := ''0'']))"
  note t = zero_counts_as_missing [of exact_arith ?m noKeyRuntime "[]" "[]" ?m
      "''Missing OPENAI_API_KEY''" sampleConfig]
  from t sample_zero_quantity(1)
  have 1: "''Quantity of Units'' \<in> set (getMissingManualFields (parseManualTrade exact_arith ?m))"
    by blast
  from t sample_zero_quantity(2)
  have 2: "''Trading Fees'' \<notin> set (getMissingManualFields (parseManualTrade exact_arith ?m))"
    by blast
  have ne: "getMissingManualFields (parseManualTrade (arith noKeyRuntime) (trim ?m)) \<noteq> []"
    unfolding noKeyRuntime_arith sample_zero_quantity(3) using 1 by auto
  have "trim ?m \<noteq> [] \<and> interpretMessage noKeyRuntime (trim ?m) [] = Inl ''Missing OPENAI_API_KEY'' \<and>
      isLlmAuthError ''Missing OPENAI_API_KEY''"
    by (simp only: sample_zero_quantity simp_thms not_False_eq_True)
  with t ne have "chatHandler noKeyRuntime sampleConfig [] ?m =
      \<lparr>sent = Some \<lparr>statusCode = 503,
                 sentBody = ReplyBody (manualTradePrompt
                   (getMissingManualFields (parseManualTrade (arith noKeyRuntime) (trim ?m))))
                     (Some defaultTools)\<rparr>,
         chatHistory = [], appendCalls = []\<rparr>"
    by blast
  then have 3: "appendCalls (chatHandler noKeyRuntime sampleConfig [] ?m) = []"
    by simp
  from sample_zero_quantity(1,2) 1 2 3 show ?thesis by blast
qed

end
